theory Spec2Isabelle
  imports Complex_Main
begin

section \<open>Values, errors and the sample container\<close>

text \<open>
  The notebook \<^verbatim>\<open>paper_calculations.ipynb\<close> is glue code around the PyFitIt library.
  The embedding keeps the notebook's own control flow (loops, assertions, cache tests,
  dictionary construction, path construction) and takes the numerical routines of the
  library as parameters, collected in the record \<open>lib\<close> below.

  A floating point cell is a finite value, an infinity or NaN. Finite values are
  idealised as reals: rounding and overflow of finite arithmetic are not modelled.
\<close>

datatype npfloat = Fin real | PInf | NInf | NaN

datatype val = Float npfloat | Str string

datatype error =
    AssertionError
  | AttributeError
  | TypeError
  | KeyError string
  | FileNotFoundError string
  | UnpicklingError string

text \<open>IEEE subtraction and division as numpy performs them on arrays: no exception is
  raised, a division by zero yields an infinity or NaN.\<close>

fun num_sub :: "npfloat \<Rightarrow> npfloat \<Rightarrow> npfloat" where
  "num_sub (Fin a) (Fin b) = Fin (a - b)"
| "num_sub NaN _ = NaN"
| "num_sub _ NaN = NaN"
| "num_sub PInf PInf = NaN"
| "num_sub NInf NInf = NaN"
| "num_sub PInf _ = PInf"
| "num_sub NInf _ = NInf"
| "num_sub (Fin a) PInf = NInf"
| "num_sub (Fin a) NInf = PInf"

fun num_neg :: "npfloat \<Rightarrow> npfloat" where
  "num_neg (Fin a) = Fin (- a)"
| "num_neg PInf = NInf"
| "num_neg NInf = PInf"
| "num_neg NaN = NaN"

fun num_div :: "npfloat \<Rightarrow> npfloat \<Rightarrow> npfloat" where
  "num_div (Fin a) (Fin b) =
     (if b = 0 then (if a = 0 then NaN else if 0 < a then PInf else NInf)
      else Fin (a / b))"
| "num_div NaN _ = NaN"
| "num_div _ NaN = NaN"
| "num_div (Fin a) _ = Fin 0"
| "num_div PInf (Fin b) = (if 0 \<le> b then PInf else NInf)"
| "num_div NInf (Fin b) = (if 0 \<le> b then NInf else PInf)"
| "num_div _ _ = NaN"

fun is_finite :: "npfloat \<Rightarrow> bool" where
  "is_finite (Fin a) = True"
| "is_finite _ = False"

text \<open>\<^verbatim>\<open>x < t\<close> for a cell \<open>x\<close> and a finite threshold \<open>t\<close>: a comparison with NaN is
  false.\<close>

fun num_less :: "npfloat \<Rightarrow> real \<Rightarrow> bool" where
  "num_less (Fin a) t = (a < t)"
| "num_less NInf t = True"
| "num_less PInf t = False"
| "num_less NaN t = False"

fun np_isnan :: "val \<Rightarrow> error + bool" where
  "np_isnan (Float NaN) = Inr True"
| "np_isnan (Float _) = Inr False"
| "np_isnan (Str _) = Inl TypeError"

text \<open>The spectra table of a sample (a data frame whose columns are energies) and the
  sample itself. A row of the parameter table is a dictionary from column names to the
  cells that are present; \<open>paramNames\<close> is the list of columns.\<close>

record spectraDF =
  energy :: "real list"
  intensities :: "npfloat list list"

record sample =
  folder :: string
  paramNames :: "string list"
  params :: "(string \<rightharpoonup> val) list"
  spectra :: spectraDF

record spectrum =
  sp_energy :: "real list"
  sp_intensity :: "npfloat list"

text \<open>The methods of the sample container of the library that the notebook calls,
  by their effect on the parameter table and on the spectra table.
  \<^verbatim>\<open>addParam(paramName=.., paramData=..)\<close> sets one column from an array with one
  entry per row (every call of the notebook passes such an array);
  \<^verbatim>\<open>addParam(paramGenerator=.., paramName=[..])\<close> computes several columns row by row;
  \<^verbatim>\<open>delParam\<close> removes columns; \<^verbatim>\<open>unionWith\<close> appends the rows of another sample.\<close>

definition addParam :: "string \<Rightarrow> val list \<Rightarrow> sample \<Rightarrow> sample" where
  "addParam paramName paramData s =
     s\<lparr>paramNames := (if paramName \<in> set (paramNames s) then paramNames s
                       else paramNames s @ [paramName]),
       params := map (\<lambda>(r, v). r(paramName \<mapsto> v)) (zip (params s) paramData)\<rparr>"

definition addParamGen ::
  "((string \<rightharpoonup> val) \<Rightarrow> val list) \<Rightarrow> string list \<Rightarrow> sample \<Rightarrow> sample" where
  "addParamGen paramGenerator names s =
     s\<lparr>paramNames := paramNames s @ filter (\<lambda>c. c \<notin> set (paramNames s)) names,
       params := map (\<lambda>r. r ++ map_of (zip names (paramGenerator r))) (params s)\<rparr>"

definition delParam :: "string list \<Rightarrow> sample \<Rightarrow> sample" where
  "delParam names s =
     s\<lparr>paramNames := filter (\<lambda>c. c \<notin> set names) (paramNames s),
       params := map (\<lambda>r. r |` (- set names)) (params s)\<rparr>"

definition unionWith :: "sample \<Rightarrow> sample \<Rightarrow> sample" where
  "unionWith s other =
     s\<lparr>params := params s @ params other,
       spectra := (spectra s)\<lparr>intensities :=
         intensities (spectra s) @ intensities (spectra other)\<rparr>\<rparr>"

text \<open>A column of the parameter table as a series: a missing column is a
  \<^verbatim>\<open>KeyError\<close>, a missing cell is NaN.\<close>

definition column :: "sample \<Rightarrow> string \<Rightarrow> error + val list" where
  "column s c =
     (if c \<in> set (paramNames s)
      then Inr (map (\<lambda>r. case r c of None \<Rightarrow> Float NaN | Some v \<Rightarrow> v) (params s))
      else Inl (KeyError c))"

fun val_arith :: "(npfloat \<Rightarrow> npfloat \<Rightarrow> npfloat) \<Rightarrow> val \<Rightarrow> val \<Rightarrow> error + val" where
  "val_arith f (Float a) (Float b) = Inr (Float (f a b))"
| "val_arith f _ _ = Inl TypeError"

fun series_arith :: "(npfloat \<Rightarrow> npfloat \<Rightarrow> npfloat) \<Rightarrow> val list \<Rightarrow> val list \<Rightarrow> error + val list" where
  "series_arith f (x # xs) (y # ys) =
     (case val_arith f x y of
        Inl e \<Rightarrow> Inl e
      | Inr v \<Rightarrow> (case series_arith f xs ys of Inl e \<Rightarrow> Inl e | Inr vs \<Rightarrow> Inr (v # vs)))"
| "series_arith f _ _ = Inr []"

text \<open>Decimal rendering of a natural number, as an f-string renders a Python
  \<^verbatim>\<open>int\<close>.\<close>

definition digit :: "nat \<Rightarrow> char" where
  "digit d = ''0123456789'' ! d"

function str_nat :: "nat \<Rightarrow> string" where
  "str_nat n = (if n < 10 then [digit n] else str_nat (n div 10) @ [digit (n mod 10)])"
  by pat_completeness auto
termination
  by (relation "measure id") auto

declare str_nat.simps [simp del]

definition os_sep :: string where
  "os_sep = ''/''"

text \<open>\<^verbatim>\<open>os.path.split\<close> and \<^verbatim>\<open>os.path.splitext\<close> of the POSIX path module: the
  path is cut after its last separator, and the head loses its trailing separators
  unless it consists of separators only; the extension starts at the last dot of
  the last component, unless only dots precede it there.\<close>

definition os_path_split :: "string \<Rightarrow> string \<times> string" where
  "os_path_split p =
     (let tail = rev (takeWhile (\<lambda>c. c \<noteq> CHR ''/'') (rev p));
          head = take (length p - length tail) p
      in (if head \<noteq> [] \<and> head \<noteq> replicate (length head) (CHR ''/'')
          then rev (dropWhile (\<lambda>c. c = CHR ''/'') (rev head)) else head, tail))"

definition os_path_splitext :: "string \<Rightarrow> string \<times> string" where
  "os_path_splitext p =
     (let tail = rev (takeWhile (\<lambda>c. c \<noteq> CHR ''/'') (rev p));
          after = rev (takeWhile (\<lambda>c. c \<noteq> CHR ''.'') (rev tail))
      in if CHR ''.'' \<in> set tail
            \<and> \<not> list_all (\<lambda>c. c = CHR ''.'') (take (length tail - length after - 1) tail)
         then (take (length p - length after - 1) p, drop (length p - length after - 1) p)
         else (p, []))"

section \<open>Files and the library\<close>

text \<open>What a path of the working directory holds: a pickled Python object (a pair of a
  sample and a list of names, or a single sample), a sample saved to a folder, a CSV
  table, or a file that the library keeps for itself.\<close>

datatype pyobj = Tuple sample "string list" | Obj sample

datatype fileobj =
    Pickle pyobj
  | SampleFolder sample
  | CsvTable "string list" "(string \<rightharpoonup> val) list"
  | LibFile string

type_synonym files = "string \<rightharpoonup> fileobj"

type_synonym dataframe = "(string \<times> val list) list"

text \<open>A value of a descriptor configuration dictionary.\<close>

datatype cfgval = CStr string | CBool bool | CInterval real real

type_synonym config = "string \<rightharpoonup> cfgval"

text \<open>The project object that \<^verbatim>\<open>loadProject('Fe_project.py', CN=.., valence=..)\<close>
  returns: the ranges of the geometry parameters (a dictionary from a parameter name to
  its lower and upper bound) and everything the smoothing reads from it
  (\<^verbatim>\<open>FDMNES_smooth\<close>, \<^verbatim>\<open>spectrum\<close>, \<^verbatim>\<open>intervals\<close>).\<close>

record 'p project =
  geometryParamRanges :: "string \<rightharpoonup> real \<times> real"
  smoothSettings :: 'p

text \<open>The routines of PyFitIt, numpy, pandas and the operating system that the
  notebook calls and does not define. The readers of the input files are functions of
  the path; the routines that are given output paths transform the files.
  \<^item> \<open>loadProject file CN valence\<close>, \<open>convertSampleTo data method count ranges seed\<close>;
  \<^item> \<open>moleculeOf project row\<close> is the molecule that \<^verbatim>\<open>addParam\<close> builds for a row
    before it calls the parameter generator, \<open>getSortedDists mol element\<close> its
    sorted distances;
  \<^item> \<open>smoothDataFrame project folder spectra\<close> stands for the call with the smoothing
    parameters, the experimental spectrum, the norm and the interval \<^verbatim>\<open>fit_norm\<close> of the
    project;
  \<^item> \<open>resample energy sp\<close> are the intensities of a spectrum on the energies of a
    sample, as \<^verbatim>\<open>addRow\<close> stores them, and \<open>addRow_accepts paramNames params\<close> are the
    checks that \<^verbatim>\<open>addRow\<close> makes on a dictionary of parameters beside the check of its
    keys;
  \<^item> \<open>limit energyRange spectra\<close> is the effect of \<^verbatim>\<open>sample.limit(energyRange)\<close> on
    the spectra table of the sample it is called on;
  \<^item> \<open>addDescriptors sample configs\<close> returns the sample and the indices of the good
    spectra;
  \<^item> \<open>generateMixtureOfSample size componentCount sample label_names addDescrFunc
    randomSeed componentNameColumn\<close>.\<close>

record ('p, 'm) lib =
  readSample :: "string \<Rightarrow> sample"
  loadProject :: "string \<Rightarrow> nat \<Rightarrow> nat \<Rightarrow> 'p project"
  convertSampleTo ::
    "sample \<Rightarrow> string \<Rightarrow> nat \<Rightarrow> (string \<rightharpoonup> real \<times> real) \<Rightarrow> nat \<Rightarrow> sample"
  moleculeOf :: "'p project \<Rightarrow> (string \<rightharpoonup> val) \<Rightarrow> 'm"
  getSortedDists :: "'m \<Rightarrow> string \<Rightarrow> npfloat list"
  np_mean :: "npfloat list \<Rightarrow> npfloat"
  np_std :: "npfloat list \<Rightarrow> npfloat"
  smoothDataFrame :: "'p project \<Rightarrow> string \<Rightarrow> spectraDF \<Rightarrow> spectraDF"
  listdir :: "string \<Rightarrow> string list"
  read_csv :: "string \<Rightarrow> dataframe"
  readSpectrum :: "string \<Rightarrow> spectrum"
  resample :: "real list \<Rightarrow> spectrum \<Rightarrow> npfloat list"
  addRow_accepts :: "string list \<Rightarrow> (string \<rightharpoonup> val) \<Rightarrow> bool"
  limit :: "(real \<times> real) option \<Rightarrow> spectraDF \<Rightarrow> spectraDF"
  addDescriptors ::
    "sample \<Rightarrow> config list \<Rightarrow> files \<Rightarrow> error + ((sample \<times> nat list) \<times> files)"
  splitUnknown :: "sample \<Rightarrow> sample \<times> sample"
  generateMixtureOfSample ::
    "nat \<Rightarrow> nat \<Rightarrow> sample \<Rightarrow> string list
      \<Rightarrow> (sample \<Rightarrow> files \<Rightarrow> error + ((sample \<times> nat list) \<times> files))
      \<Rightarrow> nat \<Rightarrow> string \<Rightarrow> files \<Rightarrow> error + (sample \<times> files)"

definition bindE :: "error + 'a \<Rightarrow> ('a \<Rightarrow> error + 'b) \<Rightarrow> error + 'b" where
  "bindE m f = (case m of Inl e \<Rightarrow> Inl e | Inr x \<Rightarrow> f x)"

text \<open>\<^verbatim>\<open>all_data.addRow(sp, true)\<close>. The method asserts that every key of the
  dictionary is a parameter of the sample; what else it asserts of the dictionary is
  the library's. A dictionary that passes gives one more row, with its parameters and
  with the spectrum brought to the energies of the sample; the parameters of the sample
  stay the same.\<close>

definition row_accepted :: "('p, 'm) lib \<Rightarrow> sample \<Rightarrow> (string \<rightharpoonup> val) \<Rightarrow> bool" where
  "row_accepted L s true =
     (dom true \<subseteq> set (paramNames s) \<and> addRow_accepts L (paramNames s) true)"

definition addRow ::
  "('p, 'm) lib \<Rightarrow> spectrum \<Rightarrow> (string \<rightharpoonup> val) \<Rightarrow> sample \<Rightarrow> error + sample" where
  "addRow L sp true s =
     (if \<not> row_accepted L s true then Inl AssertionError
      else Inr (s\<lparr>params := params s @ [true],
                  spectra := (spectra s)\<lparr>intensities :=
                    intensities (spectra s) @ [resample L (energy (spectra s)) sp]\<rparr>\<rparr>))"

definition saveToFolder :: "sample \<Rightarrow> string \<Rightarrow> files \<Rightarrow> files" where
  "saveToFolder s path fs = fs(path \<mapsto> SampleFolder s)"

definition save_pkl :: "pyobj \<Rightarrow> string \<Rightarrow> files \<Rightarrow> files" where
  "save_pkl ob path fs = fs(path \<mapsto> Pickle ob)"

definition load_pkl :: "string \<Rightarrow> files \<Rightarrow> error + pyobj" where
  "load_pkl path fs =
     (case fs path of
        None \<Rightarrow> Inl (FileNotFoundError path)
      | Some (Pickle ob) \<Rightarrow> Inr ob
      | Some _ \<Rightarrow> Inl (UnpicklingError path))"

definition to_csv :: "sample \<Rightarrow> string \<Rightarrow> files \<Rightarrow> files" where
  "to_csv s path fs = fs(path \<mapsto> CsvTable (paramNames s) (params s))"

definition path_exists :: "files \<Rightarrow> string \<Rightarrow> bool" where
  "path_exists fs path = (fs path \<noteq> None)"

text \<open>Unpacking \<^verbatim>\<open>a, b = utils.load_pkl(..)\<close>: the loaded object has to be a pair.\<close>

fun unpack2 :: "pyobj \<Rightarrow> error + (sample \<times> string list)" where
  "unpack2 (Tuple s names) = Inr (s, names)"
| "unpack2 (Obj s) = Inl TypeError"

section \<open>loadSpectra\<close>

definition calcDist :: "('p, 'm) lib \<Rightarrow> (string \<rightharpoonup> val) \<Rightarrow> 'm \<Rightarrow> nat \<Rightarrow> val list" where
  "calcDist L row mol CN =
     (let dists = getSortedDists L mol ''O''
      in [Float (np_mean L (take CN dists)), Float (np_std L (take CN dists))])"

text \<open>\<^verbatim>\<open>for r in ['r1', 'r2']: if r in geometryParamRanges: geometryParamRanges[r][0] = 1.8\<close>\<close>

fun raiseLowerBounds ::
  "string list \<Rightarrow> (string \<rightharpoonup> real \<times> real) \<Rightarrow> (string \<rightharpoonup> real \<times> real)" where
  "raiseLowerBounds [] g = g"
| "raiseLowerBounds (r # rs) g =
     raiseLowerBounds rs (case g r of None \<Rightarrow> g | Some (lo, hi) \<Rightarrow> g(r \<mapsto> (18 / 10, hi)))"

definition all_below :: "spectraDF \<Rightarrow> real \<Rightarrow> bool" where
  "all_below df t = list_all (list_all (\<lambda>x. num_less x t)) (intensities df)"

definition sampleName :: "nat \<Rightarrow> nat \<Rightarrow> nat \<Rightarrow> string" where
  "sampleName CN valence i = ''cn'' @ str_nat CN @ ''v'' @ str_nat valence @ ''_'' @ str_nat i"

text \<open>The sample that the body of the loops reads (and converts, with
  \<^verbatim>\<open>convertToIHS\<close>), the project with its ranges as the body leaves them, and the
  body itself: one (CN, valence) sub-sample with its parameters replaced, its spectra
  smoothed and checked, and its names added.\<close>

definition sourceProject :: "('p, 'm) lib \<Rightarrow> bool \<Rightarrow> nat \<Rightarrow> nat \<Rightarrow> 'p project" where
  "sourceProject L convertToIHS CN valence =
     (let project = loadProject L ''Fe_project.py'' CN valence
      in if convertToIHS
         then project\<lparr>geometryParamRanges :=
                raiseLowerBounds [''r1'', ''r2''] (geometryParamRanges project)\<rparr>
         else project)"

definition sourceData :: "('p, 'm) lib \<Rightarrow> string \<Rightarrow> bool \<Rightarrow> nat \<Rightarrow> nat \<Rightarrow> sample" where
  "sourceData L sampleFolder convertToIHS CN valence =
     (let data = readSample L (sampleFolder @ os_sep @ ''sample_'' @ str_nat CN)
      in if convertToIHS
         then convertSampleTo L data ''IHS'' 500
                (geometryParamRanges (sourceProject L convertToIHS CN valence)) 0
         else data)"

definition loadSpectra_body ::
  "('p, 'm) lib \<Rightarrow> string \<Rightarrow> bool \<Rightarrow> nat \<Rightarrow> nat \<Rightarrow> files \<Rightarrow> error + (sample \<times> files)" where
  "loadSpectra_body L sampleFolder convertToIHS CN valence fs =
     (let project = sourceProject L convertToIHS CN valence;
          data = sourceData L sampleFolder convertToIHS CN valence;
          fs = (if convertToIHS
                then saveToFolder data
                       (''generated/samples/sample_'' @ str_nat CN @ ''_IHS_generated'') fs
                else fs);
          n = length (params data);
          oldParams = paramNames data;
          data = addParamGen (\<lambda>row. calcDist L row (moleculeOf L project row) CN)
                   [''FeODist'', ''stdDist''] data;
          data = addParam ''CN'' (replicate n (Float (Fin (real CN)))) data;
          data = addParam ''valence'' (replicate n (Float (Fin (real valence)))) data;
          data = delParam oldParams data;
          data = data\<lparr>spectra := smoothDataFrame L project (folder data) (spectra data)\<rparr>
      in if \<not> all_below (spectra data) 15 then Inl AssertionError
         else Inr (addParam ''name'' (map (\<lambda>i. Str (sampleName CN valence i)) [0..<n]) data,
                   fs))"

text \<open>The two nested loops over \<^verbatim>\<open>range(2,7)\<close> and \<^verbatim>\<open>[2,3]\<close>, run over the list of
  their (CN, valence) pairs; \<open>all_data\<close> is \<^verbatim>\<open>None\<close> before the first pass.\<close>

fun loadSpectra_loop ::
  "('p, 'm) lib \<Rightarrow> string \<Rightarrow> bool \<Rightarrow> (nat \<times> nat) list \<Rightarrow> sample option \<Rightarrow> files
    \<Rightarrow> error + (sample option \<times> files)" where
  "loadSpectra_loop L sampleFolder convertToIHS [] all_data fs = Inr (all_data, fs)"
| "loadSpectra_loop L sampleFolder convertToIHS ((CN, valence) # rest) all_data fs =
     (case loadSpectra_body L sampleFolder convertToIHS CN valence fs of
        Inl e \<Rightarrow> Inl e
      | Inr (data, fs') \<Rightarrow>
          loadSpectra_loop L sampleFolder convertToIHS rest
            (Some (case all_data of None \<Rightarrow> data | Some a \<Rightarrow> unionWith a data)) fs')"

definition cn_valence_pairs :: "(nat \<times> nat) list" where
  "cn_valence_pairs = concat (map (\<lambda>CN. map (\<lambda>valence. (CN, valence)) [2, 3]) [2..<7])"

text \<open>The experimental spectra. \<^verbatim>\<open>trueParams.loc[i, col]\<close> reads a cell of the table
  of known parameters (a short column is padded with NaN, as \<^verbatim>\<open>read_csv\<close> pads short
  lines), and \<^verbatim>\<open>np.where(trueParams['name'].to_numpy() == name)[0]\<close> lists the rows
  whose name is the given one.\<close>

definition loc :: "dataframe \<Rightarrow> nat \<Rightarrow> string \<Rightarrow> val" where
  "loc df i c =
     (case map_of df c of
        None \<Rightarrow> Float NaN
      | Some xs \<Rightarrow> if i < length xs then xs ! i else Float NaN)"

definition matching_rows :: "dataframe \<Rightarrow> string \<Rightarrow> error + nat list" where
  "matching_rows df name =
     (case map_of df ''name'' of
        None \<Rightarrow> Inl (KeyError ''name'')
      | Some col \<Rightarrow> Inr (filter (\<lambda>j. col ! j = Str name) [0..<length col]))"

text \<open>The dictionary comprehension
  \<^verbatim>\<open>{col: loc[i,col] for col in set(columns) if col == 'name' or not np.isnan(loc[i,col])}\<close>.\<close>

fun row_dict :: "dataframe \<Rightarrow> nat \<Rightarrow> string list \<Rightarrow> error + (string \<rightharpoonup> val)" where
  "row_dict df i [] = Inr Map.empty"
| "row_dict df i (c # cs) =
     bindE (if c = ''name'' then Inr True
            else bindE (np_isnan (loc df i c)) (\<lambda>b. Inr (\<not> b)))
       (\<lambda>keep. bindE (row_dict df i cs)
          (\<lambda>m. Inr (if keep then m(c \<mapsto> loc df i c) else m)))"

definition true_values :: "dataframe \<Rightarrow> string \<Rightarrow> error + (string \<rightharpoonup> val)" where
  "true_values trueParams name =
     bindE (matching_rows trueParams name)
       (\<lambda>i. if length i > 0
             then (if length i \<noteq> 1 then Inl AssertionError
                   else row_dict trueParams (i ! 0) (map fst trueParams))
             else Inr [''name'' \<mapsto> Str name])"

definition exp_name :: "string \<Rightarrow> string" where
  "exp_name f = fst (os_path_splitext (snd (os_path_split f)))"

fun addExperiments ::
  "('p, 'm) lib \<Rightarrow> dataframe \<Rightarrow> string list \<Rightarrow> sample option \<Rightarrow> string list
    \<Rightarrow> error + (sample option \<times> string list)" where
  "addExperiments L trueParams [] all_data exp_spectra_names =
     Inr (all_data, exp_spectra_names)"
| "addExperiments L trueParams (f # rest) all_data exp_spectra_names =
     (let name = exp_name f;
          sp = readSpectrum L (''exp'' @ os_sep @ f)
      in bindE (true_values trueParams name)
           (\<lambda>true. case all_data of
                      None \<Rightarrow> Inl AttributeError
                    | Some a \<Rightarrow>
                        bindE (addRow L sp true a)
                          (\<lambda>a'. addExperiments L trueParams rest (Some a')
                                  (exp_spectra_names @ [name]))))"

definition loadSpectra ::
  "('p, 'm) lib \<Rightarrow> (real \<times> real) option \<Rightarrow> string \<Rightarrow> bool \<Rightarrow> files
    \<Rightarrow> error + ((sample \<times> string list) \<times> files)" where
  "loadSpectra L energyRange sampleFolder convertToIHS fs =
     bindE (loadSpectra_loop L sampleFolder convertToIHS cn_valence_pairs None fs)
       (\<lambda>(all_data, fs').
          bindE (addExperiments L (read_csv L ''exp_true_values.csv'') (listdir L ''exp'')
                   all_data [])
            (\<lambda>(all_data, exp_spectra_names).
               case all_data of
                 None \<Rightarrow> Inl AttributeError
               | Some a \<Rightarrow>
                   Inr ((a\<lparr>spectra := limit L energyRange (spectra a)\<rparr>, exp_spectra_names),
                        fs')))"

section \<open>Descriptors\<close>

definition descriptorConfigs :: "bool \<Rightarrow> string \<Rightarrow> config list" where
  "descriptorConfigs usePcaPrebuildData pcaPrebuildDataFile =
     (let efermi = [''type'' \<mapsto> CStr ''efermi'', ''columnName'' \<mapsto> CStr ''Edge''];
          stableMin = [''type'' \<mapsto> CStr ''stableExtrema'', ''extremaType'' \<mapsto> CStr ''min'',
                       ''energyInterval'' \<mapsto> CInterval 7135 7190,
                       ''plotFolderPrefix'' \<mapsto> CStr ''generated/stable_extrema'',
                       ''columnName'' \<mapsto> CStr ''Pit''];
          stableMax = stableMin;
          stableMax = stableMax(''extremaType'' \<mapsto> CStr ''max'');
          stableMax = stableMax(''energyInterval'' \<mapsto> CInterval 7120 7150);
          stableMax = stableMax(''columnName'' \<mapsto> CStr ''WL'');
          relPcaPrebuildDataFile =
            fst (os_path_split pcaPrebuildDataFile) @ os_sep @ ''rel_''
              @ snd (os_path_split pcaPrebuildDataFile)
      in [stableMin, stableMax, efermi,
          [''type'' \<mapsto> CStr ''pca'', ''usePcaPrebuildData'' \<mapsto> CBool usePcaPrebuildData,
           ''fileName'' \<mapsto> CStr pcaPrebuildDataFile, ''columnName'' \<mapsto> CStr ''PCA''],
          [''type'' \<mapsto> CStr ''rel_pca'', ''usePcaPrebuildData'' \<mapsto> CBool usePcaPrebuildData,
           ''fileName'' \<mapsto> CStr relPcaPrebuildDataFile, ''columnName'' \<mapsto> CStr ''rPCA'']])"

text \<open>The two parameters that \<^verbatim>\<open>calc_descriptors\<close> derives from the columns of the
  descriptors. The columns are read from the table \<^verbatim>\<open>d = sample.params\<close>, in the order in
  which the two statements evaluate them.\<close>

definition addDerived :: "sample \<Rightarrow> error + sample" where
  "addDerived smp =
     bindE (column smp ''Pit_e'') (\<lambda>pit_e.
     bindE (column smp ''WL_e'') (\<lambda>wl_e.
     bindE (series_arith num_sub pit_e wl_e) (\<lambda>width.
     bindE (column smp ''WL_i'') (\<lambda>wl_i.
     bindE (column smp ''Pit_i'') (\<lambda>pit_i.
     bindE (series_arith num_sub wl_i pit_i) (\<lambda>height.
     bindE (series_arith num_sub pit_e wl_e) (\<lambda>width2.
     bindE (series_arith num_div height width2) (\<lambda>slope.
       Inr (addParam ''WL-Pit_slope'' slope (addParam ''Pit_e-WL_e'' width smp))))))))))"

definition calc_descriptors ::
  "('p, 'm) lib \<Rightarrow> sample \<Rightarrow> bool \<Rightarrow> string \<Rightarrow> files
    \<Rightarrow> error + ((sample \<times> nat list) \<times> files)" where
  "calc_descriptors L smp usePcaPrebuildData pcaPrebuildDataFile fs =
     bindE (addDescriptors L smp (descriptorConfigs usePcaPrebuildData pcaPrebuildDataFile) fs)
       (\<lambda>((smp', goodSpectrumIndices), fs').
          bindE (addDerived smp') (\<lambda>smp''. Inr ((smp'', goodSpectrumIndices), fs')))"

section \<open>The cached stages\<close>

definition stage_initial ::
  "('p, 'm) lib \<Rightarrow> files \<Rightarrow> error + ((sample \<times> string list \<times> sample) \<times> files)" where
  "stage_initial L fs =
     (if path_exists fs ''generated/data_initial.pkl''
      then bindE (bindE (load_pkl ''generated/data_initial.pkl'' fs) unpack2)
             (\<lambda>(singleComponentData, exp_spectra_names).
                bindE (bindE (load_pkl ''generated/data_initial_IHS_generated.pkl'' fs) unpack2)
                  (\<lambda>(singleComponentDataIHSgen, _).
                     Inr ((singleComponentData, exp_spectra_names, singleComponentDataIHSgen),
                          fs)))
      else bindE (loadSpectra L (Some (7100, 7200)) ''samples'' False fs)
             (\<lambda>((singleComponentData, exp_spectra_names), fs1).
                bindE (loadSpectra L (Some (7100, 7200)) ''samples'' True fs1)
                  (\<lambda>((singleComponentDataIHSgen, _), fs2).
                     Inr ((singleComponentData, exp_spectra_names, singleComponentDataIHSgen),
                          save_pkl (Tuple singleComponentDataIHSgen exp_spectra_names)
                            ''generated/data_initial_IHS_generated.pkl''
                            (save_pkl (Tuple singleComponentData exp_spectra_names)
                               ''generated/data_initial.pkl'' fs2)))))"

definition stage_descriptors ::
  "('p, 'm) lib \<Rightarrow> sample \<Rightarrow> string list \<Rightarrow> sample \<Rightarrow> files
    \<Rightarrow> error + ((sample \<times> sample) \<times> files)" where
  "stage_descriptors L singleComponentData exp_spectra_names singleComponentDataIHSgen fs =
     (if path_exists fs ''generated/data.pkl''
      then bindE (bindE (load_pkl ''generated/data.pkl'' fs) unpack2)
             (\<lambda>(singleComponentData, _).
                bindE (bindE (load_pkl ''generated/data_IHS_gen.pkl'' fs) unpack2)
                  (\<lambda>(singleComponentDataIHSgen, _).
                     Inr ((singleComponentData, singleComponentDataIHSgen), fs)))
      else bindE (calc_descriptors L singleComponentData False ''generated/pca_data.pkl'' fs)
             (\<lambda>((singleComponentData, _), fs1).
                bindE (calc_descriptors L singleComponentDataIHSgen False
                         ''generated/pca_data_IHS_gen.pkl'' fs1)
                  (\<lambda>((singleComponentDataIHSgen, _), fs2).
                     Inr ((singleComponentData, singleComponentDataIHSgen),
                          save_pkl (Tuple singleComponentDataIHSgen exp_spectra_names)
                            ''generated/data_IHS_gen.pkl''
                            (save_pkl (Tuple singleComponentData exp_spectra_names)
                               ''generated/data.pkl'' fs2)))))"

definition label_names :: "string list" where
  "label_names = [''CN'', ''FeODist'', ''stdDist'', ''valence'']"

definition stage_mixture ::
  "('p, 'm) lib \<Rightarrow> sample \<Rightarrow> sample \<Rightarrow> files \<Rightarrow> error + ((pyobj \<times> pyobj) \<times> files)" where
  "stage_mixture L singleComponentData singleComponentDataIHSgen fs =
     (if path_exists fs ''generated/mix_data.pkl''
      then bindE (load_pkl ''generated/mix_data.pkl'' fs)
             (\<lambda>mixtureData.
                bindE (load_pkl ''generated/mix_data_IHS_generated.pkl'' fs)
                  (\<lambda>mixtureDataIHSgen. Inr ((mixtureData, mixtureDataIHSgen), fs)))
      else bindE (generateMixtureOfSample L 5000 2 singleComponentData label_names
                    (\<lambda>smp. calc_descriptors L smp True ''generated/pca_data.pkl'') 1 ''name'' fs)
             (\<lambda>(mixtureData, fs1).
                bindE (generateMixtureOfSample L 5000 2 singleComponentDataIHSgen label_names
                         (\<lambda>smp. calc_descriptors L smp True ''generated/pca_data_IHS_gen.pkl'')
                         1 ''name'' fs1)
                  (\<lambda>(mixtureDataIHSgen, fs2).
                     Inr ((Obj mixtureData, Obj mixtureDataIHSgen),
                          to_csv mixtureDataIHSgen ''generated/mix_data_IHS_generated.csv''
                            (to_csv mixtureData ''generated/mix_data.csv''
                               (save_pkl (Obj mixtureDataIHSgen)
                                  ''generated/mix_data_IHS_generated.pkl''
                                  (save_pkl (Obj mixtureData) ''generated/mix_data.pkl''
                                     fs2)))))))"

text \<open>The three stages in sequence, as the cells of the notebook run them; between the
  second and the third each sample is divided into its known part (theory) and its
  unknown part (experiments).\<close>

definition cached_pipeline ::
  "('p, 'm) lib \<Rightarrow> files \<Rightarrow> error + ((sample \<times> sample \<times> sample \<times> pyobj \<times> pyobj) \<times> files)" where
  "cached_pipeline L fs =
     bindE (stage_initial L fs)
       (\<lambda>((singleComponentData, exp_spectra_names, singleComponentDataIHSgen), fs1).
          bindE (stage_descriptors L singleComponentData exp_spectra_names
                   singleComponentDataIHSgen fs1)
            (\<lambda>((singleComponentData, singleComponentDataIHSgen), fs2).
               let (singleComponentData, exp_sample) = splitUnknown L singleComponentData;
                   (singleComponentDataIHSgen, _) = splitUnknown L singleComponentDataIHSgen
               in bindE (stage_mixture L singleComponentData singleComponentDataIHSgen fs2)
                    (\<lambda>((mixtureData, mixtureDataIHSgen), fs3).
                       Inr ((singleComponentData, exp_sample, singleComponentDataIHSgen,
                             mixtureData, mixtureDataIHSgen), fs3))))"

text \<open>The first two stages in sequence.\<close>

definition initial_and_descriptors ::
  "('p, 'm) lib \<Rightarrow> files \<Rightarrow> error + ((sample \<times> string list \<times> sample) \<times> files)" where
  "initial_and_descriptors L fs =
     bindE (stage_initial L fs)
       (\<lambda>((singleComponentData, exp_spectra_names, singleComponentDataIHSgen), fs1).
          bindE (stage_descriptors L singleComponentData exp_spectra_names
                   singleComponentDataIHSgen fs1)
            (\<lambda>((singleComponentData, singleComponentDataIHSgen), fs2).
               Inr ((singleComponentData, exp_spectra_names, singleComponentDataIHSgen), fs2)))"

section \<open>Auxiliary notions for the statements\<close>

text \<open>The smoothed spectra table of one (CN, valence) sub-sample, as the loop body
  computes it, and the cell of a parameter table as a series shows it.\<close>

definition smoothedSpectra :: "('p, 'm) lib \<Rightarrow> string \<Rightarrow> bool \<Rightarrow> nat \<Rightarrow> nat \<Rightarrow> spectraDF" where
  "smoothedSpectra L sampleFolder convertToIHS CN valence =
     smoothDataFrame L (sourceProject L convertToIHS CN valence)
       (folder (sourceData L sampleFolder convertToIHS CN valence))
       (spectra (sourceData L sampleFolder convertToIHS CN valence))"

definition cell :: "sample \<Rightarrow> nat \<Rightarrow> string \<Rightarrow> val" where
  "cell s i c = (case (params s ! i) c of None \<Rightarrow> Float NaN | Some v \<Rightarrow> v)"

text \<open>The spectra table that the loops of \<^verbatim>\<open>loadSpectra\<close> build: the smoothed table of
  the first sub-sample, with the rows of the smoothed tables of all ten sub-samples
  and then the rows \<open>exps\<close> of the experimental spectra. A sample is prepared when its
  spectra table is such a table restricted to the energy range [7100, 7200]. A checked
  library is a library whose descriptor routine refuses every sample that does not
  satisfy a given condition.\<close>

definition smoothedTable ::
  "('p, 'm) lib \<Rightarrow> string \<Rightarrow> bool \<Rightarrow> npfloat list list \<Rightarrow> spectraDF" where
  "smoothedTable L sampleFolder convertToIHS exps =
     (smoothedSpectra L sampleFolder convertToIHS 2 2)\<lparr>intensities :=
        concat (map (\<lambda>(CN, valence).
          intensities (smoothedSpectra L sampleFolder convertToIHS CN valence)) cn_valence_pairs)
        @ exps\<rparr>"

definition prepared :: "('p, 'm) lib \<Rightarrow> sample \<Rightarrow> bool" where
  "prepared L s =
     (\<exists>convertToIHS exps.
        spectra s = limit L (Some (7100, 7200)) (smoothedTable L ''samples'' convertToIHS exps))"

text \<open>The working directory holds a prepared cache of the first stage: if the cache
  file that the stage tests holds a pair, the sample of the pair is prepared, and so is
  the sample of the second cache file if that file holds a pair.\<close>

definition cache_prepared :: "('p, 'm) lib \<Rightarrow> files \<Rightarrow> bool" where
  "cache_prepared L fs =
     (\<forall>a n. fs ''generated/data_initial.pkl'' = Some (Pickle (Tuple a n)) \<longrightarrow>
        prepared L a
        \<and> (\<forall>b m. fs ''generated/data_initial_IHS_generated.pkl'' = Some (Pickle (Tuple b m)) \<longrightarrow>
              prepared L b))"

definition checked :: "(sample \<Rightarrow> bool) \<Rightarrow> ('p, 'm) lib \<Rightarrow> ('p, 'm) lib" where
  "checked P L =
     L\<lparr>addDescriptors :=
         (\<lambda>s cfgs fs. if P s then addDescriptors L s cfgs fs else Inl AssertionError)\<rparr>"

text \<open>The parameter rows of one (CN, valence) sub-sample when it leaves the loop body:
  row \<open>i\<close> of the source sample with the two distance parameters, \<^verbatim>\<open>CN\<close> and
  \<^verbatim>\<open>valence\<close> set, the old columns removed and the name set. A source sample is well
  formed when its rows have cells in its columns only and none of its columns is named
  like one of the four new parameters.\<close>

definition theoryRows ::
  "('p, 'm) lib \<Rightarrow> string \<Rightarrow> bool \<Rightarrow> nat \<Rightarrow> nat \<Rightarrow> (string \<rightharpoonup> val) list" where
  "theoryRows L sampleFolder convertToIHS CN valence =
     (let src = sourceData L sampleFolder convertToIHS CN valence;
          project = sourceProject L convertToIHS CN valence
      in map (\<lambda>i.
           (((params src ! i
               ++ map_of (zip [''FeODist'', ''stdDist'']
                    (calcDist L (params src ! i) (moleculeOf L project (params src ! i)) CN)))
              (''CN'' \<mapsto> Float (Fin (real CN)), ''valence'' \<mapsto> Float (Fin (real valence))))
             |` (- set (paramNames src)))
            (''name'' \<mapsto> Str (sampleName CN valence i)))
           [0..<length (params src)])"

definition well_formed_source :: "sample \<Rightarrow> bool" where
  "well_formed_source s =
     (list_all (\<lambda>c. c \<notin> set (paramNames s)) [''FeODist'', ''stdDist'', ''CN'', ''valence'']
      \<and> list_all (\<lambda>r. dom r \<subseteq> set (paramNames s)) (params s))"

text \<open>The table of known parameters as the notebook expects it: every column but
  \<^verbatim>\<open>name\<close> holds numbers. The row that the dictionary comprehension builds from row
  \<open>i\<close> of such a table: the name and every cell that is not NaN. The dictionary that
  is expected for an experimental spectrum of a given name.\<close>

definition numeric_params :: "dataframe \<Rightarrow> bool" where
  "numeric_params df =
     list_all (\<lambda>(c, xs). c = ''name'' \<or> list_all (\<lambda>x. case x of Float _ \<Rightarrow> True | Str _ \<Rightarrow> False) xs) df"

definition known_row :: "dataframe \<Rightarrow> nat \<Rightarrow> (string \<rightharpoonup> val)" where
  "known_row df i =
     (\<lambda>c. if c \<in> set (map fst df) \<and> (c = ''name'' \<or> loc df i c \<noteq> Float NaN)
          then Some (loc df i c) else None)"

definition count_rows :: "dataframe \<Rightarrow> string \<Rightarrow> nat" where
  "count_rows df name =
     (case map_of df ''name'' of
        None \<Rightarrow> 0
      | Some col \<Rightarrow> length (filter (\<lambda>j. col ! j = Str name) [0..<length col]))"

definition expected_true :: "dataframe \<Rightarrow> string \<Rightarrow> (string \<rightharpoonup> val)" where
  "expected_true df name =
     (case map_of df ''name'' of
        None \<Rightarrow> Map.empty
      | Some col \<Rightarrow>
          (case filter (\<lambda>j. col ! j = Str name) [0..<length col] of
             [] \<Rightarrow> [''name'' \<mapsto> Str name]
           | i # _ \<Rightarrow> known_row df i))"

section \<open>A small concrete library\<close>

text \<open>One-row samples, an identity smoothing, one experimental file and a table of
  known parameters with one row: enough to run every function of the notebook.\<close>

definition sample0 :: sample where
  "sample0 = \<lparr>folder = ''samples/sample'', paramNames = [''r1''],
     params = [[''r1'' \<mapsto> Float (Fin 2)]],
     spectra = \<lparr>energy = [7110], intensities = [[Fin 1]]\<rparr>\<rparr>"

definition descr0 :: "sample \<Rightarrow> sample" where
  "descr0 s = s\<lparr>paramNames := paramNames s @ [''Pit_e'', ''Pit_i'', ''WL_e'', ''WL_i''],
     params := map (\<lambda>r. r(''Pit_e'' \<mapsto> Float (Fin 7150), ''Pit_i'' \<mapsto> Float (Fin 1),
                           ''WL_e'' \<mapsto> Float (Fin 7130), ''WL_i'' \<mapsto> Float (Fin 2))) (params s)\<rparr>"

definition lib0 :: "(unit, unit) lib" where
  "lib0 = \<lparr>readSample = (\<lambda>_. sample0),
     loadProject = (\<lambda>_ _ _. \<lparr>geometryParamRanges = [''r1'' \<mapsto> (1, 3)], smoothSettings = ()\<rparr>),
     convertSampleTo = (\<lambda>s _ _ _ _. s),
     moleculeOf = (\<lambda>_ _. ()),
     getSortedDists = (\<lambda>_ _. [Fin 2, Fin 2]),
     np_mean = (\<lambda>xs. case xs of [] \<Rightarrow> NaN | x # _ \<Rightarrow> x),
     np_std = (\<lambda>xs. Fin 0),
     smoothDataFrame = (\<lambda>_ _ df. df),
     listdir = (\<lambda>_. [''a.txt'']),
     read_csv = (\<lambda>_. [(''name'', [Str ''a'']), (''CN'', [Float (Fin 4)]),
                      (''valence'', [Float NaN])]),
     readSpectrum = (\<lambda>_. \<lparr>sp_energy = [7110], sp_intensity = [Fin 1]\<rparr>),
     resample = (\<lambda>_ sp. sp_intensity sp),
     addRow_accepts = (\<lambda>_ _. True),
     limit = (\<lambda>_ df. df),
     addDescriptors = (\<lambda>s _ fs. Inr ((descr0 s, [0..<length (params s)]), fs)),
     splitUnknown = (\<lambda>s. (s, s)),
     generateMixtureOfSample =
       (\<lambda>_ _ s _ f _ _ fs. bindE (f s fs) (\<lambda>((s', _), fs'). Inr (s', fs')))\<rparr>"

text \<open>A sample with the five parameters of a theoretical row.\<close>

definition sample_theory :: sample where
  "sample_theory = \<lparr>folder = ''samples/sample'',
     paramNames = [''FeODist'', ''stdDist'', ''CN'', ''valence'', ''name''],
     params = [[''FeODist'' \<mapsto> Float (Fin 2), ''stdDist'' \<mapsto> Float (Fin 0),
                ''CN'' \<mapsto> Float (Fin 2), ''valence'' \<mapsto> Float (Fin 2),
                ''name'' \<mapsto> Str ''cn2v2_0'']],
     spectra = \<lparr>energy = [7110], intensities = [[Fin 1]]\<rparr>\<rparr>"

text \<open>A table of known parameters with two rows of the same name.\<close>

definition trueParams_dup :: dataframe where
  "trueParams_dup = [(''name'', [Str ''a'', Str ''a'']), (''CN'', [Float (Fin 4), Float (Fin 6)])]"

text \<open>A working directory that holds the first cache file of the first stage and not
  the second one, and one that holds the second and not the first.\<close>

definition files_first_only :: files where
  "files_first_only = [''generated/data_initial.pkl'' \<mapsto> Pickle (Tuple sample0 [''a''])]"

definition files_second_only :: files where
  "files_second_only =
     [''generated/data_initial_IHS_generated.pkl'' \<mapsto> Pickle (Tuple sample0 [''old''])]"

text \<open>The same library with a smoothing that returns an intensity of 20.\<close>

definition lib_hot :: "(unit, unit) lib" where
  "lib_hot = lib0\<lparr>smoothDataFrame := (\<lambda>_ _ df. df\<lparr>intensities := [[Fin 20]]\<rparr>)\<rparr>"

section \<open>Basic facts\<close>

lemma bindE_Inl [simp]: "bindE (Inl e) f = Inl e"
  by (simp add: bindE_def)

lemma bindE_Inr [simp]: "bindE (Inr x) f = f x"
  by (simp add: bindE_def)

lemma bindE_eq_Inr: "bindE m f = Inr y \<longleftrightarrow> (\<exists>x. m = Inr x \<and> f x = Inr y)"
  by (cases m) auto

lemma bindE_eq_Inl: "bindE m f = Inl e \<longleftrightarrow> (m = Inl e \<or> (\<exists>x. m = Inr x \<and> f x = Inl e))"
  by (cases m) auto

lemma folder_addParam [simp]: "folder (addParam n d s) = folder s"
  by (simp add: addParam_def)

lemma folder_addParamGen [simp]: "folder (addParamGen g n s) = folder s"
  by (simp add: addParamGen_def)

lemma folder_delParam [simp]: "folder (delParam n s) = folder s"
  by (simp add: delParam_def)

lemma spectra_addParam [simp]: "spectra (addParam n d s) = spectra s"
  by (simp add: addParam_def)

lemma spectra_addParamGen [simp]: "spectra (addParamGen g n s) = spectra s"
  by (simp add: addParamGen_def)

lemma spectra_delParam [simp]: "spectra (delParam n s) = spectra s"
  by (simp add: delParam_def)

section \<open>The intensity assertion of loadSpectra\<close>

lemma body_ok:
  "all_below (smoothedSpectra L sf ihs CN v) 15 \<Longrightarrow> \<exists>r. loadSpectra_body L sf ihs CN v fs = Inr r"
  unfolding loadSpectra_body_def smoothedSpectra_def Let_def
  by simp

lemma body_fail:
  "\<not> all_below (smoothedSpectra L sf ihs CN v) 15 \<Longrightarrow> loadSpectra_body L sf ihs CN v fs = Inl AssertionError"
  unfolding loadSpectra_body_def smoothedSpectra_def Let_def
  by simp

lemma body_spectra:
  "loadSpectra_body L sf ihs CN v fs = Inr (data, fs') \<Longrightarrow> spectra data = smoothedSpectra L sf ihs CN v \<and> all_below (smoothedSpectra L sf ihs CN v) 15"
  unfolding loadSpectra_body_def smoothedSpectra_def Let_def
  by (auto split: if_splits)

lemma loop_ok:
  "\<forall>(CN, v) \<in> set ps. all_below (smoothedSpectra L sf ihs CN v) 15 \<Longrightarrow>
   \<exists>r. loadSpectra_loop L sf ihs ps all_data fs = Inr r"
proof (induction ps arbitrary: all_data fs)
  case Nil
  then show ?case by simp
next
  case (Cons p ps)
  obtain CN v where p: "p = (CN, v)" by (cases p)
  from Cons.prems p have "all_below (smoothedSpectra L sf ihs CN v) 15" by simp
  then obtain data fs' where b: "loadSpectra_body L sf ihs CN v fs = Inr (data, fs')"
    using body_ok by (metis surj_pair)
  from Cons.prems have "\<forall>(CN, v) \<in> set ps. all_below (smoothedSpectra L sf ihs CN v) 15" by simp
  from Cons.IH [OF this] show ?case by (simp add: p b)
qed

lemma loop_fail:
  "\<exists>(CN, v) \<in> set ps. \<not> all_below (smoothedSpectra L sf ihs CN v) 15 \<Longrightarrow>
   loadSpectra_loop L sf ihs ps all_data fs = Inl AssertionError"
proof (induction ps arbitrary: all_data fs)
  case Nil
  then show ?case by simp
next
  case (Cons p ps)
  obtain CN v where p: "p = (CN, v)" by (cases p)
  show ?case
  proof (cases "all_below (smoothedSpectra L sf ihs CN v) 15")
    case True
    then obtain data fs' where b: "loadSpectra_body L sf ihs CN v fs = Inr (data, fs')"
      using body_ok by (metis surj_pair)
    from Cons.prems True p
    have "\<exists>(CN, v) \<in> set ps. \<not> all_below (smoothedSpectra L sf ihs CN v) 15" by auto
    from Cons.IH [OF this] show ?thesis by (simp add: p b)
  next
    case False
    then show ?thesis by (simp add: p body_fail)
  qed
qed

lemma loop_success_all_below:
  "loadSpectra_loop L sf ihs ps all_data fs = Inr r \<Longrightarrow>
   \<forall>(CN, v) \<in> set ps. all_below (smoothedSpectra L sf ihs CN v) 15"
  using loop_fail [of ps L sf ihs all_data fs] by auto

text \<open>
  Claim C3. The body of the loops of \<^verbatim>\<open>loadSpectra\<close> asserts
  \<^verbatim>\<open>np.all(data.spectra.values<15)\<close> on the smoothed spectra of every (CN, valence)
  sub-sample. A sub-sample that leaves the body has every intensity below 15; when all
  smoothed intensities are below 15 the body returns, and so does the whole loop when
  this holds for every pair; a smoothed intensity that is not below 15 (NaN included)
  makes the body, and \<^verbatim>\<open>loadSpectra\<close> with it, end in an \<^verbatim>\<open>AssertionError\<close>.
\<close>

theorem loadSpectra_intensity_assertion:
  "(\<forall>data fs'. loadSpectra_body L sf ihs CN v fs = Inr (data, fs') \<longrightarrow>
      (\<forall>row \<in> set (intensities (spectra data)). \<forall>x \<in> set row. num_less x 15))
   \<and> (all_below (smoothedSpectra L sf ihs CN v) 15 \<longrightarrow>
        (\<exists>r. loadSpectra_body L sf ihs CN v fs = Inr r))
   \<and> (\<not> all_below (smoothedSpectra L sf ihs CN v) 15 \<longrightarrow>
        loadSpectra_body L sf ihs CN v fs = Inl AssertionError)
   \<and> ((\<forall>(CN, v) \<in> set cn_valence_pairs. all_below (smoothedSpectra L sf ihs CN v) 15) \<longrightarrow>
        (\<exists>r. loadSpectra_loop L sf ihs cn_valence_pairs None fs = Inr r))
   \<and> ((\<exists>(CN, v) \<in> set cn_valence_pairs. \<not> all_below (smoothedSpectra L sf ihs CN v) 15) \<longrightarrow>
        loadSpectra L energyRange sf ihs fs = Inl AssertionError)"
proof (intro conjI allI impI)
  fix data fs'
  assume "loadSpectra_body L sf ihs CN v fs = Inr (data, fs')"
  from body_spectra [OF this]
  show "\<forall>row \<in> set (intensities (spectra data)). \<forall>x \<in> set row. num_less x 15"
    by (simp add: all_below_def list_all_iff)
next
  assume "all_below (smoothedSpectra L sf ihs CN v) 15"
  then show "\<exists>r. loadSpectra_body L sf ihs CN v fs = Inr r" by (rule body_ok)
next
  assume "\<not> all_below (smoothedSpectra L sf ihs CN v) 15"
  then show "loadSpectra_body L sf ihs CN v fs = Inl AssertionError" by (rule body_fail)
next
  assume "\<forall>(CN, v) \<in> set cn_valence_pairs. all_below (smoothedSpectra L sf ihs CN v) 15"
  then show "\<exists>r. loadSpectra_loop L sf ihs cn_valence_pairs None fs = Inr r" by (rule loop_ok)
next
  assume "\<exists>(CN, v) \<in> set cn_valence_pairs. \<not> all_below (smoothedSpectra L sf ihs CN v) 15"
  then have "loadSpectra_loop L sf ihs cn_valence_pairs None fs = Inl AssertionError"
    by (rule loop_fail)
  then show "loadSpectra L energyRange sf ihs fs = Inl AssertionError"
    by (simp add: loadSpectra_def)
qed

lemma pairs_eval: "cn_valence_pairs = [(2,2),(2,3),(3,2),(3,3),(4,2),(4,3),(5,2),(5,3),(6,2),(6,3)]"
  by (simp add: cn_valence_pairs_def upt_rec)

lemma smoothed_lib0: "smoothedSpectra lib0 sf ihs CN v = \<lparr>energy = [7110], intensities = [[Fin 1]]\<rparr>"
  by (cases ihs)
    (simp_all add: smoothedSpectra_def lib0_def sourceData_def sourceProject_def sample0_def Let_def)

lemma smoothed_lib_hot: "smoothedSpectra lib_hot sf False CN v = \<lparr>energy = [7110], intensities = [[Fin 20]]\<rparr>"
  by (simp add: smoothedSpectra_def lib_hot_def lib0_def sourceData_def sourceProject_def sample0_def)

theorem loadSpectra_intensity_assertion_witness:
  "all_below (smoothedSpectra lib0 ''samples'' False 2 2) 15
   \<and> (\<exists>r. loadSpectra_body lib0 ''samples'' False 2 2 Map.empty = Inr r)
   \<and> (\<exists>r. loadSpectra_loop lib0 ''samples'' False cn_valence_pairs None Map.empty = Inr r)
   \<and> \<not> all_below (smoothedSpectra lib_hot ''samples'' False 2 2) 15
   \<and> loadSpectra_body lib_hot ''samples'' False 2 2 Map.empty = Inl AssertionError
   \<and> loadSpectra lib_hot (Some (7100, 7200)) ''samples'' False Map.empty = Inl AssertionError"
proof -
  have good: "all_below (smoothedSpectra lib0 ''samples'' False CN v) 15" for CN v
    by (simp add: smoothed_lib0 all_below_def)
  have bad: "\<not> all_below (smoothedSpectra lib_hot ''samples'' False CN v) 15" for CN v
    by (simp add: smoothed_lib_hot all_below_def)
  have bad_pair: "\<exists>(CN, v) \<in> set cn_valence_pairs.
      \<not> all_below (smoothedSpectra lib_hot ''samples'' False CN v) 15"
  proof -
    have "(2, 2) \<in> set cn_valence_pairs" by (simp add: pairs_eval)
    with bad [of 2 2] show ?thesis by blast
  qed
  show ?thesis
    using loadSpectra_intensity_assertion [of lib0 "''samples''" False 2 2 Map.empty "Some (7100, 7200)"]
      loadSpectra_intensity_assertion [of lib_hot "''samples''" False 2 2 Map.empty "Some (7100, 7200)"]
      good bad bad_pair
    by blast
qed

section \<open>The derived parameters\<close>

lemma length_params_addParam:
  "length d = length (params s) \<Longrightarrow> length (params (addParam c d s)) = length (params s)"
  by (simp add: addParam_def)

lemma nth_params_addParam:
  "length d = length (params s) \<Longrightarrow> i < length (params s) \<Longrightarrow>
   params (addParam c d s) ! i = (params s ! i)(c \<mapsto> d ! i)"
  by (simp add: addParam_def)

lemma column_eq_Inr:
  "column s c = Inr xs \<Longrightarrow>
   length xs = length (params s) \<and> (\<forall>i < length (params s). xs ! i = cell s i c)"
  by (auto simp: column_def cell_def split: if_splits)

lemma series_arith_Inr:
  "series_arith f xs ys = Inr zs \<Longrightarrow> length xs = length ys \<Longrightarrow>
   length zs = length xs \<and>
   (\<forall>i < length xs. \<exists>a b. xs ! i = Float a \<and> ys ! i = Float b \<and> zs ! i = Float (f a b))"
proof (induction f xs ys arbitrary: zs rule: series_arith.induct)
  case (1 f x xs y ys)
  from "1.prems"(1) obtain v vs where v: "val_arith f x y = Inr v"
    and vs: "series_arith f xs ys = Inr vs" and zs: "zs = v # vs"
    by (auto split: sum.splits)
  from v obtain a b where ab: "x = Float a" "y = Float b" "v = Float (f a b)"
    by (cases x; cases y) auto
  from "1.IH" [OF v vs] "1.prems"(2)
  have ih: "length vs = length xs"
    "\<forall>i < length xs. \<exists>a b. xs ! i = Float a \<and> ys ! i = Float b \<and> vs ! i = Float (f a b)"
    by auto
  show ?case
  proof (intro conjI allI impI)
    show "length zs = length (x # xs)" using ih(1) zs by simp
  next
    fix i assume "i < length (x # xs)"
    then show "\<exists>a b. (x # xs) ! i = Float a \<and> (y # ys) ! i = Float b \<and> zs ! i = Float (f a b)"
      using ih(2) ab zs by (cases i) auto
  qed
qed simp_all

lemma not_finite_zero_width: "\<not> is_finite (num_div x (num_sub p p))"
  by (cases p; cases x) auto

lemma finite_slope:
  "is_finite pe \<Longrightarrow> is_finite we \<Longrightarrow> is_finite wi \<Longrightarrow> is_finite qi \<Longrightarrow> pe \<noteq> we \<Longrightarrow>
   is_finite (num_div (num_sub wi qi) (num_sub pe we))"
  by (cases pe; cases we; cases wi; cases qi) auto

lemma addDerived_rows:
  assumes "addDerived d = Inr s'"
  shows "length (params s') = length (params d) \<and>
    (\<forall>i < length (params d). \<exists>pe we wi qi.
       cell d i ''Pit_e'' = Float pe \<and> cell d i ''WL_e'' = Float we \<and>
       cell d i ''WL_i'' = Float wi \<and> cell d i ''Pit_i'' = Float qi \<and>
       (params s' ! i) ''Pit_e-WL_e'' = Some (Float (num_sub pe we)) \<and>
       (params s' ! i) ''WL-Pit_slope'' = Some (Float (num_div (num_sub wi qi) (num_sub pe we))) \<and>
       (is_finite (num_div (num_sub wi qi) (num_sub pe we)) \<longrightarrow> pe \<noteq> we) \<and>
       (is_finite pe \<and> is_finite we \<and> is_finite wi \<and> is_finite qi \<and> pe \<noteq> we \<longrightarrow>
          is_finite (num_div (num_sub wi qi) (num_sub pe we))))"
proof -
  from assms obtain pit_e wl_e width wl_i pit_i height width2 slope where
    c1: "column d ''Pit_e'' = Inr pit_e" and c2: "column d ''WL_e'' = Inr wl_e"
    and a1: "series_arith num_sub pit_e wl_e = Inr width"
    and c3: "column d ''WL_i'' = Inr wl_i" and c4: "column d ''Pit_i'' = Inr pit_i"
    and a2: "series_arith num_sub wl_i pit_i = Inr height"
    and a3: "series_arith num_sub pit_e wl_e = Inr width2"
    and a4: "series_arith num_div height width2 = Inr slope"
    and s': "s' = addParam ''WL-Pit_slope'' slope (addParam ''Pit_e-WL_e'' width d)"
    unfolding addDerived_def bindE_eq_Inr by auto
  let ?n = "length (params d)"
  note C1 = column_eq_Inr [OF c1] and C2 = column_eq_Inr [OF c2]
    and C3 = column_eq_Inr [OF c3] and C4 = column_eq_Inr [OF c4]
  have A1: "length width = ?n"
    "\<forall>i < ?n. \<exists>a b. pit_e ! i = Float a \<and> wl_e ! i = Float b \<and> width ! i = Float (num_sub a b)"
    using series_arith_Inr [OF a1] C1 C2 by auto
  have A2: "length height = ?n"
    "\<forall>i < ?n. \<exists>a b. wl_i ! i = Float a \<and> pit_i ! i = Float b \<and> height ! i = Float (num_sub a b)"
    using series_arith_Inr [OF a2] C3 C4 by auto
  have w2: "width2 = width" using a1 a3 by simp
  have A4: "length slope = ?n"
    "\<forall>i < ?n. \<exists>a b. height ! i = Float a \<and> width ! i = Float b \<and> slope ! i = Float (num_div a b)"
    using series_arith_Inr [OF a4] A1(1) A2(1) w2 by auto
  have len1: "length (params (addParam ''Pit_e-WL_e'' width d)) = ?n"
    using A1(1) by (simp add: length_params_addParam)
  have len: "length (params s') = ?n"
    unfolding s' using A4(1) len1 by (simp add: length_params_addParam)
  have row: "params s' ! i = (params d ! i)(''Pit_e-WL_e'' \<mapsto> width ! i, ''WL-Pit_slope'' \<mapsto> slope ! i)"
    if "i < ?n" for i
    unfolding s' using that A1(1) A4(1) len1
    by (simp add: nth_params_addParam)
  show ?thesis
  proof (intro conjI allI impI)
    show "length (params s') = ?n" by (rule len)
  next
    fix i assume i: "i < ?n"
    from A1(2) i obtain pe we where pw: "pit_e ! i = Float pe" "wl_e ! i = Float we"
      "width ! i = Float (num_sub pe we)" by blast
    from A2(2) i obtain wi qi where wp: "wl_i ! i = Float wi" "pit_i ! i = Float qi"
      "height ! i = Float (num_sub wi qi)" by blast
    from A4(2) i pw wp have sl: "slope ! i = Float (num_div (num_sub wi qi) (num_sub pe we))"
      by auto
    have cells: "cell d i ''Pit_e'' = Float pe" "cell d i ''WL_e'' = Float we"
      "cell d i ''WL_i'' = Float wi" "cell d i ''Pit_i'' = Float qi"
      using C1 C2 C3 C4 i pw wp by auto
    show "\<exists>pe we wi qi.
       cell d i ''Pit_e'' = Float pe \<and> cell d i ''WL_e'' = Float we \<and>
       cell d i ''WL_i'' = Float wi \<and> cell d i ''Pit_i'' = Float qi \<and>
       (params s' ! i) ''Pit_e-WL_e'' = Some (Float (num_sub pe we)) \<and>
       (params s' ! i) ''WL-Pit_slope'' = Some (Float (num_div (num_sub wi qi) (num_sub pe we))) \<and>
       (is_finite (num_div (num_sub wi qi) (num_sub pe we)) \<longrightarrow> pe \<noteq> we) \<and>
       (is_finite pe \<and> is_finite we \<and> is_finite wi \<and> is_finite qi \<and> pe \<noteq> we \<longrightarrow>
          is_finite (num_div (num_sub wi qi) (num_sub pe we)))"
    proof (intro exI conjI)
      show "cell d i ''Pit_e'' = Float pe" "cell d i ''WL_e'' = Float we"
        "cell d i ''WL_i'' = Float wi" "cell d i ''Pit_i'' = Float qi"
        by (rule cells)+
      show "(params s' ! i) ''Pit_e-WL_e'' = Some (Float (num_sub pe we))"
        using row [OF i] pw(3) by simp
      show "(params s' ! i) ''WL-Pit_slope'' = Some (Float (num_div (num_sub wi qi) (num_sub pe we)))"
        using row [OF i] sl by simp
      show "is_finite (num_div (num_sub wi qi) (num_sub pe we)) \<longrightarrow> pe \<noteq> we"
        using not_finite_zero_width by blast
      show "is_finite pe \<and> is_finite we \<and> is_finite wi \<and> is_finite qi \<and> pe \<noteq> we \<longrightarrow>
          is_finite (num_div (num_sub wi qi) (num_sub pe we))"
        using finite_slope by blast
    qed
  qed
qed

lemma calc_descriptors_Inr:
  "calc_descriptors L smp u f fs = Inr ((smp', good), fs') \<Longrightarrow>
   \<exists>d. addDescriptors L smp (descriptorConfigs u f) fs = Inr ((d, good), fs') \<and> addDerived d = Inr smp'"
  by (auto simp: calc_descriptors_def bindE_eq_Inr)

text \<open>
  Claim C8. After the library has added the descriptor columns, \<^verbatim>\<open>calc_descriptors\<close>
  adds to every row the parameter \<^verbatim>\<open>Pit_e-WL_e\<close>, the difference of the cells
  \<^verbatim>\<open>Pit_e\<close> and \<^verbatim>\<open>WL_e\<close>, and the parameter \<^verbatim>\<open>WL-Pit_slope\<close>, the quotient of
  \<^verbatim>\<open>WL_i - Pit_i\<close> by \<^verbatim>\<open>Pit_e - WL_e\<close>. Nothing guards the division: the slope of
  a row is finite only if \<^verbatim>\<open>Pit_e\<close> and \<^verbatim>\<open>WL_e\<close> differ there (and, in this model of
  the arithmetic, it is finite whenever they differ and the four cells are finite).
\<close>

theorem calc_descriptors_derived_params:
  assumes "calc_descriptors L smp u f fs = Inr ((smp', good), fs')"
  shows "\<exists>d. addDescriptors L smp (descriptorConfigs u f) fs = Inr ((d, good), fs') \<and>
    length (params smp') = length (params d) \<and>
    (\<forall>i < length (params d). \<exists>pe we wi qi.
       cell d i ''Pit_e'' = Float pe \<and> cell d i ''WL_e'' = Float we \<and>
       cell d i ''WL_i'' = Float wi \<and> cell d i ''Pit_i'' = Float qi \<and>
       (params smp' ! i) ''Pit_e-WL_e'' = Some (Float (num_sub pe we)) \<and>
       (params smp' ! i) ''WL-Pit_slope'' =
          Some (Float (num_div (num_sub wi qi) (num_sub pe we))) \<and>
       (is_finite (num_div (num_sub wi qi) (num_sub pe we)) \<longrightarrow> pe \<noteq> we) \<and>
       (is_finite pe \<and> is_finite we \<and> is_finite wi \<and> is_finite qi \<and> pe \<noteq> we \<longrightarrow>
          is_finite (num_div (num_sub wi qi) (num_sub pe we))))"
proof -
  from calc_descriptors_Inr [OF assms] obtain d where
    d: "addDescriptors L smp (descriptorConfigs u f) fs = Inr ((d, good), fs')"
    and der: "addDerived d = Inr smp'" by blast
  show ?thesis
    by (rule exI [of _ d]) (use d addDerived_rows [OF der] in simp)
qed

lemma descr0_lib0:
  "addDescriptors lib0 sample0 cfgs fs = Inr ((descr0 sample0, [0]), fs)"
  by (simp add: lib0_def sample0_def)

lemma addDerived_descr0:
  "\<exists>s. addDerived (descr0 sample0) = Inr s"
  by (simp add: addDerived_def column_def descr0_def sample0_def)

theorem calc_descriptors_derived_params_witness:
  "\<exists>s. calc_descriptors lib0 sample0 False ''generated/pca_data.pkl'' Map.empty
          = Inr ((s, [0]), Map.empty)
       \<and> length (params s) = 1
       \<and> (params s ! 0) ''Pit_e-WL_e'' = Some (Float (Fin 20))
       \<and> (params s ! 0) ''WL-Pit_slope'' = Some (Float (Fin (1 / 20)))"
proof -
  from addDerived_descr0 obtain s where s: "addDerived (descr0 sample0) = Inr s" by blast
  have run: "calc_descriptors lib0 sample0 False ''generated/pca_data.pkl'' Map.empty
      = Inr ((s, [0]), Map.empty)"
    by (simp add: calc_descriptors_def descr0_lib0 s)
  have cells: "cell (descr0 sample0) 0 ''Pit_e'' = Float (Fin 7150)"
    "cell (descr0 sample0) 0 ''WL_e'' = Float (Fin 7130)"
    "cell (descr0 sample0) 0 ''WL_i'' = Float (Fin 2)"
    "cell (descr0 sample0) 0 ''Pit_i'' = Float (Fin 1)"
    by (simp_all add: cell_def descr0_def sample0_def)
  have len: "length (params (descr0 sample0)) = 1"
    by (simp add: descr0_def sample0_def)
  from calc_descriptors_derived_params [OF run] descr0_lib0 [of "descriptorConfigs False ''generated/pca_data.pkl''" Map.empty]
    cells len
  have "length (params s) = 1
       \<and> (params s ! 0) ''Pit_e-WL_e'' = Some (Float (Fin 20))
       \<and> (params s ! 0) ''WL-Pit_slope'' = Some (Float (Fin (1 / 20)))"
    by (auto simp del: num_div.simps num_sub.simps) (simp_all)
  with run show ?thesis by blast
qed

section \<open>The descriptors requested from the library\<close>

lemma addDerived_keeps:
  assumes "addDerived d = Inr s'"
  shows "set (paramNames d) \<subseteq> set (paramNames s') \<and>
    (\<forall>i < length (params d). \<forall>c. c \<noteq> ''Pit_e-WL_e'' \<and> c \<noteq> ''WL-Pit_slope'' \<longrightarrow>
       (params s' ! i) c = (params d ! i) c)"
proof -
  from assms obtain pit_e wl_e width wl_i pit_i height width2 slope where
    c1: "column d ''Pit_e'' = Inr pit_e" and c2: "column d ''WL_e'' = Inr wl_e"
    and a1: "series_arith num_sub pit_e wl_e = Inr width"
    and c3: "column d ''WL_i'' = Inr wl_i" and c4: "column d ''Pit_i'' = Inr pit_i"
    and a2: "series_arith num_sub wl_i pit_i = Inr height"
    and a3: "series_arith num_sub pit_e wl_e = Inr width2"
    and a4: "series_arith num_div height width2 = Inr slope"
    and s': "s' = addParam ''WL-Pit_slope'' slope (addParam ''Pit_e-WL_e'' width d)"
    unfolding addDerived_def bindE_eq_Inr by auto
  let ?n = "length (params d)"
  have lw: "length width = ?n"
    using series_arith_Inr [OF a1] column_eq_Inr [OF c1] column_eq_Inr [OF c2] by simp
  have lh: "length height = ?n"
    using series_arith_Inr [OF a2] column_eq_Inr [OF c3] column_eq_Inr [OF c4] by simp
  have ls: "length slope = ?n"
    using series_arith_Inr [OF a4] lw lh a1 a3 by simp
  have len1: "length (params (addParam ''Pit_e-WL_e'' width d)) = ?n"
    using lw by (simp add: length_params_addParam)
  have row: "params s' ! i = (params d ! i)(''Pit_e-WL_e'' \<mapsto> width ! i, ''WL-Pit_slope'' \<mapsto> slope ! i)"
    if "i < ?n" for i
    unfolding s' using that lw ls len1 by (simp add: nth_params_addParam)
  have names: "set (paramNames d) \<subseteq> set (paramNames s')"
    unfolding s' by (auto simp: addParam_def)
  from names row show ?thesis by simp
qed

lemma calc_descriptors_Inl:
  "addDescriptors L smp (descriptorConfigs u f) fs = Inl e \<Longrightarrow>
   calc_descriptors L smp u f fs = Inl e"
  by (simp add: calc_descriptors_def)

lemma nth_configs:
  "length (descriptorConfigs u f) = 5"
  "(descriptorConfigs u f ! 0) ''type'' = Some (CStr ''stableExtrema'')"
  "(descriptorConfigs u f ! 0) ''extremaType'' = Some (CStr ''min'')"
  "(descriptorConfigs u f ! 0) ''energyInterval'' = Some (CInterval 7135 7190)"
  "(descriptorConfigs u f ! 0) ''columnName'' = Some (CStr ''Pit'')"
  "(descriptorConfigs u f ! 1) ''type'' = Some (CStr ''stableExtrema'')"
  "(descriptorConfigs u f ! 1) ''extremaType'' = Some (CStr ''max'')"
  "(descriptorConfigs u f ! 1) ''energyInterval'' = Some (CInterval 7120 7150)"
  "(descriptorConfigs u f ! 1) ''columnName'' = Some (CStr ''WL'')"
  "(descriptorConfigs u f ! 2) ''type'' = Some (CStr ''efermi'')"
  "(descriptorConfigs u f ! 2) ''columnName'' = Some (CStr ''Edge'')"
  "(descriptorConfigs u f ! 3) ''type'' = Some (CStr ''pca'')"
  "(descriptorConfigs u f ! 3) ''columnName'' = Some (CStr ''PCA'')"
  "(descriptorConfigs u f ! 4) ''type'' = Some (CStr ''rel_pca'')"
  "(descriptorConfigs u f ! 4) ''columnName'' = Some (CStr ''rPCA'')"
  by (simp_all add: descriptorConfigs_def Let_def)

text \<open>
  Claim C6. \<^verbatim>\<open>calc_descriptors\<close> hands its input sample to the library with five
  descriptor configurations, in this order: the stable minimum in the energy interval
  [7135, 7190] (column \<^verbatim>\<open>Pit\<close>), the stable maximum in [7120, 7150] (column \<^verbatim>\<open>WL\<close>),
  the edge position (column \<^verbatim>\<open>Edge\<close>) and the two PCA descriptors (columns \<^verbatim>\<open>PCA\<close> and
  \<^verbatim>\<open>rPCA\<close>). When it returns, its result is the sample that the library returned, with
  every column of that sample kept unchanged on every row beside the two derived
  parameters, together with the indices of the good spectra that the library returned;
  an error of the library is the error of \<^verbatim>\<open>calc_descriptors\<close>.
\<close>

theorem calc_descriptors_requests:
  "length (descriptorConfigs u f) = 5
   \<and> (descriptorConfigs u f ! 0) ''type'' = Some (CStr ''stableExtrema'')
   \<and> (descriptorConfigs u f ! 0) ''extremaType'' = Some (CStr ''min'')
   \<and> (descriptorConfigs u f ! 0) ''energyInterval'' = Some (CInterval 7135 7190)
   \<and> (descriptorConfigs u f ! 0) ''columnName'' = Some (CStr ''Pit'')
   \<and> (descriptorConfigs u f ! 1) ''type'' = Some (CStr ''stableExtrema'')
   \<and> (descriptorConfigs u f ! 1) ''extremaType'' = Some (CStr ''max'')
   \<and> (descriptorConfigs u f ! 1) ''energyInterval'' = Some (CInterval 7120 7150)
   \<and> (descriptorConfigs u f ! 1) ''columnName'' = Some (CStr ''WL'')
   \<and> (descriptorConfigs u f ! 2) ''type'' = Some (CStr ''efermi'')
   \<and> (descriptorConfigs u f ! 2) ''columnName'' = Some (CStr ''Edge'')
   \<and> (descriptorConfigs u f ! 3) ''type'' = Some (CStr ''pca'')
   \<and> (descriptorConfigs u f ! 3) ''columnName'' = Some (CStr ''PCA'')
   \<and> (descriptorConfigs u f ! 4) ''type'' = Some (CStr ''rel_pca'')
   \<and> (descriptorConfigs u f ! 4) ''columnName'' = Some (CStr ''rPCA'')
   \<and> (\<forall>smp' good fs'. calc_descriptors L smp u f fs = Inr ((smp', good), fs') \<longrightarrow>
         (\<exists>d. addDescriptors L smp (descriptorConfigs u f) fs = Inr ((d, good), fs')
            \<and> length (params smp') = length (params d)
            \<and> set (paramNames d) \<subseteq> set (paramNames smp')
            \<and> (\<forall>i < length (params d). \<forall>c. c \<noteq> ''Pit_e-WL_e'' \<and> c \<noteq> ''WL-Pit_slope'' \<longrightarrow>
                  (params smp' ! i) c = (params d ! i) c)))
   \<and> (\<forall>e. addDescriptors L smp (descriptorConfigs u f) fs = Inl e \<longrightarrow>
         calc_descriptors L smp u f fs = Inl e)"
proof -
  have ret: "\<exists>d. addDescriptors L smp (descriptorConfigs u f) fs = Inr ((d, good), fs')
            \<and> length (params smp') = length (params d)
            \<and> set (paramNames d) \<subseteq> set (paramNames smp')
            \<and> (\<forall>i < length (params d). \<forall>c. c \<noteq> ''Pit_e-WL_e'' \<and> c \<noteq> ''WL-Pit_slope'' \<longrightarrow>
                  (params smp' ! i) c = (params d ! i) c)"
    if run: "calc_descriptors L smp u f fs = Inr ((smp', good), fs')" for smp' good fs'
  proof -
    from calc_descriptors_Inr [OF run] obtain d where
      d: "addDescriptors L smp (descriptorConfigs u f) fs = Inr ((d, good), fs')"
      and der: "addDerived d = Inr smp'" by blast
    show ?thesis
      by (rule exI [of _ d]) (use d addDerived_keeps [OF der] addDerived_rows [OF der] in simp)
  qed
  have err: "calc_descriptors L smp u f fs = Inl e"
    if "addDescriptors L smp (descriptorConfigs u f) fs = Inl e" for e
    using that by (rule calc_descriptors_Inl)
  from ret err nth_configs [of u f] show ?thesis by (intro conjI allI impI)
qed

theorem calc_descriptors_requests_witness:
  "\<exists>s. calc_descriptors lib0 sample0 False ''generated/pca_data.pkl'' Map.empty
          = Inr ((s, [0]), Map.empty)
       \<and> addDescriptors lib0 sample0 (descriptorConfigs False ''generated/pca_data.pkl'') Map.empty
          = Inr ((descr0 sample0, [0]), Map.empty)
       \<and> length (params s) = 1
       \<and> (params s ! 0) ''Pit_e'' = Some (Float (Fin 7150))
       \<and> (params s ! 0) ''r1'' = Some (Float (Fin 2))"
proof -
  from addDerived_descr0 obtain s where s: "addDerived (descr0 sample0) = Inr s" by blast
  have run: "calc_descriptors lib0 sample0 False ''generated/pca_data.pkl'' Map.empty
      = Inr ((s, [0]), Map.empty)"
    by (simp add: calc_descriptors_def descr0_lib0 s)
  have row: "(params (descr0 sample0) ! 0) ''Pit_e'' = Some (Float (Fin 7150))"
    "(params (descr0 sample0) ! 0) ''r1'' = Some (Float (Fin 2))"
    "length (params (descr0 sample0)) = 1"
    by (simp_all add: descr0_def sample0_def)
  have "length (params s) = 1
       \<and> (params s ! 0) ''Pit_e'' = Some (Float (Fin 7150))
       \<and> (params s ! 0) ''r1'' = Some (Float (Fin 2))"
    using calc_descriptors_requests [of False "''generated/pca_data.pkl''" lib0 sample0 Map.empty]
      run row descr0_lib0 [of "descriptorConfigs False ''generated/pca_data.pkl''" Map.empty]
    by simp
  with run descr0_lib0 show ?thesis by blast
qed

section \<open>The rows of the experimental spectra\<close>

lemma loc_numeric:
  assumes "numeric_params df" and "c \<noteq> ''name''"
  shows "\<exists>a. loc df i c = Float a"
proof (cases "map_of df c")
  case None
  then show ?thesis by (simp add: loc_def)
next
  case (Some xs)
  then have "(c, xs) \<in> set df" by (rule map_of_SomeD)
  with assms have "list_all (\<lambda>x. case x of Float _ \<Rightarrow> True | Str _ \<Rightarrow> False) xs"
    by (auto simp: numeric_params_def list_all_iff)
  then have "i < length xs \<Longrightarrow> \<exists>a. xs ! i = Float a"
    by (cases "xs ! i") (auto simp: list_all_iff split: val.splits dest!: bspec [where x = "xs ! i"])
  with Some show ?thesis by (auto simp: loc_def)
qed

lemma np_isnan_Float: "np_isnan (Float a) = Inr (a = NaN)"
  by (cases a) simp_all

lemma row_dict_numeric:
  assumes "numeric_params df"
  shows "row_dict df i cs =
    Inr (\<lambda>c. if c \<in> set cs \<and> (c = ''name'' \<or> loc df i c \<noteq> Float NaN)
             then Some (loc df i c) else None)"
proof (induction cs)
  case Nil
  then show ?case by simp
next
  case (Cons c cs)
  show ?case
  proof (cases "c = ''name''")
    case True
    then show ?thesis by (auto simp: Cons.IH)
  next
    case False
    from loc_numeric [OF assms False] obtain a where a: "loc df i c = Float a" by blast
    show ?thesis by (auto simp: Cons.IH a np_isnan_Float False)
  qed
qed

lemma true_values_none:
  "map_of df ''name'' = Some col \<Longrightarrow> count_rows df name = 0 \<Longrightarrow>
   true_values df name = Inr [''name'' \<mapsto> Str name]"
  by (simp add: true_values_def matching_rows_def count_rows_def)

lemma true_values_many:
  "map_of df ''name'' = Some col \<Longrightarrow> 1 < count_rows df name \<Longrightarrow>
   true_values df name = Inl AssertionError"
  by (auto simp: true_values_def matching_rows_def count_rows_def)

lemma true_values_one:
  assumes col: "map_of df ''name'' = Some col" and num: "numeric_params df"
    and one: "count_rows df name = 1"
  shows "\<exists>i < length col. col ! i = Str name \<and> true_values df name = Inr (known_row df i)
    \<and> expected_true df name = known_row df i \<and> known_row df i ''name'' = Some (Str name)"
proof -
  let ?is = "filter (\<lambda>j. col ! j = Str name) [0..<length col]"
  from one col have len: "length ?is = 1" by (simp add: count_rows_def)
  then obtain i where i: "?is = [i]" by (cases ?is) auto
  then have "i \<in> set ?is" by simp
  then have il: "i < length col" and ci: "col ! i = Str name" by auto
  have tv: "true_values df name = Inr (known_row df i)"
    using col i by (simp add: true_values_def matching_rows_def row_dict_numeric [OF num] known_row_def)
  have ex: "expected_true df name = known_row df i"
    using col i by (simp add: expected_true_def)
  have "(''name'', col) \<in> set df" using col by (rule map_of_SomeD)
  then have "''name'' \<in> fst ` set df" by force
  then have nm: "known_row df i ''name'' = Some (Str name)"
    using col il ci by (simp add: known_row_def loc_def)
  from il ci tv ex nm show ?thesis by blast
qed

lemma true_values_expected:
  assumes col: "map_of df ''name'' = Some col" and num: "numeric_params df"
    and le: "count_rows df name \<le> 1"
  shows "true_values df name = Inr (expected_true df name)"
proof (cases "count_rows df name = 0")
  case True
  then show ?thesis using col true_values_none [OF col True]
    by (simp add: expected_true_def count_rows_def)
next
  case False
  with le have "count_rows df name = 1" by simp
  from true_values_one [OF col num this] show ?thesis by auto
qed

lemma addRow_Inr:
  "addRow L sp true s = Inr s' \<longleftrightarrow>
   row_accepted L s true
   \<and> s' = s\<lparr>params := params s @ [true],
             spectra := (spectra s)\<lparr>intensities :=
               intensities (spectra s) @ [resample L (energy (spectra s)) sp]\<rparr>\<rparr>"
  by (auto simp: addRow_def)

lemma addRow_Inl: "addRow L sp true s = Inl e \<longleftrightarrow> \<not> row_accepted L s true \<and> e = AssertionError"
  by (auto simp: addRow_def)

lemma row_accepted_paramNames:
  "paramNames s' = paramNames s \<Longrightarrow> row_accepted L s' true = row_accepted L s true"
  by (simp add: row_accepted_def)

lemma addExperiments_ok:
  assumes col: "map_of df ''name'' = Some col" and num: "numeric_params df"
  shows "\<forall>f \<in> set files. count_rows df (exp_name f) \<le> 1
        \<and> row_accepted L a (expected_true df (exp_name f)) \<Longrightarrow>
    \<exists>a'. addExperiments L df files (Some a) ns = Inr (Some a', ns @ map exp_name files)
       \<and> params a' = params a @ map (\<lambda>f. expected_true df (exp_name f)) files
       \<and> paramNames a' = paramNames a"
proof (induction files arbitrary: a ns)
  case Nil
  then show ?case by simp
next
  case (Cons f files)
  from Cons.prems have le: "count_rows df (exp_name f) \<le> 1"
    and acc: "row_accepted L a (expected_true df (exp_name f))"
    and rest: "\<forall>f \<in> set files. count_rows df (exp_name f) \<le> 1
        \<and> row_accepted L a (expected_true df (exp_name f))" by auto
  let ?sp = "readSpectrum L (''exp'' @ os_sep @ f)"
  let ?a = "a\<lparr>params := params a @ [expected_true df (exp_name f)],
             spectra := (spectra a)\<lparr>intensities :=
               intensities (spectra a) @ [resample L (energy (spectra a)) ?sp]\<rparr>\<rparr>"
  have row: "addRow L sp (expected_true df (exp_name f)) a
      = Inr (a\<lparr>params := params a @ [expected_true df (exp_name f)],
             spectra := (spectra a)\<lparr>intensities :=
               intensities (spectra a) @ [resample L (energy (spectra a)) sp]\<rparr>\<rparr>)" for sp
    using acc by (simp add: addRow_Inr)
  have "\<forall>f \<in> set files. count_rows df (exp_name f) \<le> 1
        \<and> row_accepted L ?a (expected_true df (exp_name f))"
    using rest by (simp add: row_accepted_def)
  from Cons.IH [OF this, of "ns @ [exp_name f]"] obtain a' where
    a': "addExperiments L df files (Some ?a) (ns @ [exp_name f])
           = Inr (Some a', (ns @ [exp_name f]) @ map exp_name files)"
    and p: "params a' = params ?a @ map (\<lambda>f. expected_true df (exp_name f)) files"
    and n: "paramNames a' = paramNames ?a"
    by blast
  have "addExperiments L df (f # files) (Some a) ns = Inr (Some a', ns @ map exp_name (f # files))"
    using a' by (simp add: Let_def true_values_expected [OF col num le] row)
  moreover have "params a' = params a @ map (\<lambda>f. expected_true df (exp_name f)) (f # files)"
    using p by simp
  moreover have "paramNames a' = paramNames a" using n by simp
  ultimately show ?case by blast
qed

lemma addExperiments_Inr:
  assumes col: "map_of df ''name'' = Some col" and num: "numeric_params df"
  shows "addExperiments L df files (Some a) ns = Inr (r, ns') \<Longrightarrow>
    (\<forall>f \<in> set files. count_rows df (exp_name f) \<le> 1
        \<and> row_accepted L a (expected_true df (exp_name f)))
    \<and> ns' = ns @ map exp_name files
    \<and> (\<exists>a'. r = Some a'
          \<and> params a' = params a @ map (\<lambda>f. expected_true df (exp_name f)) files)"
proof (induction files arbitrary: a ns)
  case Nil
  then show ?case by auto
next
  case (Cons f files)
  let ?sp = "readSpectrum L (''exp'' @ os_sep @ f)"
  from Cons.prems obtain true a1 where
    tv: "true_values df (exp_name f) = Inr true"
    and row: "addRow L ?sp true a = Inr a1"
    and rec: "addExperiments L df files (Some a1) (ns @ [exp_name f]) = Inr (r, ns')"
    by (auto simp: Let_def bindE_eq_Inr)
  have le: "count_rows df (exp_name f) \<le> 1"
  proof (rule ccontr)
    assume "\<not> count_rows df (exp_name f) \<le> 1"
    then have "1 < count_rows df (exp_name f)" by simp
    from true_values_many [OF col this] tv show False by simp
  qed
  from true_values_expected [OF col num le] tv
  have true: "true = expected_true df (exp_name f)" by simp
  from row have acc: "row_accepted L a true"
    and a1: "paramNames a1 = paramNames a" "params a1 = params a @ [true]"
    by (auto simp: addRow_Inr)
  from Cons.IH [OF rec] obtain a' where
    ih: "\<forall>f \<in> set files. count_rows df (exp_name f) \<le> 1
        \<and> row_accepted L a1 (expected_true df (exp_name f))"
      "ns' = (ns @ [exp_name f]) @ map exp_name files"
      "r = Some a'"
      "params a' = params a1 @ map (\<lambda>f. expected_true df (exp_name f)) files"
    by blast
  have "\<forall>g \<in> set (f # files). count_rows df (exp_name g) \<le> 1
        \<and> row_accepted L a (expected_true df (exp_name g))"
    using ih(1) le acc true a1(1) by (auto simp: row_accepted_def)
  moreover have "ns' = ns @ map exp_name (f # files)" using ih(2) by simp
  moreover have "params a' = params a @ map (\<lambda>f. expected_true df (exp_name f)) (f # files)"
    using ih(4) a1(2) true by simp
  ultimately show ?case using ih(3) by blast
qed

lemma addExperiments_Inl:
  assumes col: "map_of df ''name'' = Some col" and num: "numeric_params df"
  shows "addExperiments L df files (Some a) ns = Inl e \<Longrightarrow> e = AssertionError"
proof (induction files arbitrary: a ns)
  case Nil
  then show ?case by simp
next
  case (Cons f files)
  let ?sp = "readSpectrum L (''exp'' @ os_sep @ f)"
  show ?case
  proof (cases "1 < count_rows df (exp_name f)")
    case True
    from Cons.prems show ?thesis by (simp add: Let_def true_values_many [OF col True])
  next
    case False
    then have le: "count_rows df (exp_name f) \<le> 1" by simp
    note tv = true_values_expected [OF col num le]
    show ?thesis
    proof (cases "row_accepted L a (expected_true df (exp_name f))")
      case False
      then have "addRow L sp (expected_true df (exp_name f)) a = Inl AssertionError" for sp
        by (simp add: addRow_def)
      with Cons.prems show ?thesis by (simp add: Let_def tv)
    next
      case True
      then have "addRow L sp (expected_true df (exp_name f)) a
          = Inr (a\<lparr>params := params a @ [expected_true df (exp_name f)],
             spectra := (spectra a)\<lparr>intensities :=
               intensities (spectra a) @ [resample L (energy (spectra a)) sp]\<rparr>\<rparr>)" for sp
        by (simp add: addRow_def)
      with Cons.prems obtain a1 where
        "addExperiments L df files (Some a1) (ns @ [exp_name f]) = Inl e"
        by (simp add: Let_def tv)
      then show ?thesis by (rule Cons.IH)
    qed
  qed
qed

lemma addExperiments_abort:
  assumes col: "map_of df ''name'' = Some col" and num: "numeric_params df"
    and bad: "\<exists>f \<in> set files. 1 < count_rows df (exp_name f)
        \<or> \<not> row_accepted L a (expected_true df (exp_name f))"
  shows "addExperiments L df files (Some a) ns = Inl AssertionError"
proof (cases "addExperiments L df files (Some a) ns")
  case (Inl e)
  with addExperiments_Inl [OF col num Inl] show ?thesis by simp
next
  case (Inr r)
  obtain r1 ns' where "r = (r1, ns')" by (cases r)
  with Inr have "addExperiments L df files (Some a) ns = Inr (r1, ns')" by simp
  from addExperiments_Inr [OF col num this] bad show ?thesis by force
qed

lemma loop_Some:
  "loadSpectra_loop L sf ihs ps all_data fs = Inr (r, fs') \<Longrightarrow> ps \<noteq> [] \<or> all_data \<noteq> None \<Longrightarrow>
   r \<noteq> None"
proof (induction ps arbitrary: all_data fs)
  case Nil
  then show ?case by simp
next
  case (Cons p ps)
  obtain CN v where p: "p = (CN, v)" by (cases p)
  from Cons.prems(1) p obtain data fs1 where
    "loadSpectra_loop L sf ihs ps
       (Some (case all_data of None \<Rightarrow> data | Some a \<Rightarrow> unionWith a data)) fs1 = Inr (r, fs')"
    by (auto split: sum.splits)
  from Cons.IH [OF this] show ?case by simp
qed

lemma trueParams_lib0:
  "read_csv lib0 p = [(''name'', [Str ''a'']), (''CN'', [Float (Fin 4)]), (''valence'', [Float NaN])]"
  by (simp add: lib0_def)

section \<open>The parameters of the theoretical rows\<close>

lemma params_addParam_replicate:
  "length (params s) = n \<Longrightarrow>
   params (addParam c (replicate n x) s) = map (\<lambda>r. r(c \<mapsto> x)) (params s)"
  by (auto simp: addParam_def intro!: nth_equalityI)

lemma params_addParam_upt:
  "length (params s) = n \<Longrightarrow>
   params (addParam c (map g [0..<n]) s) = map (\<lambda>i. (params s ! i)(c \<mapsto> g i)) [0..<n]"
  by (auto simp: addParam_def intro!: nth_equalityI)

lemma params_addParamGen:
  "params (addParamGen g names s) = map (\<lambda>r. r ++ map_of (zip names (g r))) (params s)"
  by (simp add: addParamGen_def)

lemma params_delParam:
  "params (delParam names s) = map (\<lambda>r. r |` (- set names)) (params s)"
  by (simp add: delParam_def)

lemma body_params:
  assumes "loadSpectra_body L sf ihs CN v fs = Inr (data, fs')"
  shows "params data = theoryRows L sf ihs CN v"
proof -
  let ?src = "sourceData L sf ihs CN v"
  let ?n = "length (params ?src)"
  let ?g = "\<lambda>row. calcDist L row (moleculeOf L (sourceProject L ihs CN v) row) CN"
  let ?d = "delParam (paramNames ?src)
     (addParam ''valence'' (replicate ?n (Float (Fin (real v))))
       (addParam ''CN'' (replicate ?n (Float (Fin (real CN))))
         (addParamGen ?g [''FeODist'', ''stdDist''] ?src)))"
  have l1: "length (params (addParamGen ?g [''FeODist'', ''stdDist''] ?src)) = ?n"
    by (simp add: params_addParamGen)
  have p2: "params (addParam ''CN'' (replicate ?n (Float (Fin (real CN))))
         (addParamGen ?g [''FeODist'', ''stdDist''] ?src))
      = map (\<lambda>r. (r ++ map_of (zip [''FeODist'', ''stdDist''] (?g r)))(''CN'' \<mapsto> Float (Fin (real CN))))
          (params ?src)"
    by (simp add: params_addParam_replicate [OF l1] params_addParamGen)
  have p3: "params (addParam ''valence'' (replicate ?n (Float (Fin (real v))))
       (addParam ''CN'' (replicate ?n (Float (Fin (real CN))))
         (addParamGen ?g [''FeODist'', ''stdDist''] ?src)))
      = map (\<lambda>r. (r ++ map_of (zip [''FeODist'', ''stdDist''] (?g r)))
                (''CN'' \<mapsto> Float (Fin (real CN)), ''valence'' \<mapsto> Float (Fin (real v))))
          (params ?src)"
    by (subst params_addParam_replicate) (simp_all add: p2)
  have p4: "params ?d
      = map (\<lambda>r. ((r ++ map_of (zip [''FeODist'', ''stdDist''] (?g r)))
                (''CN'' \<mapsto> Float (Fin (real CN)), ''valence'' \<mapsto> Float (Fin (real v))))
               |` (- set (paramNames ?src)))
          (params ?src)"
    by (simp add: params_delParam p3)
  have l4: "length (params (?d\<lparr>spectra := smoothedSpectra L sf ihs CN v\<rparr>)) = ?n"
    by (simp add: p4)
  from assms have
    data: "data = addParam ''name'' (map (\<lambda>i. Str (sampleName CN v i)) [0..<?n])
       (?d\<lparr>spectra := smoothedSpectra L sf ihs CN v\<rparr>)"
    unfolding loadSpectra_body_def smoothedSpectra_def Let_def
    by (auto split: if_splits)
  show ?thesis
    unfolding data params_addParam_upt [OF l4] theoryRows_def Let_def
    by (simp add: p4)
qed

lemma body_paramNames:
  assumes run: "loadSpectra_body L sf ihs CN v fs = Inr (data, fs')"
    and wf: "well_formed_source (sourceData L sf ihs CN v)"
  shows "paramNames data = [''FeODist'', ''stdDist'', ''CN'', ''valence'', ''name'']"
proof -
  let ?src = "sourceData L sf ihs CN v"
  from wf have new: "''FeODist'' \<notin> set (paramNames ?src)" "''stdDist'' \<notin> set (paramNames ?src)"
    "''CN'' \<notin> set (paramNames ?src)" "''valence'' \<notin> set (paramNames ?src)"
    by (simp_all add: well_formed_source_def)
  have old: "filter (\<lambda>c. c \<notin> set (paramNames ?src)) (paramNames ?src) = []"
    by (simp add: filter_empty_conv)
  from run show ?thesis
    unfolding loadSpectra_body_def Let_def
    by (auto simp: addParam_def addParamGen_def delParam_def new old split: if_splits)
qed

lemma loop_paramNames_Some:
  "loadSpectra_loop L sf ihs ps (Some a) fs = Inr (Some a', fs') \<Longrightarrow>
   paramNames a' = paramNames a"
proof (induction ps arbitrary: a fs)
  case Nil
  then show ?case by simp
next
  case (Cons p ps)
  obtain CN v where p: "p = (CN, v)" by (cases p)
  from Cons.prems p obtain data fs1 where
    "loadSpectra_loop L sf ihs ps (Some (unionWith a data)) fs1 = Inr (Some a', fs')"
    by (auto split: sum.splits)
  from Cons.IH [OF this] show ?case by (simp add: unionWith_def)
qed

lemma loop_paramNames:
  assumes run: "loadSpectra_loop L sf ihs cn_valence_pairs None fs = Inr (Some a', fs')"
    and wf: "\<forall>(CN, v) \<in> set cn_valence_pairs. well_formed_source (sourceData L sf ihs CN v)"
  shows "paramNames a' = [''FeODist'', ''stdDist'', ''CN'', ''valence'', ''name'']"
proof -
  have ps: "cn_valence_pairs = (2, 2) # tl cn_valence_pairs" by (simp add: pairs_eval)
  from run ps have "loadSpectra_loop L sf ihs ((2, 2) # tl cn_valence_pairs) None fs
      = Inr (Some a', fs')" by simp
  then obtain data fs1 where
    b: "loadSpectra_body L sf ihs 2 2 fs = Inr (data, fs1)" and
    l: "loadSpectra_loop L sf ihs (tl cn_valence_pairs) (Some data) fs1 = Inr (Some a', fs')"
    by (auto split: sum.splits)
  from wf have "well_formed_source (sourceData L sf ihs 2 2)" by (simp add: pairs_eval)
  from body_paramNames [OF b this] loop_paramNames_Some [OF l] show ?thesis by simp
qed

lemma loop_params:
  "loadSpectra_loop L sf ihs ps all_data fs = Inr (Some a', fs') \<Longrightarrow>
   params a' = (case all_data of None \<Rightarrow> [] | Some a \<Rightarrow> params a)
      @ concat (map (\<lambda>(CN, v). theoryRows L sf ihs CN v) ps)"
proof (induction ps arbitrary: all_data fs)
  case Nil
  then show ?case by simp
next
  case (Cons p ps)
  obtain CN v where p: "p = (CN, v)" by (cases p)
  from Cons.prems p obtain data fs1 where
    b: "loadSpectra_body L sf ihs CN v fs = Inr (data, fs1)" and
    l: "loadSpectra_loop L sf ihs ps
       (Some (case all_data of None \<Rightarrow> data | Some a \<Rightarrow> unionWith a data)) fs1 = Inr (Some a', fs')"
    by (auto split: sum.splits)
  from Cons.IH [OF l] body_params [OF b] show ?case
    by (cases all_data) (simp_all add: p unionWith_def)
qed

lemma addExperiments_params:
  "addExperiments L df files (Some a) ns = Inr (r, ns') \<Longrightarrow>
   \<exists>a' ex. r = Some a' \<and> params a' = params a @ ex \<and> length ex = length files"
proof (induction files arbitrary: a ns)
  case Nil
  then show ?case by auto
next
  case (Cons f files)
  from Cons.prems obtain true a1 where
    row: "addRow L (readSpectrum L (''exp'' @ os_sep @ f)) true a = Inr a1"
    and rec: "addExperiments L df files (Some a1) (ns @ [exp_name f]) = Inr (r, ns')"
    by (auto simp: Let_def bindE_eq_Inr)
  from row have a1: "params a1 = params a @ [true]" by (auto simp: addRow_Inr)
  from Cons.IH [OF rec] obtain a' ex where
    "r = Some a'" "params a' = params a @ [true] @ ex" "length ex = length files"
    by (auto simp: a1)
  then show ?case by (intro exI [of _ a'] exI [of _ "true # ex"]) simp
qed

lemma loadSpectra_params:
  assumes "loadSpectra L er sf ihs fs = Inr ((all_data, names), fs')"
  shows "\<exists>ex. params all_data
      = concat (map (\<lambda>(CN, v). theoryRows L sf ihs CN v) cn_valence_pairs) @ ex
    \<and> length ex = length (listdir L ''exp'')"
proof -
  from assms obtain r fs1 r2 names2 where
    loop: "loadSpectra_loop L sf ihs cn_valence_pairs None fs = Inr (r, fs1)"
    and ex: "addExperiments L (read_csv L ''exp_true_values.csv'') (listdir L ''exp'') r []
         = Inr (r2, names2)"
    and fin: "(case r2 of None \<Rightarrow> Inl AttributeError
         | Some a \<Rightarrow> Inr ((a\<lparr>spectra := limit L er (spectra a)\<rparr>, names2), fs1))
        = Inr ((all_data, names), fs')"
    by (auto simp: loadSpectra_def bindE_eq_Inr)
  have "cn_valence_pairs \<noteq> []" by (simp add: pairs_eval)
  with loop_Some [OF loop] obtain a0 where r: "r = Some a0" by auto
  from loop_params [OF loop [unfolded r]]
  have p0: "params a0 = concat (map (\<lambda>(CN, v). theoryRows L sf ihs CN v) cn_valence_pairs)"
    by simp
  from addExperiments_params [OF ex [unfolded r]] obtain a1 rows where
    r2: "r2 = Some a1" and p1: "params a1 = params a0 @ rows"
    and len: "length rows = length (listdir L ''exp'')" by blast
  from fin r2 have "all_data = a1\<lparr>spectra := limit L er (spectra a1)\<rparr>" by simp
  then have "params all_data = params a1" by simp
  with p0 p1 len show ?thesis by simp
qed

lemma calcDist_two: "\<exists>x y. calcDist L row mol CN = [x, y]"
  by (simp add: calcDist_def Let_def)

lemma theoryRows_length:
  "length (theoryRows L sf ihs CN v) = length (params (sourceData L sf ihs CN v))"
  by (simp add: theoryRows_def Let_def)

lemma theoryRows_row:
  assumes wf: "well_formed_source (sourceData L sf ihs CN v)"
    and i: "i < length (params (sourceData L sf ihs CN v))"
  shows "dom (theoryRows L sf ihs CN v ! i) = {''FeODist'', ''stdDist'', ''CN'', ''valence'', ''name''}"
    and "(theoryRows L sf ihs CN v ! i) ''CN'' = Some (Float (Fin (real CN)))"
    and "(theoryRows L sf ihs CN v ! i) ''valence'' = Some (Float (Fin (real v)))"
    and "(theoryRows L sf ihs CN v ! i) ''name'' = Some (Str (sampleName CN v i))"
proof -
  let ?src = "sourceData L sf ihs CN v"
  let ?r = "params ?src ! i"
  from wf have new: "''FeODist'' \<notin> set (paramNames ?src)" "''stdDist'' \<notin> set (paramNames ?src)"
    "''CN'' \<notin> set (paramNames ?src)" "''valence'' \<notin> set (paramNames ?src)"
    by (simp_all add: well_formed_source_def)
  from wf i have old: "dom ?r \<subseteq> set (paramNames ?src)"
    by (simp add: well_formed_source_def list_all_length)
  obtain x y where xy: "calcDist L ?r (moleculeOf L (sourceProject L ihs CN v) ?r) CN = [x, y]"
    using calcDist_two [of L ?r "moleculeOf L (sourceProject L ihs CN v) ?r" CN] by auto
  have row: "(theoryRows L sf ihs CN v ! i) c
     = (if c = ''name'' then Some (Str (sampleName CN v i))
        else if c \<in> set (paramNames ?src) then None
        else if c = ''valence'' then Some (Float (Fin (real v)))
        else if c = ''CN'' then Some (Float (Fin (real CN)))
        else if c = ''FeODist'' then Some x
        else if c = ''stdDist'' then Some y
        else ?r c)" for c
    using i by (simp add: theoryRows_def Let_def xy restrict_map_def map_add_def)
  have none: "?r c = None" if "c \<notin> set (paramNames ?src)" for c
    using old that by auto
  show "dom (theoryRows L sf ihs CN v ! i) = {''FeODist'', ''stdDist'', ''CN'', ''valence'', ''name''}"
    using new none by (auto simp: dom_def row split: if_splits)
  show "(theoryRows L sf ihs CN v ! i) ''CN'' = Some (Float (Fin (real CN)))"
    using new by (simp add: row)
  show "(theoryRows L sf ihs CN v ! i) ''valence'' = Some (Float (Fin (real v)))"
    using new by (simp add: row)
  show "(theoryRows L sf ihs CN v ! i) ''name'' = Some (Str (sampleName CN v i))"
    by (simp add: row)
qed

lemma pairs_range:
  "p \<in> set cn_valence_pairs \<Longrightarrow> fst p \<in> {2, 3, 4, 5, 6} \<and> snd p \<in> {2, 3}"
  by (auto simp: pairs_eval)

text \<open>
  Claim C9. When \<^verbatim>\<open>loadSpectra\<close> returns, the parameter rows of the combined sample
  are the rows of the ten (CN, valence) sub-samples, in the order of the loops, followed
  by one row for each file of \<^verbatim>\<open>exp\<close>. CN is one of 2, ..., 6 and valence one of 2, 3.
  Row \<open>i\<close> of the sub-sample of (CN, valence) has exactly the parameters
  \<^verbatim>\<open>FeODist\<close>, \<^verbatim>\<open>stdDist\<close>, \<^verbatim>\<open>CN\<close>, \<^verbatim>\<open>valence\<close> and \<^verbatim>\<open>name\<close>: the parameters of the
  sample read from the folder are gone, \<^verbatim>\<open>CN\<close> and \<^verbatim>\<open>valence\<close> hold the two loop
  variables and \<^verbatim>\<open>name\<close> is \<^verbatim>\<open>cn{CN}v{valence}_{i}\<close>. The samples read from the
  folders are taken to be well formed: none of their geometry parameters is named like
  one of the four new parameters, and their rows have no cell outside their columns.
\<close>

theorem loadSpectra_theoretical_rows:
  assumes run: "loadSpectra L energyRange sf ihs fs = Inr ((all_data, names), fs')"
    and wf: "\<forall>(CN, v) \<in> set cn_valence_pairs. well_formed_source (sourceData L sf ihs CN v)"
  shows "\<exists>blocks exps. params all_data = concat blocks @ exps
     \<and> length exps = length (listdir L ''exp'')
     \<and> length blocks = length cn_valence_pairs
     \<and> (\<forall>k < length blocks.
          fst (cn_valence_pairs ! k) \<in> {2, 3, 4, 5, 6} \<and> snd (cn_valence_pairs ! k) \<in> {2, 3}
          \<and> length (blocks ! k)
               = length (params (sourceData L sf ihs (fst (cn_valence_pairs ! k))
                   (snd (cn_valence_pairs ! k))))
          \<and> (\<forall>i < length (blocks ! k).
               dom (blocks ! k ! i) = {''FeODist'', ''stdDist'', ''CN'', ''valence'', ''name''}
               \<and> (blocks ! k ! i) ''CN'' = Some (Float (Fin (real (fst (cn_valence_pairs ! k)))))
               \<and> (blocks ! k ! i) ''valence''
                    = Some (Float (Fin (real (snd (cn_valence_pairs ! k)))))
               \<and> (blocks ! k ! i) ''name''
                    = Some (Str (''cn'' @ str_nat (fst (cn_valence_pairs ! k)) @ ''v''
                         @ str_nat (snd (cn_valence_pairs ! k)) @ ''_'' @ str_nat i))))"
proof -
  let ?blocks = "map (\<lambda>(CN, v). theoryRows L sf ihs CN v) cn_valence_pairs"
  from loadSpectra_params [OF run] obtain exps where
    p: "params all_data = concat ?blocks @ exps"
    and len: "length exps = length (listdir L ''exp'')" by blast
  have block: "fst (cn_valence_pairs ! k) \<in> {2, 3, 4, 5, 6} \<and> snd (cn_valence_pairs ! k) \<in> {2, 3}
          \<and> length (?blocks ! k)
               = length (params (sourceData L sf ihs (fst (cn_valence_pairs ! k))
                   (snd (cn_valence_pairs ! k))))
          \<and> (\<forall>i < length (?blocks ! k).
               dom (?blocks ! k ! i) = {''FeODist'', ''stdDist'', ''CN'', ''valence'', ''name''}
               \<and> (?blocks ! k ! i) ''CN'' = Some (Float (Fin (real (fst (cn_valence_pairs ! k)))))
               \<and> (?blocks ! k ! i) ''valence''
                    = Some (Float (Fin (real (snd (cn_valence_pairs ! k)))))
               \<and> (?blocks ! k ! i) ''name''
                    = Some (Str (''cn'' @ str_nat (fst (cn_valence_pairs ! k)) @ ''v''
                         @ str_nat (snd (cn_valence_pairs ! k)) @ ''_'' @ str_nat i)))"
    if k: "k < length ?blocks" for k
  proof -
    obtain CN v where cv: "cn_valence_pairs ! k = (CN, v)" by (cases "cn_valence_pairs ! k")
    from k have mem: "(CN, v) \<in> set cn_valence_pairs"
      using cv nth_mem [of k cn_valence_pairs] by simp
    with wf have w: "well_formed_source (sourceData L sf ihs CN v)" by auto
    from k cv have b: "?blocks ! k = theoryRows L sf ihs CN v" by simp
    note rows = theoryRows_row [OF w]
    show ?thesis
      unfolding b cv using pairs_range [OF mem] rows
      by (simp add: theoryRows_length sampleName_def)
  qed
  show ?thesis
    by (rule exI [of _ ?blocks], rule exI [of _ exps]) (use p len block in simp)
qed

lemma str_nat_small: "n < 10 \<Longrightarrow> str_nat n = [digit n]"
  by (subst str_nat.simps) simp

lemma sourceData_lib0 [simp]: "sourceData lib0 sf ihs CN v = sample0"
  by (cases ihs) (simp_all add: sourceData_def lib0_def Let_def)

lemma loadSpectra_lib0_returns:
  "\<exists>all_data fs'. loadSpectra lib0 energyRange ''samples'' ihs fs
      = Inr ((all_data, [''a'']), fs')"
proof -
  have "\<forall>(CN, v) \<in> set cn_valence_pairs. all_below (smoothedSpectra lib0 ''samples'' ihs CN v) 15"
    by (simp add: smoothed_lib0 all_below_def)
  from loop_ok [OF this] obtain r fs1 where
    loop: "loadSpectra_loop lib0 ''samples'' ihs cn_valence_pairs None fs = Inr (r, fs1)"
    by (metis surj_pair)
  have "cn_valence_pairs \<noteq> []" by (simp add: pairs_eval)
  with loop_Some [OF loop] obtain a0 where r: "r = Some a0" by auto
  have wf: "\<forall>(CN, v) \<in> set cn_valence_pairs.
      well_formed_source (sourceData lib0 ''samples'' ihs CN v)"
    by (simp add: well_formed_source_def sample0_def)
  from loop_paramNames [OF loop [unfolded r] wf]
  have pn: "paramNames a0 = [''FeODist'', ''stdDist'', ''CN'', ''valence'', ''name'']"
    by (simp add: pairs_eval)
  define df where "df = read_csv lib0 ''exp_true_values.csv''"
  have dfv: "df = [(''name'', [Str ''a'']), (''CN'', [Float (Fin 4)]), (''valence'', [Float NaN])]"
    by (simp add: df_def trueParams_lib0)
  have col: "map_of df ''name'' = Some [Str ''a'']" by (simp add: dfv)
  have num: "numeric_params df" by (simp add: dfv numeric_params_def)
  have files: "listdir lib0 ''exp'' = [''a.txt'']" by (simp add: lib0_def)
  have na: "exp_name ''a.txt'' = ''a''"
    by (simp add: exp_name_def os_path_split_def os_path_splitext_def)
  have ex: "expected_true df ''a'' = known_row df 0"
    by (simp add: expected_true_def dfv upt_rec)
  have keys: "dom (known_row df 0) \<subseteq> {''name'', ''CN'', ''valence''}"
    by (auto simp: known_row_def dfv split: if_splits)
  have accepts: "addRow_accepts lib0 ns t" for ns t by (simp add: lib0_def)
  have acc: "row_accepted lib0 a0 (expected_true df ''a'')"
    unfolding row_accepted_def pn ex using keys accepts by auto
  have cnt: "count_rows df ''a'' = 1" by (simp add: count_rows_def dfv upt_rec)
  have le: "\<forall>f \<in> set (listdir lib0 ''exp''). count_rows df (exp_name f) \<le> 1
      \<and> row_accepted lib0 a0 (expected_true df (exp_name f))"
    using acc cnt by (simp add: files na)
  from addExperiments_ok [OF col num le, of "[]"] obtain a' where
    "addExperiments lib0 df (listdir lib0 ''exp'') (Some a0) []
       = Inr (Some a', [] @ map exp_name (listdir lib0 ''exp''))" by blast
  then show ?thesis by (simp add: loadSpectra_def loop r files na df_def)
qed

theorem loadSpectra_theoretical_rows_witness:
  "\<exists>all_data names fs'.
     loadSpectra lib0 (Some (7100, 7200)) ''samples'' False Map.empty = Inr ((all_data, names), fs')
     \<and> dom (params all_data ! 0) = {''FeODist'', ''stdDist'', ''CN'', ''valence'', ''name''}
     \<and> (params all_data ! 0) ''CN'' = Some (Float (Fin 2))
     \<and> (params all_data ! 0) ''valence'' = Some (Float (Fin 2))
     \<and> (params all_data ! 0) ''name'' = Some (Str ''cn2v2_0'')"
proof -
  from loadSpectra_lib0_returns obtain all_data fs' where
    run: "loadSpectra lib0 (Some (7100, 7200)) ''samples'' False Map.empty
      = Inr ((all_data, [''a'']), fs')" by blast
  have wf: "\<forall>(CN, v) \<in> set cn_valence_pairs.
      well_formed_source (sourceData lib0 ''samples'' False CN v)"
    by (simp add: well_formed_source_def sample0_def)
  from loadSpectra_theoretical_rows [OF run wf]
  have "\<exists>blocks exps. params all_data = concat blocks @ exps
     \<and> length exps = length (listdir lib0 ''exp'')
     \<and> length blocks = length cn_valence_pairs
     \<and> (\<forall>k < length blocks.
          fst (cn_valence_pairs ! k) \<in> {2, 3, 4, 5, 6} \<and> snd (cn_valence_pairs ! k) \<in> {2, 3}
          \<and> length (blocks ! k)
               = length (params (sourceData lib0 ''samples'' False (fst (cn_valence_pairs ! k))
                   (snd (cn_valence_pairs ! k))))
          \<and> (\<forall>i < length (blocks ! k).
               dom (blocks ! k ! i) = {''FeODist'', ''stdDist'', ''CN'', ''valence'', ''name''}
               \<and> (blocks ! k ! i) ''CN'' = Some (Float (Fin (real (fst (cn_valence_pairs ! k)))))
               \<and> (blocks ! k ! i) ''valence''
                    = Some (Float (Fin (real (snd (cn_valence_pairs ! k)))))
               \<and> (blocks ! k ! i) ''name''
                    = Some (Str (''cn'' @ str_nat (fst (cn_valence_pairs ! k)) @ ''v''
                         @ str_nat (snd (cn_valence_pairs ! k)) @ ''_'' @ str_nat i))))"
    (is "\<exists>blocks exps. ?P blocks exps") .
  then obtain blocks where "\<exists>exps. ?P blocks exps" ..
  then obtain exps where H: "?P blocks exps" ..
  note p = H [THEN conjunct1]
  note lb = H [THEN conjunct2, THEN conjunct2, THEN conjunct1]
  note b = H [THEN conjunct2, THEN conjunct2, THEN conjunct2]
  have k0: "0 < length blocks" using lb by (simp add: pairs_eval)
  have p0: "cn_valence_pairs ! 0 = (2, 2)" by (simp add: pairs_eval)
  note at0 = b [rule_format, OF k0]
  from at0 have l0: "length (blocks ! 0) = 1"
    by (simp add: p0 sample0_def)
  then have i0: "0 < length (blocks ! 0)" by simp
  note row0 = at0 [THEN conjunct2, THEN conjunct2, THEN conjunct2, rule_format, OF i0]
  have digits: "str_nat 0 = ''0''" "str_nat 2 = ''2''"
    by (simp_all add: str_nat_small digit_def)
  from row0 have row:
    "dom (blocks ! 0 ! 0) = {''FeODist'', ''stdDist'', ''CN'', ''valence'', ''name''}"
    "(blocks ! 0 ! 0) ''CN'' = Some (Float (Fin 2))"
    "(blocks ! 0 ! 0) ''valence'' = Some (Float (Fin 2))"
    "(blocks ! 0 ! 0) ''name'' = Some (Str ''cn2v2_0'')"
    by (simp_all add: p0 digits)
  from k0 obtain b0 bs where bl: "blocks = b0 # bs" by (cases blocks) auto
  with i0 obtain x xs where b0: "b0 = x # xs" by (cases b0) auto
  have "params all_data ! 0 = blocks ! 0 ! 0" by (simp add: p bl b0)
  with row run show ?thesis by auto
qed

section \<open>The rows of the experimental spectra in the result\<close>

lemma dom_known_row: "dom (known_row df i) \<subseteq> set (map fst df)"
  by (auto simp: known_row_def split: if_splits)

lemma dom_expected_true:
  assumes "map_of df ''name'' = Some col"
  shows "dom (expected_true df name) \<subseteq> insert ''name'' (set (map fst df))"
proof (cases "filter (\<lambda>j. col ! j = Str name) [0..<length col]")
  case Nil
  with assms show ?thesis by (simp add: expected_true_def)
next
  case (Cons i rest)
  with assms have "expected_true df name = known_row df i" by (simp add: expected_true_def)
  with dom_known_row [of df i] show ?thesis by auto
qed

lemma loadSpectra_experiment_rows:
  assumes col: "map_of (read_csv L ''exp_true_values.csv'') ''name'' = Some col"
    and num: "numeric_params (read_csv L ''exp_true_values.csv'')"
    and run: "loadSpectra L er sf ihs fs = Inr ((all_data, names), fs')"
  shows "names = map exp_name (listdir L ''exp'')
    \<and> (\<forall>f \<in> set (listdir L ''exp'').
          count_rows (read_csv L ''exp_true_values.csv'') (exp_name f) \<le> 1)
    \<and> params all_data
        = concat (map (\<lambda>(CN, v). theoryRows L sf ihs CN v) cn_valence_pairs)
          @ map (\<lambda>f. expected_true (read_csv L ''exp_true_values.csv'') (exp_name f))
              (listdir L ''exp'')"
proof -
  let ?df = "read_csv L ''exp_true_values.csv''"
  from run obtain r fs1 r2 names2 where
    loop: "loadSpectra_loop L sf ihs cn_valence_pairs None fs = Inr (r, fs1)"
    and ex: "addExperiments L ?df (listdir L ''exp'') r [] = Inr (r2, names2)"
    and fin: "(case r2 of None \<Rightarrow> Inl AttributeError
         | Some a \<Rightarrow> Inr ((a\<lparr>spectra := limit L er (spectra a)\<rparr>, names2), fs1))
        = Inr ((all_data, names), fs')"
    by (auto simp: loadSpectra_def bindE_eq_Inr)
  have "cn_valence_pairs \<noteq> []" by (simp add: pairs_eval)
  with loop_Some [OF loop] obtain a0 where r: "r = Some a0" by auto
  from loop_params [OF loop [unfolded r]]
  have p0: "params a0 = concat (map (\<lambda>(CN, v). theoryRows L sf ihs CN v) cn_valence_pairs)"
    by simp
  from addExperiments_Inr [OF col num ex [unfolded r]] obtain a1 where
    cnt: "\<forall>f \<in> set (listdir L ''exp''). count_rows ?df (exp_name f) \<le> 1"
    and n2: "names2 = map exp_name (listdir L ''exp'')"
    and r2: "r2 = Some a1"
    and p1: "params a1 = params a0 @ map (\<lambda>f. expected_true ?df (exp_name f)) (listdir L ''exp'')"
    by auto
  from fin r2 have "all_data = a1\<lparr>spectra := limit L er (spectra a1)\<rparr>" and "names = names2"
    by simp_all
  then have "params all_data = params a1" "names = names2" by simp_all
  with p0 p1 n2 cnt show ?thesis by simp
qed

lemma loadSpectra_returns_rows:
  assumes col: "map_of (read_csv L ''exp_true_values.csv'') ''name'' = Some col"
    and num: "numeric_params (read_csv L ''exp_true_values.csv'')"
    and loop: "loadSpectra_loop L sf ihs cn_valence_pairs None fs = Inr (Some a0, fsa)"
    and ok: "\<forall>f \<in> set (listdir L ''exp'').
        count_rows (read_csv L ''exp_true_values.csv'') (exp_name f) \<le> 1
        \<and> row_accepted L a0 (expected_true (read_csv L ''exp_true_values.csv'') (exp_name f))"
  shows "\<exists>all_data. loadSpectra L er sf ihs fs
        = Inr ((all_data, map exp_name (listdir L ''exp'')), fsa)
    \<and> params all_data
        = concat (map (\<lambda>(CN, v). theoryRows L sf ihs CN v) cn_valence_pairs)
          @ map (\<lambda>f. expected_true (read_csv L ''exp_true_values.csv'') (exp_name f))
              (listdir L ''exp'')"
proof -
  let ?df = "read_csv L ''exp_true_values.csv''"
  from addExperiments_ok [OF col num ok, of "[]"] obtain a' where
    ex: "addExperiments L ?df (listdir L ''exp'') (Some a0) []
       = Inr (Some a', [] @ map exp_name (listdir L ''exp''))"
    and p: "params a' = params a0
        @ map (\<lambda>f. expected_true ?df (exp_name f)) (listdir L ''exp'')"
    by blast
  from loop_params [OF loop]
  have p0: "params a0 = concat (map (\<lambda>(CN, v). theoryRows L sf ihs CN v) cn_valence_pairs)"
    by simp
  have "loadSpectra L er sf ihs fs
      = Inr ((a'\<lparr>spectra := limit L er (spectra a')\<rparr>, map exp_name (listdir L ''exp'')), fsa)"
    using ex by (simp add: loadSpectra_def loop)
  moreover have "params (a'\<lparr>spectra := limit L er (spectra a')\<rparr>)
      = concat (map (\<lambda>(CN, v). theoryRows L sf ihs CN v) cn_valence_pairs)
          @ map (\<lambda>f. expected_true ?df (exp_name f)) (listdir L ''exp'')"
    using p p0 by simp
  ultimately show ?thesis by blast
qed

text \<open>
  Claim C2. For every file of the directory \<^verbatim>\<open>exp\<close>, \<^verbatim>\<open>loadSpectra\<close> looks up the
  rows of \<^verbatim>\<open>exp_true_values.csv\<close> whose \<^verbatim>\<open>name\<close> is the base name of the file. With
  no such row the dictionary of the spectrum carries the name only; with exactly one it
  carries the name and the cells of that row that are not NaN; with more than one the
  assertion \<^verbatim>\<open>len(i) == 1\<close> fails, which ends the loop over the files and
  \<^verbatim>\<open>loadSpectra\<close> itself in an \<^verbatim>\<open>AssertionError\<close>: nothing catches it. The same
  error ends them when \<^verbatim>\<open>addRow\<close> refuses a dictionary. When \<^verbatim>\<open>loadSpectra\<close>
  returns, no file has more than one row of its name, the names it returns are the base
  names of the files, and the rows of its sample are the theoretical rows followed, file
  by file, by these dictionaries; and it does return them when the loops over the
  sub-samples return, no file has more than one row and \<^verbatim>\<open>addRow\<close> accepts every
  dictionary, for which its keys have to be parameters of the sample: it is enough for
  that part that the columns of the table and \<^verbatim>\<open>name\<close> are. The table is taken to have a
  \<^verbatim>\<open>name\<close> column and numbers in every other column.
\<close>

theorem loadSpectra_true_values:
  assumes col: "map_of df ''name'' = Some col" and num: "numeric_params df"
  shows "(count_rows df name = 0 \<longrightarrow> true_values df name = Inr [''name'' \<mapsto> Str name])
    \<and> (count_rows df name = 1 \<longrightarrow>
          (\<exists>i < length col. col ! i = Str name \<and> true_values df name = Inr (known_row df i)
              \<and> expected_true df name = known_row df i))
    \<and> (1 < count_rows df name \<longrightarrow> true_values df name = Inl AssertionError)
    \<and> ((\<exists>f \<in> set files. 1 < count_rows df (exp_name f)) \<longrightarrow>
          addExperiments L df files (Some a) ns = Inl AssertionError)
    \<and> ((\<exists>f \<in> set files. \<not> row_accepted L a (expected_true df (exp_name f))) \<longrightarrow>
          addExperiments L df files (Some a) ns = Inl AssertionError)
    \<and> ((\<forall>f \<in> set files. count_rows df (exp_name f) \<le> 1
            \<and> row_accepted L a (expected_true df (exp_name f))) \<longrightarrow>
          (\<exists>a'. addExperiments L df files (Some a) ns = Inr (Some a', ns @ map exp_name files)
             \<and> params a' = params a @ map (\<lambda>f. expected_true df (exp_name f)) files))
    \<and> (df = read_csv L ''exp_true_values.csv''
          \<and> (\<exists>f \<in> set (listdir L ''exp''). 1 < count_rows df (exp_name f))
          \<and> (\<exists>r. loadSpectra_loop L sf ihs cn_valence_pairs None fs = Inr r) \<longrightarrow>
          loadSpectra L energyRange sf ihs fs = Inl AssertionError)
    \<and> (df = read_csv L ''exp_true_values.csv''
          \<and> loadSpectra L energyRange sf ihs fs = Inr ((all_data, names), fs') \<longrightarrow>
          names = map exp_name (listdir L ''exp'')
          \<and> (\<forall>f \<in> set (listdir L ''exp''). count_rows df (exp_name f) \<le> 1)
          \<and> params all_data
               = concat (map (\<lambda>(CN, v). theoryRows L sf ihs CN v) cn_valence_pairs)
                 @ map (\<lambda>f. expected_true df (exp_name f)) (listdir L ''exp''))
    \<and> (df = read_csv L ''exp_true_values.csv''
          \<and> loadSpectra_loop L sf ihs cn_valence_pairs None fs = Inr (Some a, fsa)
          \<and> (\<forall>f \<in> set (listdir L ''exp''). count_rows df (exp_name f) \<le> 1
                \<and> row_accepted L a (expected_true df (exp_name f))) \<longrightarrow>
          (\<exists>all_data. loadSpectra L energyRange sf ihs fs
                = Inr ((all_data, map exp_name (listdir L ''exp'')), fsa)
             \<and> params all_data
                 = concat (map (\<lambda>(CN, v). theoryRows L sf ihs CN v) cn_valence_pairs)
                   @ map (\<lambda>f. expected_true df (exp_name f)) (listdir L ''exp'')))
    \<and> (set (map fst df) \<subseteq> set (paramNames a) \<and> ''name'' \<in> set (paramNames a) \<longrightarrow>
          dom (expected_true df name) \<subseteq> set (paramNames a))"
proof (intro conjI impI)
  assume "count_rows df name = 0"
  then show "true_values df name = Inr [''name'' \<mapsto> Str name]"
    by (rule true_values_none [OF col])
next
  assume "count_rows df name = 1"
  from true_values_one [OF col num this]
  show "\<exists>i < length col. col ! i = Str name \<and> true_values df name = Inr (known_row df i)
              \<and> expected_true df name = known_row df i"
    by blast
next
  assume "1 < count_rows df name"
  then show "true_values df name = Inl AssertionError"
    by (rule true_values_many [OF col])
next
  assume "\<exists>f \<in> set files. 1 < count_rows df (exp_name f)"
  then have "\<exists>f \<in> set files. 1 < count_rows df (exp_name f)
        \<or> \<not> row_accepted L a (expected_true df (exp_name f))" by blast
  then show "addExperiments L df files (Some a) ns = Inl AssertionError"
    by (rule addExperiments_abort [OF col num])
next
  assume "\<exists>f \<in> set files. \<not> row_accepted L a (expected_true df (exp_name f))"
  then have "\<exists>f \<in> set files. 1 < count_rows df (exp_name f)
        \<or> \<not> row_accepted L a (expected_true df (exp_name f))" by blast
  then show "addExperiments L df files (Some a) ns = Inl AssertionError"
    by (rule addExperiments_abort [OF col num])
next
  assume "\<forall>f \<in> set files. count_rows df (exp_name f) \<le> 1
            \<and> row_accepted L a (expected_true df (exp_name f))"
  from addExperiments_ok [OF col num this, of ns]
  show "\<exists>a'. addExperiments L df files (Some a) ns = Inr (Some a', ns @ map exp_name files)
             \<and> params a' = params a @ map (\<lambda>f. expected_true df (exp_name f)) files"
    by blast
next
  assume h: "df = read_csv L ''exp_true_values.csv''
          \<and> (\<exists>f \<in> set (listdir L ''exp''). 1 < count_rows df (exp_name f))
          \<and> (\<exists>r. loadSpectra_loop L sf ihs cn_valence_pairs None fs = Inr r)"
  then obtain r fs' where
    loop: "loadSpectra_loop L sf ihs cn_valence_pairs None fs = Inr (r, fs')" by auto
  have "cn_valence_pairs \<noteq> []" by (simp add: pairs_eval)
  with loop_Some [OF loop] obtain a0 where r: "r = Some a0" by auto
  from h have eq: "df = read_csv L ''exp_true_values.csv''"
    and ex: "\<exists>f \<in> set (listdir L ''exp''). 1 < count_rows df (exp_name f)" by blast+
  from ex have "\<exists>f \<in> set (listdir L ''exp''). 1 < count_rows df (exp_name f)
        \<or> \<not> row_accepted L a0 (expected_true df (exp_name f))" by blast
  then have "addExperiments L df (listdir L ''exp'') (Some a0) [] = Inl AssertionError"
    by (rule addExperiments_abort [OF col num])
  then show "loadSpectra L energyRange sf ihs fs = Inl AssertionError"
    unfolding eq by (simp add: loadSpectra_def loop r)
next
  assume h: "df = read_csv L ''exp_true_values.csv''
          \<and> loadSpectra L energyRange sf ihs fs = Inr ((all_data, names), fs')"
  then have eq: "df = read_csv L ''exp_true_values.csv''"
    and run: "loadSpectra L energyRange sf ihs fs = Inr ((all_data, names), fs')" by blast+
  have rows: "names = map exp_name (listdir L ''exp'')
          \<and> (\<forall>f \<in> set (listdir L ''exp''). count_rows df (exp_name f) \<le> 1)
          \<and> params all_data
               = concat (map (\<lambda>(CN, v). theoryRows L sf ihs CN v) cn_valence_pairs)
                 @ map (\<lambda>f. expected_true df (exp_name f)) (listdir L ''exp'')"
    unfolding eq
    by (rule loadSpectra_experiment_rows [OF col [unfolded eq] num [unfolded eq] run])
  show "names = map exp_name (listdir L ''exp'')"
    by (rule rows [THEN conjunct1])
  show "\<forall>f \<in> set (listdir L ''exp''). count_rows df (exp_name f) \<le> 1"
    by (rule rows [THEN conjunct2, THEN conjunct1])
  show "params all_data
        = concat (map (\<lambda>(CN, v). theoryRows L sf ihs CN v) cn_valence_pairs)
          @ map (\<lambda>f. expected_true df (exp_name f)) (listdir L ''exp'')"
    by (rule rows [THEN conjunct2, THEN conjunct2])
next
  assume h: "df = read_csv L ''exp_true_values.csv''
          \<and> loadSpectra_loop L sf ihs cn_valence_pairs None fs = Inr (Some a, fsa)
          \<and> (\<forall>f \<in> set (listdir L ''exp''). count_rows df (exp_name f) \<le> 1
                \<and> row_accepted L a (expected_true df (exp_name f)))"
  then have eq: "df = read_csv L ''exp_true_values.csv''"
    and loop: "loadSpectra_loop L sf ihs cn_valence_pairs None fs = Inr (Some a, fsa)"
    and ok: "\<forall>f \<in> set (listdir L ''exp''). count_rows df (exp_name f) \<le> 1
                \<and> row_accepted L a (expected_true df (exp_name f))" by blast+
  from loadSpectra_returns_rows [OF col [unfolded eq] num [unfolded eq] loop ok [unfolded eq]]
  show "\<exists>all_data. loadSpectra L energyRange sf ihs fs
                = Inr ((all_data, map exp_name (listdir L ''exp'')), fsa)
             \<and> params all_data
                 = concat (map (\<lambda>(CN, v). theoryRows L sf ihs CN v) cn_valence_pairs)
                   @ map (\<lambda>f. expected_true df (exp_name f)) (listdir L ''exp'')"
    unfolding eq .
next
  assume "set (map fst df) \<subseteq> set (paramNames a) \<and> ''name'' \<in> set (paramNames a)"
  with dom_expected_true [OF col, of name]
  show "dom (expected_true df name) \<subseteq> set (paramNames a)" by auto
qed

theorem loadSpectra_true_values_witness:
  "true_values (read_csv lib0 ''exp_true_values.csv'') ''b'' = Inr [''name'' \<mapsto> Str ''b'']
   \<and> true_values (read_csv lib0 ''exp_true_values.csv'') ''a''
        = Inr (known_row (read_csv lib0 ''exp_true_values.csv'') 0)
   \<and> known_row (read_csv lib0 ''exp_true_values.csv'') 0 ''name'' = Some (Str ''a'')
   \<and> known_row (read_csv lib0 ''exp_true_values.csv'') 0 ''CN'' = Some (Float (Fin 4))
   \<and> known_row (read_csv lib0 ''exp_true_values.csv'') 0 ''valence'' = None
   \<and> true_values trueParams_dup ''a'' = Inl AssertionError
   \<and> addExperiments lib0 trueParams_dup [''a.txt''] (Some sample_theory) [] = Inl AssertionError
   \<and> addExperiments lib0 (read_csv lib0 ''exp_true_values.csv'') [''a.txt''] (Some sample0) []
        = Inl AssertionError
   \<and> (\<exists>a'. addExperiments lib0 (read_csv lib0 ''exp_true_values.csv'') [''a.txt'', ''b.txt'']
              (Some sample_theory) [] = Inr (Some a', [''a'', ''b''])
         \<and> length (params a') = 3
         \<and> (params a' ! 2) ''name'' = Some (Str ''b'')
         \<and> (params a' ! 2) ''CN'' = None
         \<and> (params a' ! 1) ''CN'' = Some (Float (Fin 4)))
   \<and> (\<exists>all_data fs'.
         loadSpectra lib0 (Some (7100, 7200)) ''samples'' False Map.empty
           = Inr ((all_data, [''a'']), fs')
         \<and> length (params all_data) = 11
         \<and> (params all_data ! 10) ''name'' = Some (Str ''a'')
         \<and> (params all_data ! 10) ''CN'' = Some (Float (Fin 4))
         \<and> (params all_data ! 10) ''valence'' = None)"
proof -
  define df where "df = read_csv lib0 ''exp_true_values.csv''"
  have dfv: "df = [(''name'', [Str ''a'']), (''CN'', [Float (Fin 4)]), (''valence'', [Float NaN])]"
    by (simp add: df_def trueParams_lib0)
  have col: "map_of df ''name'' = Some [Str ''a'']" by (simp add: dfv)
  have num: "numeric_params df" by (simp add: dfv numeric_params_def)
  have col2: "map_of trueParams_dup ''name'' = Some [Str ''a'', Str ''a'']"
    by (simp add: trueParams_dup_def)
  have num2: "numeric_params trueParams_dup"
    by (simp add: trueParams_dup_def numeric_params_def)
  have na: "exp_name ''a.txt'' = ''a''" "exp_name ''b.txt'' = ''b''"
    by (simp_all add: exp_name_def os_path_split_def os_path_splitext_def)
  have files: "listdir lib0 ''exp'' = [''a.txt'']" by (simp add: lib0_def)
  have cb: "count_rows df ''b'' = 0" and ca: "count_rows df ''a'' = 1"
    by (simp_all add: count_rows_def dfv upt_rec)
  have cd: "count_rows trueParams_dup ''a'' = 2"
    by (simp add: count_rows_def trueParams_dup_def upt_rec)
  have kr: "known_row df 0 ''name'' = Some (Str ''a'')"
    "known_row df 0 ''CN'' = Some (Float (Fin 4))"
    "known_row df 0 ''valence'' = None"
    by (simp_all add: known_row_def loc_def dfv)
  have exb: "expected_true df ''b'' = [''name'' \<mapsto> Str ''b'']"
    by (simp add: expected_true_def dfv upt_rec)
  have accepts: "addRow_accepts lib0 ns t" for ns t by (simp add: lib0_def)
  note A = loadSpectra_true_values [OF col num, where name = "''b''"
      and files = "[''a.txt'', ''b.txt'']" and L = lib0 and a = sample_theory and ns = "[]"]
  note B = loadSpectra_true_values [OF col num, where name = "''a''"
      and files = "[''a.txt'']" and L = lib0 and a = sample0 and ns = "[]"]
  note C = loadSpectra_true_values [OF col2 num2, where name = "''a''"
      and files = "[''a.txt'']" and L = lib0 and a = sample_theory and ns = "[]"]
  have t1: "true_values df ''b'' = Inr [''name'' \<mapsto> Str ''b'']"
    by (rule A [THEN conjunct1, THEN mp]) (rule cb)
  have "\<exists>i < length [Str ''a'']. [Str ''a''] ! i = Str ''a''
      \<and> true_values df ''a'' = Inr (known_row df i) \<and> expected_true df ''a'' = known_row df i"
    by (rule B [THEN conjunct2, THEN conjunct1, THEN mp]) (rule ca)
  then have t2: "true_values df ''a'' = Inr (known_row df 0)"
    and exa: "expected_true df ''a'' = known_row df 0" by auto
  have t3: "true_values trueParams_dup ''a'' = Inl AssertionError"
    by (rule C [THEN conjunct2, THEN conjunct2, THEN conjunct1, THEN mp]) (simp add: cd)
  have dup: "\<exists>f \<in> set [''a.txt'']. 1 < count_rows trueParams_dup (exp_name f)"
    by (simp add: cd na)
  have t4: "addExperiments lib0 trueParams_dup [''a.txt''] (Some sample_theory) []
      = Inl AssertionError"
    by (rule C [THEN conjunct2, THEN conjunct2, THEN conjunct2, THEN conjunct1, THEN mp])
      (rule dup)
  have "\<not> dom (known_row df 0) \<subseteq> set (paramNames sample0)"
    using kr(1) by (auto simp: sample0_def)
  then have rej: "\<exists>f \<in> set [''a.txt'']. \<not> row_accepted lib0 sample0 (expected_true df (exp_name f))"
    by (simp add: na exa row_accepted_def)
  have t5: "addExperiments lib0 df [''a.txt''] (Some sample0) [] = Inl AssertionError"
    by (rule B [THEN conjunct2, THEN conjunct2, THEN conjunct2, THEN conjunct2, THEN conjunct1,
          THEN mp])
      (rule rej)
  have keysa: "dom (known_row df 0) \<subseteq> {''name'', ''CN'', ''valence''}"
    by (auto simp: known_row_def dfv split: if_splits)
  have acca: "row_accepted lib0 s (expected_true df ''a'')"
    if "paramNames s = [''FeODist'', ''stdDist'', ''CN'', ''valence'', ''name'']" for s
    unfolding row_accepted_def exa that using keysa accepts by auto
  have accb: "row_accepted lib0 s (expected_true df ''b'')"
    if "paramNames s = [''FeODist'', ''stdDist'', ''CN'', ''valence'', ''name'']" for s
    unfolding row_accepted_def exb that using accepts by auto
  have pt: "paramNames sample_theory = [''FeODist'', ''stdDist'', ''CN'', ''valence'', ''name'']"
    by (simp add: sample_theory_def)
  have ok: "\<forall>f \<in> set [''a.txt'', ''b.txt'']. count_rows df (exp_name f) \<le> 1
      \<and> row_accepted lib0 sample_theory (expected_true df (exp_name f))"
    using ca cb acca [OF pt] accb [OF pt] by (simp add: na)
  have "\<exists>a'. addExperiments lib0 df [''a.txt'', ''b.txt''] (Some sample_theory) []
           = Inr (Some a', [] @ map exp_name [''a.txt'', ''b.txt''])
         \<and> params a' = params sample_theory
              @ map (\<lambda>f. expected_true df (exp_name f)) [''a.txt'', ''b.txt'']"
    by (rule A [THEN conjunct2, THEN conjunct2, THEN conjunct2, THEN conjunct2, THEN conjunct2,
          THEN conjunct1, THEN mp])
      (rule ok)
  then obtain a' where
    r0: "addExperiments lib0 df [''a.txt'', ''b.txt''] (Some sample_theory) []
           = Inr (Some a', [] @ map exp_name [''a.txt'', ''b.txt''])"
    and p0: "params a' = params sample_theory
              @ map (\<lambda>f. expected_true df (exp_name f)) [''a.txt'', ''b.txt'']"
    by blast
  have r: "addExperiments lib0 df [''a.txt'', ''b.txt''] (Some sample_theory) []
      = Inr (Some a', [''a'', ''b''])"
    using r0 na by simp
  have p: "params a' = params sample_theory @ [known_row df 0, [''name'' \<mapsto> Str ''b'']]"
    using p0 na exa exb by simp
  have t6: "length (params a') = 3" "(params a' ! 2) ''name'' = Some (Str ''b'')"
    "(params a' ! 2) ''CN'' = None" "(params a' ! 1) ''CN'' = Some (Float (Fin 4))"
    using p kr by (simp_all add: sample_theory_def)
  from loadSpectra_lib0_returns obtain all_data fs' where
    run: "loadSpectra lib0 (Some (7100, 7200)) ''samples'' False Map.empty
      = Inr ((all_data, [''a'']), fs')" by blast
  note D = loadSpectra_true_values [OF col num, where L = lib0
      and energyRange = "Some (7100, 7200)" and sf = "''samples''" and ihs = False
      and fs = Map.empty and all_data = all_data and names = "[''a'']" and fs' = fs']
  have "[''a''] = map exp_name (listdir lib0 ''exp'')
      \<and> (\<forall>f \<in> set (listdir lib0 ''exp''). count_rows df (exp_name f) \<le> 1)
      \<and> params all_data
           = concat (map (\<lambda>(CN, v). theoryRows lib0 ''samples'' False CN v) cn_valence_pairs)
             @ map (\<lambda>f. expected_true df (exp_name f)) (listdir lib0 ''exp'')"
    by (rule D [THEN conjunct2, THEN conjunct2, THEN conjunct2, THEN conjunct2, THEN conjunct2,
          THEN conjunct2, THEN conjunct2, THEN conjunct1, THEN mp])
      (intro conjI df_def run)
  then have pa: "params all_data
      = concat (map (\<lambda>(CN, v). theoryRows lib0 ''samples'' False CN v) cn_valence_pairs)
        @ [known_row df 0]"
    by (simp add: files na exa)
  have len: "length (concat (map (\<lambda>(CN, v). theoryRows lib0 ''samples'' False CN v)
      cn_valence_pairs)) = 10"
    by (simp add: pairs_eval theoryRows_length sample0_def)
  have t7: "length (params all_data) = 11" "params all_data ! 10 = known_row df 0"
    using len by (simp_all add: pa nth_append)
  from t1 t2 kr t3 t4 t5 r t6 run t7 show ?thesis
    unfolding df_def by auto
qed

section \<open>Caching\<close>

lemma stage_initial_hit:
  "fs ''generated/data_initial.pkl'' = Some (Pickle (Tuple a n)) \<Longrightarrow>
   fs ''generated/data_initial_IHS_generated.pkl'' = Some (Pickle (Tuple b m)) \<Longrightarrow>
   stage_initial L fs = Inr ((a, n, b), fs)"
  by (simp add: stage_initial_def path_exists_def load_pkl_def)

lemma stage_initial_partial:
  "fs ''generated/data_initial.pkl'' = Some (Pickle (Tuple a n)) \<Longrightarrow>
   fs ''generated/data_initial_IHS_generated.pkl'' = None \<Longrightarrow>
   stage_initial L fs = Inl (FileNotFoundError ''generated/data_initial_IHS_generated.pkl'')"
  by (simp add: stage_initial_def path_exists_def load_pkl_def)

lemma stage_initial_miss:
  "fs ''generated/data_initial.pkl'' = None \<Longrightarrow>
   loadSpectra L (Some (7100, 7200)) ''samples'' False fs = Inr ((a, n), fsa) \<Longrightarrow>
   loadSpectra L (Some (7100, 7200)) ''samples'' True fsa = Inr ((b, m), fsb) \<Longrightarrow>
   stage_initial L fs = Inr ((a, n, b),
     fsb(''generated/data_initial.pkl'' \<mapsto> Pickle (Tuple a n),
         ''generated/data_initial_IHS_generated.pkl'' \<mapsto> Pickle (Tuple b n)))"
  by (simp add: stage_initial_def path_exists_def save_pkl_def)

lemma stage_descriptors_hit:
  "fs ''generated/data.pkl'' = Some (Pickle (Tuple a n)) \<Longrightarrow>
   fs ''generated/data_IHS_gen.pkl'' = Some (Pickle (Tuple b m)) \<Longrightarrow>
   stage_descriptors L sa names sb fs = Inr ((a, b), fs)"
  by (simp add: stage_descriptors_def path_exists_def load_pkl_def)

lemma stage_descriptors_partial:
  "fs ''generated/data.pkl'' = Some (Pickle (Tuple a n)) \<Longrightarrow>
   fs ''generated/data_IHS_gen.pkl'' = None \<Longrightarrow>
   stage_descriptors L sa names sb fs = Inl (FileNotFoundError ''generated/data_IHS_gen.pkl'')"
  by (simp add: stage_descriptors_def path_exists_def load_pkl_def)

lemma stage_descriptors_miss:
  "fs ''generated/data.pkl'' = None \<Longrightarrow>
   calc_descriptors L sa False ''generated/pca_data.pkl'' fs = Inr ((a, g), fsa) \<Longrightarrow>
   calc_descriptors L sb False ''generated/pca_data_IHS_gen.pkl'' fsa = Inr ((b, g'), fsb) \<Longrightarrow>
   stage_descriptors L sa names sb fs = Inr ((a, b),
     fsb(''generated/data.pkl'' \<mapsto> Pickle (Tuple a names),
         ''generated/data_IHS_gen.pkl'' \<mapsto> Pickle (Tuple b names)))"
  by (simp add: stage_descriptors_def path_exists_def save_pkl_def)

lemma stage_mixture_hit:
  "fs ''generated/mix_data.pkl'' = Some (Pickle x) \<Longrightarrow>
   fs ''generated/mix_data_IHS_generated.pkl'' = Some (Pickle y) \<Longrightarrow>
   stage_mixture L sa sb fs = Inr ((x, y), fs)"
  by (simp add: stage_mixture_def path_exists_def load_pkl_def)

lemma stage_mixture_partial:
  "fs ''generated/mix_data.pkl'' = Some (Pickle x) \<Longrightarrow>
   fs ''generated/mix_data_IHS_generated.pkl'' = None \<Longrightarrow>
   stage_mixture L sa sb fs = Inl (FileNotFoundError ''generated/mix_data_IHS_generated.pkl'')"
  by (simp add: stage_mixture_def path_exists_def load_pkl_def)

lemma stage_mixture_miss:
  "fs ''generated/mix_data.pkl'' = None \<Longrightarrow>
   generateMixtureOfSample L 5000 2 sa label_names
     (\<lambda>smp. calc_descriptors L smp True ''generated/pca_data.pkl'') 1 ''name'' fs = Inr (a, fsa) \<Longrightarrow>
   generateMixtureOfSample L 5000 2 sb label_names
     (\<lambda>smp. calc_descriptors L smp True ''generated/pca_data_IHS_gen.pkl'') 1 ''name'' fsa
       = Inr (b, fsb) \<Longrightarrow>
   stage_mixture L sa sb fs = Inr ((Obj a, Obj b),
     fsb(''generated/mix_data.pkl'' \<mapsto> Pickle (Obj a),
         ''generated/mix_data_IHS_generated.pkl'' \<mapsto> Pickle (Obj b),
         ''generated/mix_data.csv'' \<mapsto> CsvTable (paramNames a) (params a),
         ''generated/mix_data_IHS_generated.csv'' \<mapsto> CsvTable (paramNames b) (params b)))"
  by (simp add: stage_mixture_def path_exists_def save_pkl_def to_csv_def)

text \<open>
  Claim C1, as amended. Each of the three cached stages tests the first of its two
  cache files only: \<^verbatim>\<open>generated/data_initial.pkl\<close>, \<^verbatim>\<open>generated/data.pkl\<close> and
  \<^verbatim>\<open>generated/mix_data.pkl\<close>. When that file exists nothing is computed: both cache
  files are loaded and their objects are the result, whatever the library and the
  objects in memory are, and the files stay as they are; this needs the second file,
  without which the load fails. When the first file does not exist the stage is
  computed and its two results are saved to the two cache files (the mixture stage
  also writes its two CSV tables); a second run on the files so left, with any library
  and any objects in memory, loads the same objects and computes nothing.
\<close>

theorem cached_stages:
  "(fs ''generated/data_initial.pkl'' = Some (Pickle (Tuple a n))
      \<and> fs ''generated/data_initial_IHS_generated.pkl'' = Some (Pickle (Tuple b m)) \<longrightarrow>
      stage_initial L fs = Inr ((a, n, b), fs))
   \<and> (fs ''generated/data_initial.pkl'' = Some (Pickle (Tuple a n))
      \<and> fs ''generated/data_initial_IHS_generated.pkl'' = None \<longrightarrow>
      stage_initial L fs = Inl (FileNotFoundError ''generated/data_initial_IHS_generated.pkl''))
   \<and> (fs ''generated/data_initial.pkl'' = None
      \<and> loadSpectra L (Some (7100, 7200)) ''samples'' False fs = Inr ((a, n), fsa)
      \<and> loadSpectra L (Some (7100, 7200)) ''samples'' True fsa = Inr ((b, m), fsb) \<longrightarrow>
      stage_initial L fs = Inr ((a, n, b),
        fsb(''generated/data_initial.pkl'' \<mapsto> Pickle (Tuple a n),
            ''generated/data_initial_IHS_generated.pkl'' \<mapsto> Pickle (Tuple b n)))
      \<and> stage_initial L'
          (fsb(''generated/data_initial.pkl'' \<mapsto> Pickle (Tuple a n),
               ''generated/data_initial_IHS_generated.pkl'' \<mapsto> Pickle (Tuple b n)))
        = Inr ((a, n, b),
            fsb(''generated/data_initial.pkl'' \<mapsto> Pickle (Tuple a n),
                ''generated/data_initial_IHS_generated.pkl'' \<mapsto> Pickle (Tuple b n))))
   \<and> (fs ''generated/data.pkl'' = Some (Pickle (Tuple a n))
      \<and> fs ''generated/data_IHS_gen.pkl'' = Some (Pickle (Tuple b m)) \<longrightarrow>
      stage_descriptors L sa names sb fs = Inr ((a, b), fs))
   \<and> (fs ''generated/data.pkl'' = Some (Pickle (Tuple a n))
      \<and> fs ''generated/data_IHS_gen.pkl'' = None \<longrightarrow>
      stage_descriptors L sa names sb fs = Inl (FileNotFoundError ''generated/data_IHS_gen.pkl''))
   \<and> (fs ''generated/data.pkl'' = None
      \<and> calc_descriptors L sa False ''generated/pca_data.pkl'' fs = Inr ((a, g), fsa)
      \<and> calc_descriptors L sb False ''generated/pca_data_IHS_gen.pkl'' fsa = Inr ((b, g'), fsb) \<longrightarrow>
      stage_descriptors L sa names sb fs = Inr ((a, b),
        fsb(''generated/data.pkl'' \<mapsto> Pickle (Tuple a names),
            ''generated/data_IHS_gen.pkl'' \<mapsto> Pickle (Tuple b names)))
      \<and> stage_descriptors L' sa' names' sb'
          (fsb(''generated/data.pkl'' \<mapsto> Pickle (Tuple a names),
               ''generated/data_IHS_gen.pkl'' \<mapsto> Pickle (Tuple b names)))
        = Inr ((a, b),
            fsb(''generated/data.pkl'' \<mapsto> Pickle (Tuple a names),
                ''generated/data_IHS_gen.pkl'' \<mapsto> Pickle (Tuple b names))))
   \<and> (fs ''generated/mix_data.pkl'' = Some (Pickle x)
      \<and> fs ''generated/mix_data_IHS_generated.pkl'' = Some (Pickle y) \<longrightarrow>
      stage_mixture L sa sb fs = Inr ((x, y), fs))
   \<and> (fs ''generated/mix_data.pkl'' = Some (Pickle x)
      \<and> fs ''generated/mix_data_IHS_generated.pkl'' = None \<longrightarrow>
      stage_mixture L sa sb fs
        = Inl (FileNotFoundError ''generated/mix_data_IHS_generated.pkl''))
   \<and> (fs ''generated/mix_data.pkl'' = None
      \<and> generateMixtureOfSample L 5000 2 sa label_names
           (\<lambda>smp. calc_descriptors L smp True ''generated/pca_data.pkl'') 1 ''name'' fs
          = Inr (a, fsa)
      \<and> generateMixtureOfSample L 5000 2 sb label_names
           (\<lambda>smp. calc_descriptors L smp True ''generated/pca_data_IHS_gen.pkl'') 1 ''name'' fsa
          = Inr (b, fsb) \<longrightarrow>
      stage_mixture L sa sb fs = Inr ((Obj a, Obj b),
        fsb(''generated/mix_data.pkl'' \<mapsto> Pickle (Obj a),
            ''generated/mix_data_IHS_generated.pkl'' \<mapsto> Pickle (Obj b),
            ''generated/mix_data.csv'' \<mapsto> CsvTable (paramNames a) (params a),
            ''generated/mix_data_IHS_generated.csv'' \<mapsto> CsvTable (paramNames b) (params b)))
      \<and> stage_mixture L' sa' sb'
          (fsb(''generated/mix_data.pkl'' \<mapsto> Pickle (Obj a),
               ''generated/mix_data_IHS_generated.pkl'' \<mapsto> Pickle (Obj b),
               ''generated/mix_data.csv'' \<mapsto> CsvTable (paramNames a) (params a),
               ''generated/mix_data_IHS_generated.csv'' \<mapsto> CsvTable (paramNames b) (params b)))
        = Inr ((Obj a, Obj b),
            fsb(''generated/mix_data.pkl'' \<mapsto> Pickle (Obj a),
                ''generated/mix_data_IHS_generated.pkl'' \<mapsto> Pickle (Obj b),
                ''generated/mix_data.csv'' \<mapsto> CsvTable (paramNames a) (params a),
                ''generated/mix_data_IHS_generated.csv'' \<mapsto> CsvTable (paramNames b) (params b))))"
proof (intro conjI impI; (elim conjE)?)
  show "stage_initial L fs = Inr ((a, n, b), fs)"
    if "fs ''generated/data_initial.pkl'' = Some (Pickle (Tuple a n))"
      "fs ''generated/data_initial_IHS_generated.pkl'' = Some (Pickle (Tuple b m))"
    using that by (rule stage_initial_hit)
  show "stage_initial L fs = Inl (FileNotFoundError ''generated/data_initial_IHS_generated.pkl'')"
    if "fs ''generated/data_initial.pkl'' = Some (Pickle (Tuple a n))"
      "fs ''generated/data_initial_IHS_generated.pkl'' = None"
    using that by (rule stage_initial_partial)
  show "stage_initial L fs = Inr ((a, n, b),
        fsb(''generated/data_initial.pkl'' \<mapsto> Pickle (Tuple a n),
            ''generated/data_initial_IHS_generated.pkl'' \<mapsto> Pickle (Tuple b n)))"
    if "fs ''generated/data_initial.pkl'' = None"
      "loadSpectra L (Some (7100, 7200)) ''samples'' False fs = Inr ((a, n), fsa)"
      "loadSpectra L (Some (7100, 7200)) ''samples'' True fsa = Inr ((b, m), fsb)"
    using that by (rule stage_initial_miss)
  show "stage_initial L'
          (fsb(''generated/data_initial.pkl'' \<mapsto> Pickle (Tuple a n),
               ''generated/data_initial_IHS_generated.pkl'' \<mapsto> Pickle (Tuple b n)))
        = Inr ((a, n, b),
            fsb(''generated/data_initial.pkl'' \<mapsto> Pickle (Tuple a n),
                ''generated/data_initial_IHS_generated.pkl'' \<mapsto> Pickle (Tuple b n)))"
    by (rule stage_initial_hit) simp_all
  show "stage_descriptors L sa names sb fs = Inr ((a, b), fs)"
    if "fs ''generated/data.pkl'' = Some (Pickle (Tuple a n))"
      "fs ''generated/data_IHS_gen.pkl'' = Some (Pickle (Tuple b m))"
    using that by (rule stage_descriptors_hit)
  show "stage_descriptors L sa names sb fs = Inl (FileNotFoundError ''generated/data_IHS_gen.pkl'')"
    if "fs ''generated/data.pkl'' = Some (Pickle (Tuple a n))"
      "fs ''generated/data_IHS_gen.pkl'' = None"
    using that by (rule stage_descriptors_partial)
  show "stage_descriptors L sa names sb fs = Inr ((a, b),
        fsb(''generated/data.pkl'' \<mapsto> Pickle (Tuple a names),
            ''generated/data_IHS_gen.pkl'' \<mapsto> Pickle (Tuple b names)))"
    if "fs ''generated/data.pkl'' = None"
      "calc_descriptors L sa False ''generated/pca_data.pkl'' fs = Inr ((a, g), fsa)"
      "calc_descriptors L sb False ''generated/pca_data_IHS_gen.pkl'' fsa = Inr ((b, g'), fsb)"
    using that by (rule stage_descriptors_miss)
  show "stage_descriptors L' sa' names' sb'
          (fsb(''generated/data.pkl'' \<mapsto> Pickle (Tuple a names),
               ''generated/data_IHS_gen.pkl'' \<mapsto> Pickle (Tuple b names)))
        = Inr ((a, b),
            fsb(''generated/data.pkl'' \<mapsto> Pickle (Tuple a names),
                ''generated/data_IHS_gen.pkl'' \<mapsto> Pickle (Tuple b names)))"
    by (rule stage_descriptors_hit) simp_all
  show "stage_mixture L sa sb fs = Inr ((x, y), fs)"
    if "fs ''generated/mix_data.pkl'' = Some (Pickle x)"
      "fs ''generated/mix_data_IHS_generated.pkl'' = Some (Pickle y)"
    using that by (rule stage_mixture_hit)
  show "stage_mixture L sa sb fs
        = Inl (FileNotFoundError ''generated/mix_data_IHS_generated.pkl'')"
    if "fs ''generated/mix_data.pkl'' = Some (Pickle x)"
      "fs ''generated/mix_data_IHS_generated.pkl'' = None"
    using that by (rule stage_mixture_partial)
  show "stage_mixture L sa sb fs = Inr ((Obj a, Obj b),
        fsb(''generated/mix_data.pkl'' \<mapsto> Pickle (Obj a),
            ''generated/mix_data_IHS_generated.pkl'' \<mapsto> Pickle (Obj b),
            ''generated/mix_data.csv'' \<mapsto> CsvTable (paramNames a) (params a),
            ''generated/mix_data_IHS_generated.csv'' \<mapsto> CsvTable (paramNames b) (params b)))"
    if "fs ''generated/mix_data.pkl'' = None"
      "generateMixtureOfSample L 5000 2 sa label_names
           (\<lambda>smp. calc_descriptors L smp True ''generated/pca_data.pkl'') 1 ''name'' fs
          = Inr (a, fsa)"
      "generateMixtureOfSample L 5000 2 sb label_names
           (\<lambda>smp. calc_descriptors L smp True ''generated/pca_data_IHS_gen.pkl'') 1 ''name'' fsa
          = Inr (b, fsb)"
    using that by (rule stage_mixture_miss)
  show "stage_mixture L' sa' sb'
          (fsb(''generated/mix_data.pkl'' \<mapsto> Pickle (Obj a),
               ''generated/mix_data_IHS_generated.pkl'' \<mapsto> Pickle (Obj b),
               ''generated/mix_data.csv'' \<mapsto> CsvTable (paramNames a) (params a),
               ''generated/mix_data_IHS_generated.csv'' \<mapsto> CsvTable (paramNames b) (params b)))
        = Inr ((Obj a, Obj b),
            fsb(''generated/mix_data.pkl'' \<mapsto> Pickle (Obj a),
                ''generated/mix_data_IHS_generated.pkl'' \<mapsto> Pickle (Obj b),
                ''generated/mix_data.csv'' \<mapsto> CsvTable (paramNames a) (params a),
                ''generated/mix_data_IHS_generated.csv'' \<mapsto> CsvTable (paramNames b) (params b)))"
    by (rule stage_mixture_hit) simp_all
qed

text \<open>
  Claim C1, as stated, fails on a working directory that holds
  \<^verbatim>\<open>generated/data_initial.pkl\<close> and not \<^verbatim>\<open>generated/data_initial_IHS_generated.pkl\<close>:
  the first cache file of the stage exists, yet no cached object is used, and the second
  one does not exist, yet nothing is computed or saved: the stage stops with the error
  of the failed load.
\<close>

theorem cached_stages_counterexample:
  "path_exists files_first_only ''generated/data_initial.pkl''
   \<and> \<not> path_exists files_first_only ''generated/data_initial_IHS_generated.pkl''
   \<and> stage_initial lib0 files_first_only
       = Inl (FileNotFoundError ''generated/data_initial_IHS_generated.pkl'')"
  by (simp add: stage_initial_def path_exists_def load_pkl_def files_first_only_def)

lemma calc_descriptors_lib0:
  "\<exists>s. \<forall>u f fs. calc_descriptors lib0 sample0 u f fs = Inr ((s, [0]), fs)"
proof -
  from addDerived_descr0 obtain s where s: "addDerived (descr0 sample0) = Inr s" by blast
  have "calc_descriptors lib0 sample0 u f fs = Inr ((s, [0]), fs)" for u f fs
    by (simp add: calc_descriptors_def descr0_lib0 s)
  then show ?thesis by blast
qed

lemma generateMixture_lib0:
  "generateMixtureOfSample lib0 sz k s labels f seed c fs
     = bindE (f s fs) (\<lambda>((s', _), fs'). Inr (s', fs'))"
  by (simp add: lib0_def)

theorem cached_stages_witness:
  "(\<exists>res fs'. stage_initial lib0 files_second_only = Inr (res, fs')
       \<and> stage_initial lib_hot fs' = Inr (res, fs')
       \<and> fs' ''generated/data_initial_IHS_generated.pkl''
            \<noteq> files_second_only ''generated/data_initial_IHS_generated.pkl'')
   \<and> stage_initial lib_hot files_first_only
        = Inl (FileNotFoundError ''generated/data_initial_IHS_generated.pkl'')
   \<and> (\<exists>res fs'. stage_descriptors lib0 sample0 [''a''] sample0 Map.empty = Inr (res, fs')
       \<and> stage_descriptors lib_hot sample0 [] sample0 fs' = Inr (res, fs'))
   \<and> (\<exists>res fs'. stage_mixture lib0 sample0 sample0 Map.empty = Inr (res, fs')
       \<and> stage_mixture lib_hot sample0 sample0 fs' = Inr (res, fs'))"
proof (intro conjI)
  from loadSpectra_lib0_returns obtain a fsa where
    run1: "loadSpectra lib0 (Some (7100, 7200)) ''samples'' False files_second_only
      = Inr ((a, [''a'']), fsa)" by blast
  from loadSpectra_lib0_returns obtain b fsb where
    run2: "loadSpectra lib0 (Some (7100, 7200)) ''samples'' True fsa
      = Inr ((b, [''a'']), fsb)" by blast
  have h0: "files_second_only ''generated/data_initial.pkl'' = None"
    by (simp add: files_second_only_def)
  let ?fs = "fsb(''generated/data_initial.pkl'' \<mapsto> Pickle (Tuple a [''a'']),
      ''generated/data_initial_IHS_generated.pkl'' \<mapsto> Pickle (Tuple b [''a'']))"
  note T = cached_stages [where fs = files_second_only and L = lib0 and L' = lib_hot
      and a = a and n = "[''a'']" and b = b and m = "[''a'']" and fsa = fsa and fsb = fsb]
  have "stage_initial lib0 files_second_only = Inr ((a, [''a''], b), ?fs)
      \<and> stage_initial lib_hot ?fs = Inr ((a, [''a''], b), ?fs)"
    by (rule T [THEN conjunct2, THEN conjunct2, THEN conjunct1, THEN mp])
      (intro conjI h0 run1 run2)
  moreover have "?fs ''generated/data_initial_IHS_generated.pkl''
      \<noteq> files_second_only ''generated/data_initial_IHS_generated.pkl''"
    by (simp add: files_second_only_def)
  ultimately show "\<exists>res fs'. stage_initial lib0 files_second_only = Inr (res, fs')
       \<and> stage_initial lib_hot fs' = Inr (res, fs')
       \<and> fs' ''generated/data_initial_IHS_generated.pkl''
            \<noteq> files_second_only ''generated/data_initial_IHS_generated.pkl''"
    by blast
next
  have h1: "files_first_only ''generated/data_initial.pkl'' = Some (Pickle (Tuple sample0 [''a'']))"
    and h2: "files_first_only ''generated/data_initial_IHS_generated.pkl'' = None"
    by (simp_all add: files_first_only_def)
  show "stage_initial lib_hot files_first_only
        = Inl (FileNotFoundError ''generated/data_initial_IHS_generated.pkl'')"
    by (rule cached_stages [where fs = files_first_only and L = lib_hot and a = sample0
          and n = "[''a'']", THEN conjunct2, THEN conjunct1, THEN mp])
      (intro conjI h1 h2)
next
  from calc_descriptors_lib0 obtain s where
    s: "\<And>u f fs. calc_descriptors lib0 sample0 u f fs = Inr ((s, [0]), fs)" by blast
  let ?fs = "Map.empty(''generated/data.pkl'' \<mapsto> Pickle (Tuple s [''a'']),
      ''generated/data_IHS_gen.pkl'' \<mapsto> Pickle (Tuple s [''a'']))"
  have h0: "(Map.empty :: files) ''generated/data.pkl'' = None" by simp
  have "stage_descriptors lib0 sample0 [''a''] sample0 Map.empty = Inr ((s, s), ?fs)
      \<and> stage_descriptors lib_hot sample0 [] sample0 ?fs = Inr ((s, s), ?fs)"
    by (rule cached_stages [where fs = Map.empty and L = lib0 and L' = lib_hot
          and a = s and b = s and fsa = Map.empty and fsb = Map.empty and sa = sample0
          and sb = sample0 and names = "[''a'']" and sa' = sample0 and sb' = sample0
          and names' = "[]" and g = "[0]" and g' = "[0]",
          THEN conjunct2, THEN conjunct2, THEN conjunct2, THEN conjunct2, THEN conjunct2,
          THEN conjunct1, THEN mp])
      (intro conjI h0 s)
  then show "\<exists>res fs'. stage_descriptors lib0 sample0 [''a''] sample0 Map.empty = Inr (res, fs')
       \<and> stage_descriptors lib_hot sample0 [] sample0 fs' = Inr (res, fs')"
    by blast
next
  from calc_descriptors_lib0 obtain s where
    s: "\<And>u f fs. calc_descriptors lib0 sample0 u f fs = Inr ((s, [0]), fs)" by blast
  have gen: "generateMixtureOfSample lib0 5000 2 sample0 label_names
      (\<lambda>smp. calc_descriptors lib0 smp True f) 1 ''name'' fs = Inr (s, fs)" for f fs
    by (simp add: generateMixture_lib0 s)
  let ?fs = "Map.empty(''generated/mix_data.pkl'' \<mapsto> Pickle (Obj s),
            ''generated/mix_data_IHS_generated.pkl'' \<mapsto> Pickle (Obj s),
            ''generated/mix_data.csv'' \<mapsto> CsvTable (paramNames s) (params s),
            ''generated/mix_data_IHS_generated.csv'' \<mapsto> CsvTable (paramNames s) (params s))"
  have h0: "(Map.empty :: files) ''generated/mix_data.pkl'' = None" by simp
  have "stage_mixture lib0 sample0 sample0 Map.empty = Inr ((Obj s, Obj s), ?fs)
      \<and> stage_mixture lib_hot sample0 sample0 ?fs = Inr ((Obj s, Obj s), ?fs)"
    by (rule cached_stages [where fs = Map.empty and L = lib0 and L' = lib_hot
          and a = s and b = s and fsa = Map.empty and fsb = Map.empty and sa = sample0
          and sb = sample0 and sa' = sample0 and sb' = sample0,
          THEN conjunct2, THEN conjunct2, THEN conjunct2, THEN conjunct2, THEN conjunct2,
          THEN conjunct2, THEN conjunct2, THEN conjunct2, THEN mp])
      (intro conjI h0 gen)
  then show "\<exists>res fs'. stage_mixture lib0 sample0 sample0 Map.empty = Inr (res, fs')
       \<and> stage_mixture lib_hot sample0 sample0 fs' = Inr (res, fs')"
    by blast
qed

section \<open>Smoothing, restriction, descriptors\<close>

lemma loop_spectra_Some:
  "loadSpectra_loop L sf ihs ps (Some a) fs = Inr (Some a', fs') \<Longrightarrow>
   spectra a' = (spectra a)\<lparr>intensities := intensities (spectra a)
      @ concat (map (\<lambda>(CN, v). intensities (smoothedSpectra L sf ihs CN v)) ps)\<rparr>"
proof (induction ps arbitrary: a fs)
  case Nil
  then show ?case by simp
next
  case (Cons p ps)
  obtain CN v where p: "p = (CN, v)" by (cases p)
  from Cons.prems p obtain data fs1 where
    b: "loadSpectra_body L sf ihs CN v fs = Inr (data, fs1)" and
    l: "loadSpectra_loop L sf ihs ps (Some (unionWith a data)) fs1 = Inr (Some a', fs')"
    by (auto split: sum.splits)
  from body_spectra [OF b] have sp: "spectra data = smoothedSpectra L sf ihs CN v" by simp
  from Cons.IH [OF l] show ?case
    by (simp add: p unionWith_def sp)
qed

lemma loop_spectra_None:
  assumes "loadSpectra_loop L sf ihs ((CN, v) # ps) None fs = Inr (Some a', fs')"
  shows "spectra a' = (smoothedSpectra L sf ihs CN v)\<lparr>intensities :=
      concat (map (\<lambda>(CN, v). intensities (smoothedSpectra L sf ihs CN v)) ((CN, v) # ps))\<rparr>"
proof -
  from assms obtain data fs1 where
    b: "loadSpectra_body L sf ihs CN v fs = Inr (data, fs1)" and
    l: "loadSpectra_loop L sf ihs ps (Some data) fs1 = Inr (Some a', fs')"
    by (auto split: sum.splits)
  from body_spectra [OF b] have sp: "spectra data = smoothedSpectra L sf ihs CN v" by simp
  from loop_spectra_Some [OF l] show ?thesis by (simp add: sp)
qed

lemma addExperiments_spectra:
  "addExperiments L df files (Some a) ns = Inr (Some a', ns') \<Longrightarrow>
   \<exists>exps. spectra a' = (spectra a)\<lparr>intensities := intensities (spectra a) @ exps\<rparr>
      \<and> length exps = length files"
proof (induction files arbitrary: a ns)
  case Nil
  then show ?case by auto
next
  case (Cons f files)
  from Cons.prems obtain true a1 where
    row: "addRow L (readSpectrum L (''exp'' @ os_sep @ f)) true a = Inr a1"
    and rec: "addExperiments L df files (Some a1) (ns @ [exp_name f]) = Inr (Some a', ns')"
    by (auto simp: Let_def bindE_eq_Inr)
  from row obtain x where
    a1: "spectra a1 = (spectra a)\<lparr>intensities := intensities (spectra a) @ [x]\<rparr>"
    by (auto simp: addRow_Inr)
  from Cons.IH [OF rec] obtain exps where
    "spectra a' = (spectra a)\<lparr>intensities := intensities (spectra a) @ [x] @ exps\<rparr>"
    "length exps = length files"
    by (auto simp: a1)
  then show ?case by (intro exI [of _ "x # exps"]) simp
qed

lemma loadSpectra_spectra:
  assumes "loadSpectra L er sf ihs fs = Inr ((all_data, names), fs')"
  shows "\<exists>exps. spectra all_data = limit L er (smoothedTable L sf ihs exps)
    \<and> length exps = length (listdir L ''exp'')"
proof -
  from assms obtain r fs1 r2 names2 where
    loop: "loadSpectra_loop L sf ihs cn_valence_pairs None fs = Inr (r, fs1)"
    and ex: "addExperiments L (read_csv L ''exp_true_values.csv'') (listdir L ''exp'') r []
         = Inr (r2, names2)"
    and fin: "(case r2 of None \<Rightarrow> Inl AttributeError
         | Some a \<Rightarrow> Inr ((a\<lparr>spectra := limit L er (spectra a)\<rparr>, names2), fs1))
        = Inr ((all_data, names), fs')"
    by (auto simp: loadSpectra_def bindE_eq_Inr)
  have ps: "cn_valence_pairs = (2, 2) # tl cn_valence_pairs" by (simp add: pairs_eval)
  then have "cn_valence_pairs \<noteq> []" by auto
  with loop_Some [OF loop] obtain a0 where r: "r = Some a0" by auto
  from loop r ps have "loadSpectra_loop L sf ihs ((2, 2) # tl cn_valence_pairs) None fs
      = Inr (Some a0, fs1)" by simp
  from loop_spectra_None [OF this] ps
  have s0: "spectra a0 = smoothedTable L sf ihs []"
    by (simp add: smoothedTable_def)
  from addExperiments_params [OF ex [unfolded r]] obtain a1 where r2: "r2 = Some a1" by blast
  from addExperiments_spectra [OF ex [unfolded r r2]] obtain exps where
    s1: "spectra a1 = (spectra a0)\<lparr>intensities := intensities (spectra a0) @ exps\<rparr>"
    and len: "length exps = length (listdir L ''exp'')" by blast
  from fin r2 have "all_data = a1\<lparr>spectra := limit L er (spectra a1)\<rparr>" by simp
  then have "spectra all_data = limit L er (spectra a1)" by simp
  also have "spectra a1 = smoothedTable L sf ihs exps"
    unfolding s1 s0 by (simp add: smoothedTable_def)
  finally show ?thesis using len by blast
qed

lemma checked_sel [simp]:
  "readSample (checked P L) = readSample L"
  "loadProject (checked P L) = loadProject L"
  "convertSampleTo (checked P L) = convertSampleTo L"
  "moleculeOf (checked P L) = moleculeOf L"
  "getSortedDists (checked P L) = getSortedDists L"
  "np_mean (checked P L) = np_mean L"
  "np_std (checked P L) = np_std L"
  "smoothDataFrame (checked P L) = smoothDataFrame L"
  "listdir (checked P L) = listdir L"
  "read_csv (checked P L) = read_csv L"
  "readSpectrum (checked P L) = readSpectrum L"
  "resample (checked P L) = resample L"
  "limit (checked P L) = limit L"
  "addRow_accepts (checked P L) = addRow_accepts L"
  "addDescriptors (checked P L) s cfgs fs
     = (if P s then addDescriptors L s cfgs fs else Inl AssertionError)"
  by (simp_all add: checked_def)

lemma sourceProject_checked [simp]: "sourceProject (checked P L) = sourceProject L"
  by (intro ext) (simp add: sourceProject_def Let_def)

lemma sourceData_checked [simp]: "sourceData (checked P L) = sourceData L"
  by (intro ext) (simp add: sourceData_def Let_def)

lemma calcDist_checked [simp]: "calcDist (checked P L) = calcDist L"
  by (intro ext) (simp add: calcDist_def Let_def)

lemma body_checked [simp]: "loadSpectra_body (checked P L) = loadSpectra_body L"
  by (intro ext) (simp add: loadSpectra_body_def Let_def)

lemma loop_checked [simp]:
  "loadSpectra_loop (checked P L) sf ihs ps all_data fs = loadSpectra_loop L sf ihs ps all_data fs"
  by (induction ps arbitrary: all_data fs) (auto split: sum.splits)

lemma addRow_checked [simp]: "addRow (checked P L) = addRow L"
  by (intro ext) (simp add: addRow_def row_accepted_def)

lemma addExperiments_checked [simp]:
  "addExperiments (checked P L) df files all_data ns = addExperiments L df files all_data ns"
  by (induction files arbitrary: all_data ns) (simp_all add: Let_def cong: option.case_cong)

lemma loadSpectra_checked [simp]: "loadSpectra (checked P L) = loadSpectra L"
  by (intro ext) (simp add: loadSpectra_def cong: option.case_cong)

lemma stage_initial_checked [simp]: "stage_initial (checked P L) = stage_initial L"
  by (intro ext) (simp add: stage_initial_def)

lemma calc_descriptors_checked:
  "P s \<Longrightarrow> calc_descriptors (checked P L) s u f fs = calc_descriptors L s u f fs"
  by (simp add: calc_descriptors_def)

lemma stage_descriptors_checked:
  "P a \<Longrightarrow> P b \<Longrightarrow>
   stage_descriptors (checked P L) a names b fs = stage_descriptors L a names b fs"
  by (simp add: stage_descriptors_def calc_descriptors_checked)

lemma body_files:
  "loadSpectra_body L sf ihs CN v fs = Inr (data, fs') \<Longrightarrow>
   \<forall>CN. p \<noteq> ''generated/samples/sample_'' @ str_nat CN @ ''_IHS_generated'' \<Longrightarrow>
   fs' p = fs p"
  unfolding loadSpectra_body_def Let_def
  by (auto simp: saveToFolder_def split: if_splits)

lemma loop_files:
  "loadSpectra_loop L sf ihs ps all_data fs = Inr (r, fs') \<Longrightarrow>
   \<forall>CN. p \<noteq> ''generated/samples/sample_'' @ str_nat CN @ ''_IHS_generated'' \<Longrightarrow>
   fs' p = fs p"
proof (induction ps arbitrary: all_data fs)
  case Nil
  then show ?case by simp
next
  case (Cons q ps)
  obtain CN v where q: "q = (CN, v)" by (cases q)
  from Cons.prems(1) q obtain data fs1 where
    b: "loadSpectra_body L sf ihs CN v fs = Inr (data, fs1)" and
    l: "loadSpectra_loop L sf ihs ps
       (Some (case all_data of None \<Rightarrow> data | Some a \<Rightarrow> unionWith a data)) fs1 = Inr (r, fs')"
    by (auto split: sum.splits)
  from Cons.IH [OF l Cons.prems(2)] body_files [OF b Cons.prems(2)] show ?case by simp
qed

lemma loadSpectra_files:
  assumes "loadSpectra L er sf ihs fs = Inr (r, fs')"
    and "\<forall>CN. p \<noteq> ''generated/samples/sample_'' @ str_nat CN @ ''_IHS_generated''"
  shows "fs' p = fs p"
proof -
  from assms(1) obtain r1 where
    "loadSpectra_loop L sf ihs cn_valence_pairs None fs = Inr (r1, fs')"
    by (auto simp: loadSpectra_def bindE_eq_Inr split: option.splits)
  from loop_files [OF this assms(2)] show ?thesis .
qed

lemma stage_initial_computed:
  assumes "fs ''generated/data_initial.pkl'' = None"
    and "stage_initial L fs = Inr ((a, names, b), fs')"
  shows "fs' ''generated/data_initial.pkl'' = Some (Pickle (Tuple a names))
    \<and> fs' ''generated/data_initial_IHS_generated.pkl'' = Some (Pickle (Tuple b names))
    \<and> prepared L a \<and> prepared L b"
proof -
  from assms obtain fsa n2 fsb where
    r1: "loadSpectra L (Some (7100, 7200)) ''samples'' False fs = Inr ((a, names), fsa)"
    and r2: "loadSpectra L (Some (7100, 7200)) ''samples'' True fsa = Inr ((b, n2), fsb)"
    and fs': "fs' = save_pkl (Tuple b names) ''generated/data_initial_IHS_generated.pkl''
        (save_pkl (Tuple a names) ''generated/data_initial.pkl'' fsb)"
    by (auto simp: stage_initial_def path_exists_def bindE_eq_Inr)
  have "prepared L a \<and> prepared L b"
    using loadSpectra_spectra [OF r1] loadSpectra_spectra [OF r2]
    unfolding prepared_def by blast
  then show ?thesis by (simp add: fs' save_pkl_def)
qed

lemma load_pair_Inr:
  "bindE (load_pkl p fs) unpack2 = Inr (a, n) \<longleftrightarrow> fs p = Some (Pickle (Tuple a n))"
proof (cases "fs p")
  case None
  then show ?thesis by (simp add: load_pkl_def)
next
  case (Some f)
  show ?thesis
  proof (cases f)
    case (Pickle ob)
    with Some show ?thesis by (cases ob) (simp_all add: load_pkl_def)
  qed (simp_all add: Some load_pkl_def)
qed

lemma bindE_InrE:
  assumes "bindE m f = Inr y"
  obtains x where "m = Inr x" and "f x = Inr y"
  using assms by (cases m) auto

lemma stage_initial_loaded:
  assumes "fs ''generated/data_initial.pkl'' \<noteq> None"
    and "stage_initial L fs = Inr ((a, names, b), fs')"
  shows "fs' = fs \<and> fs ''generated/data_initial.pkl'' = Some (Pickle (Tuple a names))
    \<and> (\<exists>m. fs ''generated/data_initial_IHS_generated.pkl'' = Some (Pickle (Tuple b m)))"
proof -
  from assms have run: "bindE (bindE (load_pkl ''generated/data_initial.pkl'' fs) unpack2)
             (\<lambda>(singleComponentData, exp_spectra_names).
                bindE (bindE (load_pkl ''generated/data_initial_IHS_generated.pkl'' fs) unpack2)
                  (\<lambda>(singleComponentDataIHSgen, _).
                     Inr ((singleComponentData, exp_spectra_names, singleComponentDataIHSgen),
                          fs))) = Inr ((a, names, b), fs')"
    by (simp add: stage_initial_def path_exists_def)
  from run obtain x where x: "bindE (load_pkl ''generated/data_initial.pkl'' fs) unpack2 = Inr x"
    and rest: "(case x of (singleComponentData, exp_spectra_names) \<Rightarrow>
                bindE (bindE (load_pkl ''generated/data_initial_IHS_generated.pkl'' fs) unpack2)
                  (\<lambda>(singleComponentDataIHSgen, _).
                     Inr ((singleComponentData, exp_spectra_names, singleComponentDataIHSgen),
                          fs))) = Inr ((a, names, b), fs')"
    by (rule bindE_InrE)
  obtain a0 n0 where x0: "x = (a0, n0)" by (cases x)
  from rest have "bindE (bindE (load_pkl ''generated/data_initial_IHS_generated.pkl'' fs) unpack2)
                  (\<lambda>(singleComponentDataIHSgen, _).
                     Inr ((a0, n0, singleComponentDataIHSgen), fs)) = Inr ((a, names, b), fs')"
    by (simp add: x0)
  then obtain y where
    y: "bindE (load_pkl ''generated/data_initial_IHS_generated.pkl'' fs) unpack2 = Inr y"
    and fin: "(case y of (singleComponentDataIHSgen, _) \<Rightarrow>
        Inr ((a0, n0, singleComponentDataIHSgen), fs)) = (Inr ((a, names, b), fs') :: error + _)"
    by (rule bindE_InrE)
  obtain b0 m where y0: "y = (b0, m)" by (cases y)
  from fin have eqs: "a0 = a" "n0 = names" "b0 = b" "fs' = fs" by (simp_all add: y0)
  from x have p1: "fs ''generated/data_initial.pkl'' = Some (Pickle (Tuple a names))"
    unfolding x0 eqs load_pair_Inr .
  from y have p2: "fs ''generated/data_initial_IHS_generated.pkl'' = Some (Pickle (Tuple b m))"
    unfolding y0 eqs load_pair_Inr .
  show ?thesis
  proof (intro conjI)
    show "fs' = fs" by (rule eqs)
    show "fs ''generated/data_initial.pkl'' = Some (Pickle (Tuple a names))" by (rule p1)
    show "\<exists>m. fs ''generated/data_initial_IHS_generated.pkl'' = Some (Pickle (Tuple b m))"
      using p2 ..
  qed
qed

lemma stage_initial_files:
  assumes "stage_initial L fs = Inr ((a, names, b), fs')"
  shows "fs' ''generated/data.pkl'' = fs ''generated/data.pkl''"
proof (cases "fs ''generated/data_initial.pkl'' = None")
  case True
  with assms obtain fsa n2 fsb where
    r1: "loadSpectra L (Some (7100, 7200)) ''samples'' False fs = Inr ((a, names), fsa)"
    and r2: "loadSpectra L (Some (7100, 7200)) ''samples'' True fsa = Inr ((b, n2), fsb)"
    and fs': "fs' = save_pkl (Tuple b names) ''generated/data_initial_IHS_generated.pkl''
        (save_pkl (Tuple a names) ''generated/data_initial.pkl'' fsb)"
    by (auto simp: stage_initial_def path_exists_def bindE_eq_Inr)
  have p: "\<forall>CN. ''generated/data.pkl''
      \<noteq> ''generated/samples/sample_'' @ str_nat CN @ ''_IHS_generated''" by simp
  from loadSpectra_files [OF r1 p] loadSpectra_files [OF r2 p] show ?thesis
    by (simp add: fs' save_pkl_def)
next
  case False
  from stage_initial_loaded [OF False assms] show ?thesis by simp
qed

lemma stage_initial_prepared:
  assumes inv: "cache_prepared L fs"
    and run: "stage_initial L fs = Inr ((a, names, b), fs')"
  shows "prepared L a \<and> prepared L b \<and> cache_prepared L fs'"
proof (cases "fs ''generated/data_initial.pkl'' = None")
  case True
  from stage_initial_computed [OF True run] show ?thesis
    by (auto simp: cache_prepared_def)
next
  case False
  from stage_initial_loaded [OF False run] obtain m where
    same: "fs' = fs"
    and f1: "fs ''generated/data_initial.pkl'' = Some (Pickle (Tuple a names))"
    and f2: "fs ''generated/data_initial_IHS_generated.pkl'' = Some (Pickle (Tuple b m))"
    by blast
  from inv f1 f2 have "prepared L a \<and> prepared L b"
    unfolding cache_prepared_def by blast
  with inv same show ?thesis by simp
qed

lemma stage_descriptors_computed:
  assumes "fs ''generated/data.pkl'' = None"
    and "stage_descriptors L a names b fs = Inr ((a', b'), fs')"
  shows "\<exists>d g fsc d' g' fsd.
      addDescriptors L a (descriptorConfigs False ''generated/pca_data.pkl'') fs
        = Inr ((d, g), fsc)
      \<and> addDerived d = Inr a'
      \<and> addDescriptors L b (descriptorConfigs False ''generated/pca_data_IHS_gen.pkl'') fsc
        = Inr ((d', g'), fsd)
      \<and> addDerived d' = Inr b'"
proof -
  from assms obtain g fsc g' fsd where
    c1: "calc_descriptors L a False ''generated/pca_data.pkl'' fs = Inr ((a', g), fsc)"
    and c2: "calc_descriptors L b False ''generated/pca_data_IHS_gen.pkl'' fsc
        = Inr ((b', g'), fsd)"
    by (auto simp: stage_descriptors_def path_exists_def bindE_eq_Inr)
  from calc_descriptors_Inr [OF c1] calc_descriptors_Inr [OF c2] show ?thesis by blast
qed

lemma initial_and_descriptors_Inr:
  assumes "initial_and_descriptors L fs = Inr ((a', names, b'), fs')"
  shows "\<exists>a b fsa. stage_initial L fs = Inr ((a, names, b), fsa)
      \<and> stage_descriptors L a names b fsa = Inr ((a', b'), fs')"
  using assms by (auto simp: initial_and_descriptors_def bindE_eq_Inr)

lemma initial_and_descriptors_checked:
  assumes "cache_prepared L fs"
  shows "initial_and_descriptors (checked (prepared L) L) fs = initial_and_descriptors L fs"
proof (cases "stage_initial L fs")
  case (Inl e)
  then show ?thesis by (simp add: initial_and_descriptors_def)
next
  case (Inr r)
  obtain a names b fs' where r: "r = ((a, names, b), fs')" by (cases r) auto
  from stage_initial_prepared [OF assms Inr [unfolded r]]
  have "stage_descriptors (checked (prepared L) L) a names b fs'
      = stage_descriptors L a names b fs'"
    by (simp add: stage_descriptors_checked)
  then show ?thesis by (simp add: initial_and_descriptors_def Inr r)
qed

text \<open>
  Claim C5. The spectra table that \<^verbatim>\<open>loadSpectra\<close> returns is the restriction to the
  energy range of the table made of the smoothed tables of the ten (CN, valence)
  sub-samples (followed by the rows of the experimental spectra, which are read as they
  are and restricted with the rest): every theoretical spectrum is smoothed first and
  restricted afterwards. The first stage calls it with the range [7100, 7200], so the two
  samples that it computes are prepared, and these are the samples that it writes to
  its two cache files; a later run that finds the cache loads prepared samples again,
  and leaves a prepared cache. When the second stage computes, it applies the
  descriptor routine of the library to these two samples, under the configurations of
  \<^verbatim>\<open>calc_descriptors\<close>, and its results are the returned samples with the derived
  parameters added. So in a run of the two stages on a working directory without a
  cache of the first stage, or with one that an earlier run wrote, the descriptors are
  derived from prepared samples, and the descriptor routine is given no other sample: a
  library whose routine refuses every other sample gives the same run.
\<close>

theorem descriptors_after_smoothing:
  "(loadSpectra L energyRange sf ihs fs = Inr ((all_data, names), fs') \<longrightarrow>
      (\<exists>exps. spectra all_data = limit L energyRange (smoothedTable L sf ihs exps)
         \<and> length exps = length (listdir L ''exp'')))
   \<and> (cache_prepared L fs \<and> stage_initial L fs = Inr ((a, n, b), fsa) \<longrightarrow>
        prepared L a \<and> prepared L b \<and> cache_prepared L fsa)
   \<and> (fs ''generated/data_initial.pkl'' = None
        \<and> stage_initial L fs = Inr ((a, n, b), fsa) \<longrightarrow>
        fsa ''generated/data_initial.pkl'' = Some (Pickle (Tuple a n))
        \<and> fsa ''generated/data_initial_IHS_generated.pkl'' = Some (Pickle (Tuple b n))
        \<and> prepared L a \<and> prepared L b)
   \<and> (fsa ''generated/data.pkl'' = None
        \<and> stage_descriptors L a n b fsa = Inr ((a', b'), fsb) \<longrightarrow>
        (\<exists>d g fsc d' g' fsd.
           addDescriptors L a (descriptorConfigs False ''generated/pca_data.pkl'') fsa
             = Inr ((d, g), fsc)
           \<and> addDerived d = Inr a'
           \<and> addDescriptors L b (descriptorConfigs False ''generated/pca_data_IHS_gen.pkl'') fsc
             = Inr ((d', g'), fsd)
           \<and> addDerived d' = Inr b'))
   \<and> (cache_prepared L fs
        \<and> initial_and_descriptors L fs = Inr ((a', n, b'), fsb) \<longrightarrow>
        (\<exists>a b fsa. stage_initial L fs = Inr ((a, n, b), fsa)
           \<and> prepared L a \<and> prepared L b
           \<and> stage_descriptors L a n b fsa = Inr ((a', b'), fsb)
           \<and> (fs ''generated/data.pkl'' = None \<longrightarrow>
                (\<exists>d g fsc d' g' fsd.
                   addDescriptors L a (descriptorConfigs False ''generated/pca_data.pkl'') fsa
                     = Inr ((d, g), fsc)
                   \<and> addDerived d = Inr a'
                   \<and> addDescriptors L b
                       (descriptorConfigs False ''generated/pca_data_IHS_gen.pkl'') fsc
                     = Inr ((d', g'), fsd)
                   \<and> addDerived d' = Inr b'))))
   \<and> (cache_prepared L fs \<longrightarrow>
        initial_and_descriptors (checked (prepared L) L) fs = initial_and_descriptors L fs)
   \<and> (fs ''generated/data_initial.pkl'' = None \<longrightarrow> cache_prepared L fs)"
proof -
  have c1: "loadSpectra L energyRange sf ihs fs = Inr ((all_data, names), fs') \<longrightarrow>
      (\<exists>exps. spectra all_data = limit L energyRange (smoothedTable L sf ihs exps)
         \<and> length exps = length (listdir L ''exp''))"
    using loadSpectra_spectra by blast
  have c2: "cache_prepared L fs \<and> stage_initial L fs = Inr ((a, n, b), fsa) \<longrightarrow>
        prepared L a \<and> prepared L b \<and> cache_prepared L fsa"
    using stage_initial_prepared by blast
  have c3: "fs ''generated/data_initial.pkl'' = None
        \<and> stage_initial L fs = Inr ((a, n, b), fsa) \<longrightarrow>
        fsa ''generated/data_initial.pkl'' = Some (Pickle (Tuple a n))
        \<and> fsa ''generated/data_initial_IHS_generated.pkl'' = Some (Pickle (Tuple b n))
        \<and> prepared L a \<and> prepared L b"
    using stage_initial_computed by blast
  have c4: "fsa ''generated/data.pkl'' = None
        \<and> stage_descriptors L a n b fsa = Inr ((a', b'), fsb) \<longrightarrow>
        (\<exists>d g fsc d' g' fsd.
           addDescriptors L a (descriptorConfigs False ''generated/pca_data.pkl'') fsa
             = Inr ((d, g), fsc)
           \<and> addDerived d = Inr a'
           \<and> addDescriptors L b (descriptorConfigs False ''generated/pca_data_IHS_gen.pkl'') fsc
             = Inr ((d', g'), fsd)
           \<and> addDerived d' = Inr b')"
  proof
    assume "fsa ''generated/data.pkl'' = None
        \<and> stage_descriptors L a n b fsa = Inr ((a', b'), fsb)"
    then have "fsa ''generated/data.pkl'' = None"
      "stage_descriptors L a n b fsa = Inr ((a', b'), fsb)" by simp_all
    then show "\<exists>d g fsc d' g' fsd.
           addDescriptors L a (descriptorConfigs False ''generated/pca_data.pkl'') fsa
             = Inr ((d, g), fsc)
           \<and> addDerived d = Inr a'
           \<and> addDescriptors L b (descriptorConfigs False ''generated/pca_data_IHS_gen.pkl'') fsc
             = Inr ((d', g'), fsd)
           \<and> addDerived d' = Inr b'"
      by (rule stage_descriptors_computed)
  qed
  have c5: "cache_prepared L fs
        \<and> initial_and_descriptors L fs = Inr ((a', n, b'), fsb) \<longrightarrow>
        (\<exists>a b fsa. stage_initial L fs = Inr ((a, n, b), fsa)
           \<and> prepared L a \<and> prepared L b
           \<and> stage_descriptors L a n b fsa = Inr ((a', b'), fsb)
           \<and> (fs ''generated/data.pkl'' = None \<longrightarrow>
                (\<exists>d g fsc d' g' fsd.
                   addDescriptors L a (descriptorConfigs False ''generated/pca_data.pkl'') fsa
                     = Inr ((d, g), fsc)
                   \<and> addDerived d = Inr a'
                   \<and> addDescriptors L b
                       (descriptorConfigs False ''generated/pca_data_IHS_gen.pkl'') fsc
                     = Inr ((d', g'), fsd)
                   \<and> addDerived d' = Inr b')))"
  proof
    assume h: "cache_prepared L fs
        \<and> initial_and_descriptors L fs = Inr ((a', n, b'), fsb)"
    then have inv: "cache_prepared L fs"
      and run: "initial_and_descriptors L fs = Inr ((a', n, b'), fsb)" by simp_all
    from initial_and_descriptors_Inr [OF run] obtain x y fsx where
      st: "stage_initial L fs = Inr ((x, n, y), fsx)"
      and sd: "stage_descriptors L x n y fsx = Inr ((a', b'), fsb)" by blast
    from stage_initial_prepared [OF inv st] have pr: "prepared L x" "prepared L y" by simp_all
    have de: "fs ''generated/data.pkl'' = None \<longrightarrow>
                (\<exists>d g fsc d' g' fsd.
                   addDescriptors L x (descriptorConfigs False ''generated/pca_data.pkl'') fsx
                     = Inr ((d, g), fsc)
                   \<and> addDerived d = Inr a'
                   \<and> addDescriptors L y
                       (descriptorConfigs False ''generated/pca_data_IHS_gen.pkl'') fsc
                     = Inr ((d', g'), fsd)
                   \<and> addDerived d' = Inr b')"
    proof
      assume "fs ''generated/data.pkl'' = None"
      with stage_initial_files [OF st] have "fsx ''generated/data.pkl'' = None" by simp
      then show "\<exists>d g fsc d' g' fsd.
                   addDescriptors L x (descriptorConfigs False ''generated/pca_data.pkl'') fsx
                     = Inr ((d, g), fsc)
                   \<and> addDerived d = Inr a'
                   \<and> addDescriptors L y
                       (descriptorConfigs False ''generated/pca_data_IHS_gen.pkl'') fsc
                     = Inr ((d', g'), fsd)
                   \<and> addDerived d' = Inr b'"
        using sd by (rule stage_descriptors_computed)
    qed
    show "(\<exists>a b fsa. stage_initial L fs = Inr ((a, n, b), fsa)
              \<and> prepared L a \<and> prepared L b
              \<and> stage_descriptors L a n b fsa = Inr ((a', b'), fsb)
              \<and> (fs ''generated/data.pkl'' = None \<longrightarrow>
                   (\<exists>d g fsc d' g' fsd.
                      addDescriptors L a (descriptorConfigs False ''generated/pca_data.pkl'') fsa
                        = Inr ((d, g), fsc)
                      \<and> addDerived d = Inr a'
                      \<and> addDescriptors L b
                          (descriptorConfigs False ''generated/pca_data_IHS_gen.pkl'') fsc
                        = Inr ((d', g'), fsd)
                      \<and> addDerived d' = Inr b')))"
      by (intro exI [of _ x] exI [of _ y] exI [of _ fsx] conjI st pr sd de)
  qed
  have c6: "cache_prepared L fs \<longrightarrow>
        initial_and_descriptors (checked (prepared L) L) fs = initial_and_descriptors L fs"
    using initial_and_descriptors_checked by blast
  have c7: "fs ''generated/data_initial.pkl'' = None \<longrightarrow> cache_prepared L fs"
    by (simp add: cache_prepared_def)
  from c1 c2 c3 c4 c5 c6 c7 show ?thesis by (intro conjI)
qed

lemma series_arith_replicate:
  "series_arith f (replicate n (Float a)) (replicate n (Float b)) = Inr (replicate n (Float (f a b)))"
  by (induction n) simp_all

lemma column_descr0:
  "column (descr0 s) ''Pit_e'' = Inr (replicate (length (params s)) (Float (Fin 7150)))"
  "column (descr0 s) ''WL_e'' = Inr (replicate (length (params s)) (Float (Fin 7130)))"
  "column (descr0 s) ''WL_i'' = Inr (replicate (length (params s)) (Float (Fin 2)))"
  "column (descr0 s) ''Pit_i'' = Inr (replicate (length (params s)) (Float (Fin 1)))"
  by (simp_all add: column_def descr0_def map_replicate_const comp_def)

lemma calc_descriptors_lib0_any:
  "\<exists>r. calc_descriptors lib0 s u f fs = Inr (r, fs)"
proof -
  have "addDescriptors lib0 s cfgs fs = Inr ((descr0 s, [0..<length (params s)]), fs)" for cfgs
    by (simp add: lib0_def)
  moreover have "\<exists>s'. addDerived (descr0 s) = Inr s'"
    by (simp add: addDerived_def column_descr0 series_arith_replicate)
  ultimately show ?thesis by (auto simp: calc_descriptors_def)
qed

lemma stages_lib0:
  "\<exists>a b fsa x y fsb.
      stage_initial lib0 Map.empty = Inr ((a, [''a''], b), fsa)
      \<and> fsa ''generated/data.pkl'' = None
      \<and> stage_initial lib0 fsa = Inr ((a, [''a''], b), fsa)
      \<and> stage_descriptors lib0 a [''a''] b fsa = Inr ((x, y), fsb)"
proof -
  from loadSpectra_lib0_returns obtain a fsa where
    run1: "loadSpectra lib0 (Some (7100, 7200)) ''samples'' False Map.empty
      = Inr ((a, [''a'']), fsa)" by blast
  from loadSpectra_lib0_returns obtain b fsb where
    run2: "loadSpectra lib0 (Some (7100, 7200)) ''samples'' True fsa
      = Inr ((b, [''a'']), fsb)" by blast
  let ?fs = "fsb(''generated/data_initial.pkl'' \<mapsto> Pickle (Tuple a [''a'']),
      ''generated/data_initial_IHS_generated.pkl'' \<mapsto> Pickle (Tuple b [''a'']))"
  have st1: "stage_initial lib0 Map.empty = Inr ((a, [''a''], b), ?fs)"
    using run1 run2 by (simp add: stage_initial_miss)
  have st2: "stage_initial lib0 ?fs = Inr ((a, [''a''], b), ?fs)"
    by (rule stage_initial_hit) simp_all
  have p: "\<forall>CN. ''generated/data.pkl''
      \<noteq> ''generated/samples/sample_'' @ str_nat CN @ ''_IHS_generated''" by simp
  have "fsb ''generated/data.pkl'' = None"
    using loadSpectra_files [OF run1 p] loadSpectra_files [OF run2 p] by simp
  then have None: "?fs ''generated/data.pkl'' = None" by simp
  from calc_descriptors_lib0_any obtain x g where
    c1: "calc_descriptors lib0 a False ''generated/pca_data.pkl'' ?fs = Inr ((x, g), ?fs)"
    by (metis surj_pair)
  from calc_descriptors_lib0_any obtain y g' where
    c2: "calc_descriptors lib0 b False ''generated/pca_data_IHS_gen.pkl'' ?fs = Inr ((y, g'), ?fs)"
    by (metis surj_pair)
  note sd = stage_descriptors_miss [OF None c1 c2, of "[''a'']"]
  from st1 None st2 sd show ?thesis by blast
qed

lemma not_prepared_sample0: "\<not> prepared lib0 sample0"
proof
  assume "prepared lib0 sample0"
  then obtain ihs exps where
    "spectra sample0 = limit lib0 (Some (7100, 7200)) (smoothedTable lib0 ''samples'' ihs exps)"
    unfolding prepared_def by blast
  then have "intensities (spectra sample0)
      = intensities (smoothedTable lib0 ''samples'' ihs exps)"
    by (simp add: lib0_def)
  then show False
    by (simp add: smoothedTable_def smoothed_lib0 pairs_eval sample0_def)
qed

theorem descriptors_after_smoothing_witness:
  "cache_prepared lib0 Map.empty
   \<and> \<not> prepared lib0 sample0
   \<and> (\<exists>a b fsa.
         stage_initial lib0 Map.empty = Inr ((a, [''a''], b), fsa)
         \<and> prepared lib0 a \<and> prepared lib0 b \<and> cache_prepared lib0 fsa
         \<and> fsa ''generated/data_initial.pkl'' = Some (Pickle (Tuple a [''a'']))
         \<and> fsa ''generated/data_initial_IHS_generated.pkl'' = Some (Pickle (Tuple b [''a'']))
         \<and> (\<exists>x y fsb. initial_and_descriptors (checked (prepared lib0) lib0) fsa
                = Inr ((x, [''a''], y), fsb))
         \<and> (\<exists>d g fsc d' g' fsd x y.
               addDescriptors lib0 a (descriptorConfigs False ''generated/pca_data.pkl'') fsa
                 = Inr ((d, g), fsc)
               \<and> addDerived d = Inr x
               \<and> addDescriptors lib0 b
                   (descriptorConfigs False ''generated/pca_data_IHS_gen.pkl'') fsc
                 = Inr ((d', g'), fsd)
               \<and> addDerived d' = Inr y))
   \<and> (\<exists>x y fsb a b fsa.
         initial_and_descriptors lib0 Map.empty = Inr ((x, [''a''], y), fsb)
         \<and> stage_initial lib0 Map.empty = Inr ((a, [''a''], b), fsa)
         \<and> prepared lib0 a \<and> prepared lib0 b
         \<and> (\<exists>d g fsc d' g' fsd.
               addDescriptors lib0 a (descriptorConfigs False ''generated/pca_data.pkl'') fsa
                 = Inr ((d, g), fsc)
               \<and> addDerived d = Inr x
               \<and> addDescriptors lib0 b
                   (descriptorConfigs False ''generated/pca_data_IHS_gen.pkl'') fsc
                 = Inr ((d', g'), fsd)
               \<and> addDerived d' = Inr y))
   \<and> (\<exists>all_data fs' exps.
         loadSpectra lib0 (Some (7100, 7200)) ''samples'' False Map.empty
           = Inr ((all_data, [''a'']), fs')
         \<and> spectra all_data
             = limit lib0 (Some (7100, 7200)) (smoothedTable lib0 ''samples'' False exps)
         \<and> length exps = 1)"
proof -
  have e: "(Map.empty :: files) ''generated/data_initial.pkl'' = None" by simp
  have inv: "cache_prepared lib0 Map.empty"
    by (rule descriptors_after_smoothing [where L = lib0 and fs = Map.empty,
          THEN conjunct2, THEN conjunct2, THEN conjunct2, THEN conjunct2, THEN conjunct2,
          THEN conjunct2, THEN mp])
      (rule e)
  from stages_lib0 obtain a b fsa x y fsb where
    st1: "stage_initial lib0 Map.empty = Inr ((a, [''a''], b), fsa)"
    and q: "fsa ''generated/data.pkl'' = None"
    and st2: "stage_initial lib0 fsa = Inr ((a, [''a''], b), fsa)"
    and sd: "stage_descriptors lib0 a [''a''] b fsa = Inr ((x, y), fsb)" by blast
  note T = descriptors_after_smoothing [where L = lib0 and fs = Map.empty
      and a = a and b = b and n = "[''a'']" and fsa = fsa and a' = x and b' = y and fsb = fsb]
  have prep: "prepared lib0 a \<and> prepared lib0 b \<and> cache_prepared lib0 fsa"
    by (rule T [THEN conjunct2, THEN conjunct1, THEN mp]) (intro conjI inv st1)
  have wr: "fsa ''generated/data_initial.pkl'' = Some (Pickle (Tuple a [''a'']))
      \<and> fsa ''generated/data_initial_IHS_generated.pkl'' = Some (Pickle (Tuple b [''a'']))
      \<and> prepared lib0 a \<and> prepared lib0 b"
    by (rule T [THEN conjunct2, THEN conjunct2, THEN conjunct1, THEN mp]) (intro conjI e st1)
  have der: "\<exists>d g fsc d' g' fsd.
      addDescriptors lib0 a (descriptorConfigs False ''generated/pca_data.pkl'') fsa
        = Inr ((d, g), fsc)
      \<and> addDerived d = Inr x
      \<and> addDescriptors lib0 b (descriptorConfigs False ''generated/pca_data_IHS_gen.pkl'') fsc
        = Inr ((d', g'), fsd)
      \<and> addDerived d' = Inr y"
    by (rule T [THEN conjunct2, THEN conjunct2, THEN conjunct2, THEN conjunct1, THEN mp])
      (intro conjI q sd)
  have "initial_and_descriptors (checked (prepared lib0) lib0) fsa
      = initial_and_descriptors lib0 fsa"
    by (rule descriptors_after_smoothing [where L = lib0 and fs = fsa,
          THEN conjunct2, THEN conjunct2, THEN conjunct2, THEN conjunct2, THEN conjunct2,
          THEN conjunct1, THEN mp])
      (rule prep [THEN conjunct2, THEN conjunct2])
  also have "initial_and_descriptors lib0 fsa = Inr ((x, [''a''], y), fsb)"
    by (simp add: initial_and_descriptors_def st2 sd)
  finally have chk: "\<exists>x y fsb. initial_and_descriptors (checked (prepared lib0) lib0) fsa
      = Inr ((x, [''a''], y), fsb)" by blast
  have run0: "initial_and_descriptors lib0 Map.empty = Inr ((x, [''a''], y), fsb)"
    by (simp add: initial_and_descriptors_def st1 sd)
  have "\<exists>a b fsa. stage_initial lib0 Map.empty = Inr ((a, [''a''], b), fsa)
      \<and> prepared lib0 a \<and> prepared lib0 b
      \<and> stage_descriptors lib0 a [''a''] b fsa = Inr ((x, y), fsb)
      \<and> ((Map.empty :: files) ''generated/data.pkl'' = None \<longrightarrow>
           (\<exists>d g fsc d' g' fsd.
            addDescriptors lib0 a (descriptorConfigs False ''generated/pca_data.pkl'') fsa
              = Inr ((d, g), fsc)
            \<and> addDerived d = Inr x
            \<and> addDescriptors lib0 b
                (descriptorConfigs False ''generated/pca_data_IHS_gen.pkl'') fsc
              = Inr ((d', g'), fsd)
            \<and> addDerived d' = Inr y))"
    by (rule T [THEN conjunct2, THEN conjunct2, THEN conjunct2, THEN conjunct2, THEN conjunct1,
          THEN mp])
      (intro conjI inv run0)
  then have whole: "\<exists>a b fsa. stage_initial lib0 Map.empty = Inr ((a, [''a''], b), fsa)
      \<and> prepared lib0 a \<and> prepared lib0 b
      \<and> stage_descriptors lib0 a [''a''] b fsa = Inr ((x, y), fsb)
      \<and> (\<exists>d g fsc d' g' fsd.
            addDescriptors lib0 a (descriptorConfigs False ''generated/pca_data.pkl'') fsa
              = Inr ((d, g), fsc)
            \<and> addDerived d = Inr x
            \<and> addDescriptors lib0 b
                (descriptorConfigs False ''generated/pca_data_IHS_gen.pkl'') fsc
              = Inr ((d', g'), fsd)
            \<and> addDerived d' = Inr y)"
    by simp
  from loadSpectra_lib0_returns obtain all_data fs' where
    run: "loadSpectra lib0 (Some (7100, 7200)) ''samples'' False Map.empty
      = Inr ((all_data, [''a'']), fs')" by blast
  have "\<exists>exps. spectra all_data
      = limit lib0 (Some (7100, 7200)) (smoothedTable lib0 ''samples'' False exps)
    \<and> length exps = length (listdir lib0 ''exp'')"
    by (rule descriptors_after_smoothing [where L = lib0 and fs = Map.empty
          and energyRange = "Some (7100, 7200)" and sf = "''samples''" and ihs = False
          and names = "[''a'']", THEN conjunct1, THEN mp])
      (rule run)
  then have cf: "\<exists>exps. spectra all_data
      = limit lib0 (Some (7100, 7200)) (smoothedTable lib0 ''samples'' False exps)
    \<and> length exps = 1"
    by (simp add: lib0_def)
  have first: "\<exists>a b fsa.
         stage_initial lib0 Map.empty = Inr ((a, [''a''], b), fsa)
         \<and> prepared lib0 a \<and> prepared lib0 b \<and> cache_prepared lib0 fsa
         \<and> fsa ''generated/data_initial.pkl'' = Some (Pickle (Tuple a [''a'']))
         \<and> fsa ''generated/data_initial_IHS_generated.pkl'' = Some (Pickle (Tuple b [''a'']))
         \<and> (\<exists>x y fsb. initial_and_descriptors (checked (prepared lib0) lib0) fsa
                = Inr ((x, [''a''], y), fsb))
         \<and> (\<exists>d g fsc d' g' fsd x y.
               addDescriptors lib0 a (descriptorConfigs False ''generated/pca_data.pkl'') fsa
                 = Inr ((d, g), fsc)
               \<and> addDerived d = Inr x
               \<and> addDescriptors lib0 b
                   (descriptorConfigs False ''generated/pca_data_IHS_gen.pkl'') fsc
                 = Inr ((d', g'), fsd)
               \<and> addDerived d' = Inr y)"
    using st1 prep wr chk der by (intro exI [of _ a] exI [of _ b] exI [of _ fsa]) blast
  from run cf have last: "\<exists>all_data fs' exps.
         loadSpectra lib0 (Some (7100, 7200)) ''samples'' False Map.empty
           = Inr ((all_data, [''a'']), fs')
         \<and> spectra all_data
             = limit lib0 (Some (7100, 7200)) (smoothedTable lib0 ''samples'' False exps)
         \<and> length exps = 1" by blast
  from whole have whole': "\<exists>x y fsb a b fsa.
      initial_and_descriptors lib0 Map.empty = Inr ((x, [''a''], y), fsb)
      \<and> stage_initial lib0 Map.empty = Inr ((a, [''a''], b), fsa)
      \<and> prepared lib0 a \<and> prepared lib0 b
      \<and> (\<exists>d g fsc d' g' fsd.
            addDescriptors lib0 a (descriptorConfigs False ''generated/pca_data.pkl'') fsa
              = Inr ((d, g), fsc)
            \<and> addDerived d = Inr x
            \<and> addDescriptors lib0 b
                (descriptorConfigs False ''generated/pca_data_IHS_gen.pkl'') fsc
              = Inr ((d', g'), fsd)
            \<and> addDerived d' = Inr y)"
    using run0 by blast
  from inv not_prepared_sample0 first whole' last show ?thesis by (intro conjI)
qed

end
